theory Spec2Isabelle
  imports Main
begin

section \<open>Basic values: errors, conditions, status codes\<close>

text \<open>
  Go errors are values. \<open>ErrCompareStateRepo\<close> is the package-level sentinel
  \<^verbatim>\<open>errors.New("failed to get repo objects")\<close>; \<open>Err\<close> is any other error with
  its message; \<open>Wrap p e\<close> is \<^verbatim>\<open>fmt.Errorf(p + "%w", e)\<close>; \<open>Panic\<close> is a run-time
  panic (an index out of range), which no \<^verbatim>\<open>if err != nil\<close> intercepts.
\<close>

datatype error = ErrCompareStateRepo | Err string | Wrap string error | Panic string

fun Error :: "error \<Rightarrow> string" where
  "Error ErrCompareStateRepo = ''failed to get repo objects''"
| "Error (Err m) = m"
| "Error (Wrap p e) = p @ Error e"
| "Error (Panic m) = m"

fun isPanic :: "error \<Rightarrow> bool" where
  "isPanic (Panic m) = True"
| "isPanic e = False"

text \<open>Wall-clock readings and durations, in one unit (nanoseconds).\<close>

type_synonym time = int

text \<open>
  \<^verbatim>\<open>v1alpha1.SyncStatusCode\<close> and \<^verbatim>\<open>health.HealthStatusCode\<close> are Go string types; the
  zero value of a status field is the empty string.
\<close>

type_synonym SyncStatusCode = string

definition SyncStatusCodeUnknown :: SyncStatusCode where
  "SyncStatusCodeUnknown = ''Unknown''"

definition SyncStatusCodeSynced :: SyncStatusCode where
  "SyncStatusCodeSynced = ''Synced''"

definition SyncStatusCodeOutOfSync :: SyncStatusCode where
  "SyncStatusCodeOutOfSync = ''OutOfSync''"

type_synonym HealthStatusCode = string

definition HealthStatusUnknown :: HealthStatusCode where
  "HealthStatusUnknown = ''Unknown''"

datatype ApplicationConditionType =
    ApplicationConditionComparisonError
  | ApplicationConditionSharedResourceWarning
  | ApplicationConditionRepeatedResourceWarning
  | ApplicationConditionExcludedResourceWarning
  | ApplicationConditionInvalidSpecError
  | ApplicationConditionUnknownError

text \<open>
  An application condition. Its \<^verbatim>\<open>LastTransitionTime\<close> (the wall-clock reading
  \<^verbatim>\<open>metav1.Now()\<close> taken when the condition is built) is not part of the model.
\<close>

record ApplicationCondition =
  cond_Type :: ApplicationConditionType
  cond_Message :: string

section \<open>Cluster objects\<close>

text \<open>
  An \<^verbatim>\<open>unstructured.Unstructured\<close> document, reduced to the metadata the comparison
  reads and writes. A Go pointer \<^verbatim>\<open>*unstructured.Unstructured\<close> that may be nil is an
  \<open>Unstructured option\<close>.
\<close>

record Unstructured =
  obj_Group :: string
  obj_Version :: string
  obj_Kind :: string
  obj_Namespace :: string
  obj_Name :: string
  obj_GenerateName :: string
  obj_ResourceVersion :: string
  obj_Annotations :: "(string \<times> string) list"

type_synonym GroupKind = "string \<times> string"

definition GroupKind_of :: "Unstructured \<Rightarrow> GroupKind" where
  "GroupKind_of obj = (obj_Group obj, obj_Kind obj)"

record ResourceKey =
  key_Group :: string
  key_Kind :: string
  key_Namespace :: string
  key_Name :: string

text \<open>\<^verbatim>\<open>kubeutil.GetResourceKey\<close> and \<^verbatim>\<open>ResourceKey.String\<close> of the gitops-engine library.\<close>

definition GetResourceKey :: "Unstructured \<Rightarrow> ResourceKey" where
  "GetResourceKey obj =
     \<lparr>key_Group = obj_Group obj, key_Kind = obj_Kind obj,
      key_Namespace = obj_Namespace obj, key_Name = obj_Name obj\<rparr>"

definition ResourceKey_String :: "ResourceKey \<Rightarrow> string" where
  "ResourceKey_String k =
     key_Group k @ ''/'' @ key_Kind k @ ''/'' @ key_Namespace k @ ''/'' @ key_Name k"

text \<open>
  A \<^verbatim>\<open>kubeutil.ResourceInfoProvider\<close>: \<^verbatim>\<open>IsNamespaced\<close> answers or fails.
  \<^verbatim>\<open>kubeutil.IsNamespacedOrUnknown\<close> treats a failure as namespaced.
\<close>

type_synonym ResourceInfoProvider = "GroupKind \<Rightarrow> error + bool"

definition IsNamespacedOrUnknown :: "ResourceInfoProvider \<Rightarrow> GroupKind \<Rightarrow> bool" where
  "IsNamespacedOrUnknown infoProvider gk =
     (case infoProvider gk of Inl e \<Rightarrow> True | Inr b \<Rightarrow> b)"

definition resourceInfoProviderStub :: ResourceInfoProvider where
  "resourceInfoProviderStub = (\<lambda>gk. Inr False)"

section \<open>Decimal rendering\<close>

text \<open>The \<^verbatim>\<open>%d\<close> verb of \<^verbatim>\<open>fmt.Sprintf\<close> on a non-negative integer.\<close>

definition digit_char :: "nat \<Rightarrow> char" where
  "digit_char d = char_of (48 + d)"

fun itoa :: "nat \<Rightarrow> string" where
  "itoa n = (if n < 10 then [digit_char n] else itoa (n div 10) @ [digit_char (n mod 10)])"

declare itoa.simps [simp del]

section \<open>Object Normalizer: DeduplicateTargetObjects\<close>

text \<open>
  The first loop of \<^verbatim>\<open>DeduplicateTargetObjects\<close> sets the namespace of each non-nil
  object in place and appends it to \<^verbatim>\<open>targetByKey[key]\<close>. The Go map is an association
  list here, each key once, in the order the keys were first inserted; Go iterates a
  map in no fixed order, so only order-independent facts are proved about it.
\<close>

definition setTargetNamespace :: "ResourceInfoProvider \<Rightarrow> string \<Rightarrow> Unstructured \<Rightarrow> Unstructured" where
  "setTargetNamespace infoProvider namespace obj =
     (if \<not> IsNamespacedOrUnknown infoProvider (GroupKind_of obj) then obj\<lparr>obj_Namespace := ''''\<rparr>
      else if obj_Namespace obj = '''' then obj\<lparr>obj_Namespace := namespace\<rparr>
      else obj)"

definition targetKey :: "nat \<Rightarrow> Unstructured \<Rightarrow> ResourceKey" where
  "targetKey i obj =
     (let key = GetResourceKey obj in
      if key_Name key = '''' \<and> obj_GenerateName obj \<noteq> ''''
      then key\<lparr>key_Name := obj_GenerateName obj @ itoa i\<rparr>
      else key)"

fun appendByKey ::
  "(ResourceKey \<times> Unstructured list) list \<Rightarrow> ResourceKey \<Rightarrow> Unstructured \<Rightarrow>
   (ResourceKey \<times> Unstructured list) list" where
  "appendByKey [] key obj = [(key, [obj])]"
| "appendByKey ((k, targets) # m) key obj =
     (if k = key then (k, targets @ [obj]) # m else (k, targets) # appendByKey m key obj)"

fun groupTargets ::
  "ResourceInfoProvider \<Rightarrow> string \<Rightarrow> nat \<Rightarrow> Unstructured option list \<Rightarrow>
   (ResourceKey \<times> Unstructured list) list \<Rightarrow> (ResourceKey \<times> Unstructured list) list" where
  "groupTargets infoProvider namespace i [] m = m"
| "groupTargets infoProvider namespace i (None # objs) m =
     groupTargets infoProvider namespace (Suc i) objs m"
| "groupTargets infoProvider namespace i (Some obj # objs) m =
     (let obj' = setTargetNamespace infoProvider namespace obj;
          key = targetKey i obj'
      in groupTargets infoProvider namespace (Suc i) objs (appendByKey m key obj'))"

definition targetByKey ::
  "string \<Rightarrow> Unstructured option list \<Rightarrow> ResourceInfoProvider \<Rightarrow>
   (ResourceKey \<times> Unstructured list) list" where
  "targetByKey namespace objs infoProvider = groupTargets infoProvider namespace 0 objs []"

definition repeatedResourceCondition :: "ResourceKey \<Rightarrow> nat \<Rightarrow> ApplicationCondition" where
  "repeatedResourceCondition key n =
     \<lparr>cond_Type = ApplicationConditionRepeatedResourceWarning,
      cond_Message = ''Resource '' @ ResourceKey_String key @ '' appeared '' @ itoa n
                     @ '' times among application resources.''\<rparr>"

text \<open>One iteration of the second loop: the condition it appends (if any) and the object it keeps.\<close>

definition dedupConditionsOf :: "ResourceKey \<times> Unstructured list \<Rightarrow> ApplicationCondition list" where
  "dedupConditionsOf kt =
     (if length (snd kt) > 1 then [repeatedResourceCondition (fst kt) (length (snd kt))] else [])"

definition dedupResultOf :: "ResourceKey \<times> Unstructured list \<Rightarrow> Unstructured" where
  "dedupResultOf kt = last (snd kt)"

definition DeduplicateTargetObjects ::
  "string \<Rightarrow> Unstructured option list \<Rightarrow> ResourceInfoProvider \<Rightarrow>
   Unstructured list \<times> ApplicationCondition list \<times> error option" where
  "DeduplicateTargetObjects namespace objs infoProvider =
     (let m = targetByKey namespace objs infoProvider
      in (map dedupResultOf m, concat (map dedupConditionsOf m), None))"

text \<open>
  The input seen the way the first loop sees it: every non-nil object, in input order,
  with its namespace set and the key it is filed under.
\<close>

fun keyedTargets ::
  "ResourceInfoProvider \<Rightarrow> string \<Rightarrow> nat \<Rightarrow> Unstructured option list \<Rightarrow>
   (ResourceKey \<times> Unstructured) list" where
  "keyedTargets infoProvider namespace i [] = []"
| "keyedTargets infoProvider namespace i (None # objs) =
     keyedTargets infoProvider namespace (Suc i) objs"
| "keyedTargets infoProvider namespace i (Some obj # objs) =
     (let obj' = setTargetNamespace infoProvider namespace obj
      in (targetKey i obj', obj') # keyedTargets infoProvider namespace (Suc i) objs)"

definition targetsSharing ::
  "string \<Rightarrow> Unstructured option list \<Rightarrow> ResourceInfoProvider \<Rightarrow> ResourceKey \<Rightarrow> Unstructured list" where
  "targetsSharing namespace objs infoProvider key =
     map snd (filter (\<lambda>ko. fst ko = key) (keyedTargets infoProvider namespace 0 objs))"

text \<open>
  The resource key as the specification words it, for the object at position \<open>i\<close> of
  the input: group and kind of the object; the namespace after normalization (empty
  for a group-kind known to be cluster-scoped, the application's namespace for an
  object without one, its own otherwise); the name, or the generated name followed by
  the position when the name is empty and a generated name is set. The objects of the
  input that share a key are kept with their positions, in input order.
\<close>

definition spec_namespaceOf :: "ResourceInfoProvider \<Rightarrow> string \<Rightarrow> Unstructured \<Rightarrow> string" where
  "spec_namespaceOf infoProvider namespace obj =
     (if infoProvider (obj_Group obj, obj_Kind obj) = Inr False then ''''
      else if obj_Namespace obj = '''' then namespace
      else obj_Namespace obj)"

definition spec_nameOf :: "nat \<Rightarrow> Unstructured \<Rightarrow> string" where
  "spec_nameOf i obj =
     (if obj_Name obj = '''' \<and> obj_GenerateName obj \<noteq> '''' then obj_GenerateName obj @ itoa i
      else obj_Name obj)"

definition spec_sharesKey ::
  "ResourceInfoProvider \<Rightarrow> string \<Rightarrow> ResourceKey \<Rightarrow> nat \<times> Unstructured option \<Rightarrow> bool" where
  "spec_sharesKey infoProvider namespace key io =
     (case snd io of
        None \<Rightarrow> False
      | Some obj \<Rightarrow>
          key_Group key = obj_Group obj \<and> key_Kind key = obj_Kind obj
          \<and> key_Namespace key = spec_namespaceOf infoProvider namespace obj
          \<and> key_Name key = spec_nameOf (fst io) obj)"

definition spec_objectsSharing ::
  "string \<Rightarrow> Unstructured option list \<Rightarrow> ResourceInfoProvider \<Rightarrow> ResourceKey
   \<Rightarrow> (nat \<times> Unstructured option) list" where
  "spec_objectsSharing namespace objs infoProvider key =
     filter (spec_sharesKey infoProvider namespace key) (enumerate 0 objs)"

section \<open>Applications, projects and render responses\<close>

text \<open>
  The \<^verbatim>\<open>v1alpha1\<close> API types, with the fields the state manager reads. Opaque
  policy values (an ignore-differences rule, managed-namespace metadata) are kept as
  strings that are only passed on and compared.
\<close>

record ApplicationSource =
  src_RepoURL :: string
  src_Path :: string
  src_TargetRevision :: string
  src_Chart :: string
  src_Ref :: string

definition ApplicationSource_zero :: ApplicationSource where
  "ApplicationSource_zero =
     \<lparr>src_RepoURL = [], src_Path = [], src_TargetRevision = [], src_Chart = [], src_Ref = []\<rparr>"

record ApplicationDestination =
  dest_Server :: string
  dest_Namespace :: string
  dest_Name :: string

record SyncPolicy =
  sp_ManagedNamespaceMetadata :: "string option"
  sp_SyncOptions :: "string list"

record ApplicationSpec =
  spec_Source :: "ApplicationSource option"
  spec_Destination :: ApplicationDestination
  spec_Project :: string
  spec_SyncPolicy :: "SyncPolicy option"
  spec_IgnoreDifferences :: "string list"
  spec_Sources :: "ApplicationSource list"

record ComparedTo =
  ct_Source :: ApplicationSource
  ct_Destination :: ApplicationDestination
  ct_Sources :: "ApplicationSource list"
  ct_IgnoreDifferences :: "string list"

record SyncStatus =
  ss_Status :: SyncStatusCode
  ss_ComparedTo :: ComparedTo
  ss_Revision :: string
  ss_Revisions :: "string list"

record ApplicationStatus =
  status_Sync :: SyncStatus
  status_Conditions :: "ApplicationCondition list"
  status_ReconciledAt :: "time option"

record Application =
  app_Name :: string
  app_Namespace :: string
  app_Annotations :: "(string \<times> string) list"
  app_Spec :: ApplicationSpec
  app_Status :: ApplicationStatus

record AppProject =
  proj_Name :: string
  proj_SourceRepos :: "string list"
  proj_SignatureKeys :: "string list"

record Cluster =
  cluster_Server :: string
  cluster_Name :: string

record ManifestResponse =
  mr_Manifests :: "string list"
  mr_Revision :: string
  mr_SourceType :: string
  mr_VerifyResult :: string

text \<open>The tracking id of a resource (\<^verbatim>\<open>argo.AppInstanceValue\<close>).\<close>

record AppInstanceValue =
  aiv_ApplicationName :: string
  aiv_Group :: string
  aiv_Kind :: string
  aiv_Namespace :: string
  aiv_Name :: string

text \<open>The parsed output of a commit verification (\<^verbatim>\<open>gpg.PGPVerifyResult\<close>).\<close>

record PGPVerifyResult =
  vr_Result :: string
  vr_KeyID :: string
  vr_Cipher :: string
  vr_Message :: string

definition VerifyResultGood :: string where
  "VerifyResultGood = ''Good''"

definition VerifyResultInvalid :: string where
  "VerifyResultInvalid = ''Invalid''"

definition TrackingMethodLabel :: string where
  "TrackingMethodLabel = ''label''"

section \<open>Comparison results\<close>

record DiffResult =
  dr_Modified :: bool
  dr_NormalizedLive :: string
  dr_PredictedLive :: string

record DiffResultList =
  drl_Diffs :: "DiffResult list"
  drl_Modified :: bool

record ReconciliationResult =
  rr_Live :: "Unstructured option list"
  rr_Target :: "Unstructured option list"
  rr_Hooks :: "Unstructured list"

text \<open>
  \<^verbatim>\<open>v1alpha1.ResourceStatus\<close> without its health, which only
  \<^verbatim>\<open>setApplicationHealth\<close> fills in.
\<close>

record ResourceStatus =
  rs_Group :: string
  rs_Version :: string
  rs_Kind :: string
  rs_Namespace :: string
  rs_Name :: string
  rs_Status :: SyncStatusCode
  rs_Hook :: bool
  rs_RequiresPruning :: bool
  rs_RequiresDeletionConfirmation :: bool
  rs_SyncWave :: int

definition ResourceStatus_zero :: ResourceStatus where
  "ResourceStatus_zero =
     \<lparr>rs_Group = [], rs_Version = [], rs_Kind = [], rs_Namespace = [], rs_Name = [],
      rs_Status = [], rs_Hook = False, rs_RequiresPruning = False,
      rs_RequiresDeletionConfirmation = False, rs_SyncWave = 0\<rparr>"

record managedResource =
  mres_Target :: "Unstructured option"
  mres_Live :: "Unstructured option"
  mres_Diff :: DiffResult
  mres_Group :: string
  mres_Version :: string
  mres_Kind :: string
  mres_Namespace :: string
  mres_Name :: string
  mres_Hook :: bool
  mres_ResourceVersion :: string

definition DiffResult_zero :: DiffResult where
  "DiffResult_zero = \<lparr>dr_Modified = False, dr_NormalizedLive = [], dr_PredictedLive = []\<rparr>"

definition managedResource_zero :: managedResource where
  "managedResource_zero =
     \<lparr>mres_Target = None, mres_Live = None, mres_Diff = DiffResult_zero, mres_Group = [],
      mres_Version = [], mres_Kind = [], mres_Namespace = [], mres_Name = [],
      mres_Hook = False, mres_ResourceVersion = []\<rparr>"

text \<open>
  What the \<^verbatim>\<open>argodiff.DiffConfigBuilder\<close> has been told by the time \<^verbatim>\<open>Build\<close> is
  called.
\<close>

record DiffConfig =
  dc_Ignores :: "string list"
  dc_Overrides :: string
  dc_IgnoreAggregatedRoles :: bool
  dc_AppLabelKey :: string
  dc_TrackingMethod :: string
  dc_NoCache :: bool
  dc_CacheAppName :: string
  dc_IgnoreMutationWebhook :: bool
  dc_GVKParser :: "string option"
  dc_ServerSideDiff :: bool
  dc_ServerSideDryRunner :: "string option"
  dc_StructuredMergeDiff :: bool

text \<open>
  \<^verbatim>\<open>comparisonResult\<close> without its timings. Pointer fields that the early return
  leaves nil are options.
\<close>

record comparisonResult =
  res_syncStatus :: SyncStatus
  res_healthStatus :: HealthStatusCode
  res_resources :: "ResourceStatus list"
  res_managedResources :: "managedResource list"
  res_reconciliationResult :: ReconciliationResult
  res_diffConfig :: "DiffConfig option"
  res_appSourceType :: string
  res_appSourceTypes :: "string list"
  res_diffResultList :: "DiffResultList option"
  res_hasPostDeleteHooks :: bool
  res_revisionsMayHaveChanges :: bool

section \<open>Collaborators\<close>

text \<open>
  The state manager reaches everything outside the decision logic through its
  collaborators: the settings manager, the database, the live-state cache, the
  repo-server client and the resource-tracking implementation. Each is a record of the
  methods the state manager calls; a method that can fail returns \<open>error + result\<close>, and
  a method that returns a Go pair \<^verbatim>\<open>(value, error)\<close> of which both parts are read
  returns the pair. A settings lookup gives the same answer each time it is made during
  one pass. Handles that are only passed on (a repository, credentials, overrides,
  settings bundles) are strings.
\<close>

type_synonym Repository = string
type_synonym RepoCreds = string

record SettingsManager =
  sm_GetResourceOverrides :: "error + string"
  sm_GetAppInstanceLabelKey :: "error + string"
  sm_GetResourcesFilter :: "error + (string \<Rightarrow> string \<Rightarrow> string \<Rightarrow> bool)"
  sm_GetInstallationID :: "error + string"
  sm_GetTrackingMethod :: "error + string"
  sm_GetEnabledSourceTypes :: "error + string"
  sm_GetKustomizeSettings :: "error + string"
  sm_GetHelmSettings :: "error + string"
  sm_GetResourceCompareOptions :: "error + bool"

record ArgoDB =
  db_ListHelmRepositories :: "error + Repository list"
  db_ListOCIRepositories :: "error + Repository list"
  db_GetAllHelmRepositoryCredentials :: "error + RepoCreds list"
  db_GetAllOCIRepositoryCredentials :: "error + RepoCreds list"
  db_GetRepository :: "string \<Rightarrow> string \<Rightarrow> error + Repository"

record LiveStateCache =
  lsc_GetVersionsInfo :: "Cluster \<Rightarrow> error + (string \<times> string list)"
  lsc_GetClusterCache :: "Cluster \<Rightarrow> error + ResourceInfoProvider"
  lsc_GetManagedLiveObjs ::
    "Cluster \<Rightarrow> Application \<Rightarrow> Unstructured list \<Rightarrow> error + (ResourceKey \<times> Unstructured option) list"
  lsc_IsNamespaced :: "Cluster \<Rightarrow> GroupKind \<Rightarrow> bool \<times> error option"

record UpdateRevisionForPathsRequest =
  urq_Repo :: Repository
  urq_Revision :: string
  urq_SyncedRevision :: string
  urq_NoRevisionCache :: bool
  urq_Paths :: "string list"
  urq_AppLabelKey :: string
  urq_AppName :: string
  urq_Namespace :: string
  urq_ApplicationSource :: ApplicationSource
  urq_KubeVersion :: string
  urq_ApiVersions :: "string list"
  urq_TrackingMethod :: string
  urq_RefSources :: string
  urq_HasMultipleSources :: bool
  urq_InstallationID :: string

record UpdateRevisionForPathsResponse =
  urs_Changes :: bool
  urs_Revision :: string

record ManifestRequest =
  mrq_Repo :: Repository
  mrq_Repos :: "Repository list"
  mrq_Revision :: string
  mrq_NoCache :: bool
  mrq_NoRevisionCache :: bool
  mrq_AppLabelKey :: string
  mrq_AppName :: string
  mrq_Namespace :: string
  mrq_ApplicationSource :: ApplicationSource
  mrq_KustomizeOptions :: string
  mrq_KubeVersion :: string
  mrq_ApiVersions :: "string list"
  mrq_VerifySignature :: bool
  mrq_HelmRepoCreds :: "RepoCreds list"
  mrq_TrackingMethod :: string
  mrq_EnabledSourceTypes :: string
  mrq_HelmOptions :: string
  mrq_HasMultipleSources :: bool
  mrq_RefSources :: string
  mrq_ProjectName :: string
  mrq_ProjectSourceRepos :: "string list"
  mrq_AnnotationManifestGeneratePaths :: string
  mrq_InstallationID :: string

record RepoClientset =
  rc_NewRepoServerClient :: "error option"
  rc_UpdateRevisionForPaths :: "UpdateRevisionForPathsRequest \<Rightarrow> error + UpdateRevisionForPathsResponse"
  rc_GenerateManifest :: "ManifestRequest \<Rightarrow> error + ManifestResponse"

record ResourceTracking =
  rt_GetAppInstance :: "Unstructured \<Rightarrow> string \<Rightarrow> string \<Rightarrow> AppInstanceValue option"
  rt_GetAppName :: "Unstructured \<Rightarrow> string \<Rightarrow> string \<Rightarrow> string \<Rightarrow> string"
  rt_SetAppInstance ::
    "Unstructured \<Rightarrow> string \<Rightarrow> string \<Rightarrow> string \<Rightarrow> string \<Rightarrow> string \<Rightarrow> Unstructured \<times> error option"

text \<open>
  The fields of \<^verbatim>\<open>appStateManager\<close> that the comparison uses. \<open>m_repoErrorCache\<close> is
  the \<^verbatim>\<open>sync.Map\<close> from application name to the time a repo error was first seen; it
  is the only field a comparison pass writes.
\<close>

record appStateManager =
  m_db :: ArgoDB
  m_settingsMgr :: SettingsManager
  m_repoClientset :: RepoClientset
  m_liveStateCache :: LiveStateCache
  m_namespace :: string
  m_statusRefreshTimeout :: time
  m_resourceTracking :: ResourceTracking
  m_persistResourceHealth :: bool
  m_repoErrorCache :: "string \<rightharpoonup> time"
  m_repoErrorGracePeriod :: time
  m_serverSideDiff :: bool

text \<open>
  Functions and methods that the state manager calls and whose code is elsewhere: the
  methods of the \<^verbatim>\<open>v1alpha1\<close> types, the helpers of the packages \<^verbatim>\<open>argo\<close>,
  \<^verbatim>\<open>gpg\<close>, \<^verbatim>\<open>path\<close> and \<^verbatim>\<open>argodiff\<close>, the gitops-engine library, and the
  functions of the controller package defined in other files. They are parameters of
  the model: every theorem holds whatever they compute. A pointer-receiver method that
  could write to its receiver returns the receiver's new contents with its result
  (\<open>BuildComparedToStatus\<close>). \<open>setApplicationHealth\<close> writes the health of the
  resource statuses it is given, which is not part of \<open>ResourceStatus\<close> here, and
  returns the application's health.
\<close>

record deps =
  IsHelm :: "ApplicationSource \<Rightarrow> bool"
  IsOCI :: "ApplicationSource \<Rightarrow> bool"
  HasMultipleSources :: "ApplicationSpec \<Rightarrow> bool"
  BuildComparedToStatus :: "ApplicationSpec \<Rightarrow> ApplicationSource list \<Rightarrow> ComparedTo \<times> ApplicationSpec"
  InstanceName :: "Application \<Rightarrow> string \<Rightarrow> string"
  QualifiedName :: "Application \<Rightarrow> string"
  IsRefreshRequested :: "Application \<Rightarrow> string \<times> bool"
  HasChangedManagedNamespaceMetadata :: "Application \<Rightarrow> bool"
  Expired :: "ApplicationStatus \<Rightarrow> time \<Rightarrow> bool"
  GetRevisions :: "ApplicationStatus \<Rightarrow> string list"
  IsGroupKindPermitted :: "AppProject \<Rightarrow> GroupKind \<Rightarrow> bool \<Rightarrow> bool"
  IsLiveResourcePermitted :: "AppProject \<Rightarrow> Unstructured option \<Rightarrow> Cluster \<Rightarrow> error + bool"
  SyncOptions_HasOption :: "string list \<Rightarrow> string \<Rightarrow> bool"
  UnmarshalToUnstructured :: "string \<Rightarrow> error + Unstructured option"
  GetPermittedRepos :: "AppProject \<Rightarrow> Repository list \<Rightarrow> error + Repository list"
  GetPermittedReposCredentials :: "AppProject \<Rightarrow> RepoCreds list \<Rightarrow> error + RepoCreds list"
  GetDestinationCluster :: "ApplicationDestination \<Rightarrow> error + Cluster"
  GetRefSources :: "ApplicationSource list \<Rightarrow> string \<Rightarrow> string list \<Rightarrow> error + string"
  APIResourcesToStrings :: "string list \<Rightarrow> string list"
  UnstructuredToAppInstanceValue :: "Unstructured \<Rightarrow> string \<Rightarrow> string \<Rightarrow> AppInstanceValue"
  GetAppRefreshPaths :: "Application \<Rightarrow> string list"
  IsGPGEnabled :: bool
  ParseGitCommitVerification :: "string \<Rightarrow> PGPVerifyResult"
  KeyID :: "string \<Rightarrow> string"
  GetDefaultDiffOptions :: bool
  DiffConfig_Validate :: "DiffConfig \<Rightarrow> error option"
  StateDiffs ::
    "Unstructured option list \<Rightarrow> Unstructured option list \<Rightarrow> DiffConfig option \<Rightarrow> error + DiffResultList"
  HasAnnotationOption :: "(string \<times> string) list \<Rightarrow> string \<Rightarrow> string \<Rightarrow> bool"
  Ignore :: "Unstructured \<Rightarrow> bool"
  Skip :: "Unstructured \<Rightarrow> bool"
  Wave :: "Unstructured \<Rightarrow> int"
  Reconcile ::
    "Unstructured list \<Rightarrow> (ResourceKey \<times> Unstructured option) list \<Rightarrow> string \<Rightarrow> ResourceInfoProvider
     \<Rightarrow> ReconciliationResult"
  ToUnstructured :: "string \<Rightarrow> error + Unstructured"
  isHook :: "Unstructured \<Rightarrow> bool"
  isPostDeleteHook :: "Unstructured \<Rightarrow> bool"
  syncNamespace :: "SyncPolicy option \<Rightarrow> Unstructured \<Rightarrow> Unstructured \<Rightarrow> error + Unstructured"
  setApplicationHealth ::
    "managedResource list \<Rightarrow> ResourceStatus list \<Rightarrow> string \<Rightarrow> Application \<Rightarrow> bool
     \<Rightarrow> HealthStatusCode \<times> error option"
  getGVKParser :: "Cluster \<Rightarrow> string option \<times> error option"
  getServerSideDiffDryRunApplier :: "Cluster \<Rightarrow> string option \<times> error option"

text \<open>Annotation keys and option names, constants of the packages \<^verbatim>\<open>common\<close>,
  \<^verbatim>\<open>v1alpha1\<close>, \<^verbatim>\<open>synccommon\<close> and \<^verbatim>\<open>kubeutil\<close>.\<close>

definition AnnotationKeyManifestGeneratePaths :: string where
  "AnnotationKeyManifestGeneratePaths = ''argocd.argoproj.io/manifest-generate-paths''"

definition AnnotationCompareOptions :: string where
  "AnnotationCompareOptions = ''argocd.argoproj.io/compare-options''"

definition AnnotationSyncOptions :: string where
  "AnnotationSyncOptions = ''argocd.argoproj.io/sync-options''"

definition SyncOptionDeleteRequireConfirm :: string where
  "SyncOptionDeleteRequireConfirm = ''Delete=confirm''"

definition NamespaceKind :: string where
  "NamespaceKind = ''Namespace''"

section \<open>Ownership Resolver: isSelfReferencedObj\<close>

text \<open>
  The package-level function compares a live object with a tracking id; the method of
  the state manager chooses the tracking id. Go allows both to be called
  \<^verbatim>\<open>isSelfReferencedObj\<close>; the method is \<open>m_isSelfReferencedObj\<close> here.
\<close>

definition isSelfReferencedObj :: "Unstructured \<Rightarrow> AppInstanceValue \<Rightarrow> bool" where
  "isSelfReferencedObj obj aiv =
     ((obj_Namespace obj = aiv_Namespace aiv \<or> obj_Namespace obj = '''') \<and>
      obj_Name obj = aiv_Name aiv \<and>
      obj_Group obj = aiv_Group aiv \<and>
      obj_Kind obj = aiv_Kind aiv)"

definition m_isSelfReferencedObj ::
  "deps \<Rightarrow> appStateManager \<Rightarrow> Unstructured option \<Rightarrow> Unstructured option \<Rightarrow> string \<Rightarrow> string \<Rightarrow> string
   \<Rightarrow> bool" where
  "m_isSelfReferencedObj d m live config appName trackingMethod installationID =
     (case live of
        None \<Rightarrow> True
      | Some liveObj \<Rightarrow>
          if trackingMethod = TrackingMethodLabel then True
          else (case config of
                  Some configObj \<Rightarrow>
                    isSelfReferencedObj liveObj (UnstructuredToAppInstanceValue d configObj appName '''')
                | None \<Rightarrow>
                    (case rt_GetAppInstance (m_resourceTracking m) liveObj trackingMethod installationID of
                       Some appInstance \<Rightarrow> isSelfReferencedObj liveObj appInstance
                     | None \<Rightarrow> True)))"

section \<open>Signature Gate: verifyGnuPGSignature\<close>

definition comparisonError :: "string \<Rightarrow> ApplicationCondition" where
  "comparisonError msg = \<lparr>cond_Type = ApplicationConditionComparisonError, cond_Message = msg\<rparr>"

definition verifyGnuPGSignature ::
  "deps \<Rightarrow> string \<Rightarrow> AppProject \<Rightarrow> ManifestResponse \<Rightarrow> ApplicationCondition list" where
  "verifyGnuPGSignature d revision project manifestInfo =
     (if mr_VerifyResult manifestInfo \<noteq> '''' then
        (let verifyResult = ParseGitCommitVerification d (mr_VerifyResult manifestInfo) in
         if vr_Result verifyResult = VerifyResultGood then
           (let validKey =
                  list_ex (\<lambda>k. KeyID d k = KeyID d (vr_KeyID verifyResult) \<and> KeyID d k \<noteq> '''')
                    (proj_SignatureKeys project)
            in if \<not> validKey
               then [comparisonError
                       (''Found good signature made with '' @ vr_Cipher verifyResult @ '' key ''
                        @ vr_KeyID verifyResult @ '', but this key is not allowed in AppProject'')]
               else [])
         else if vr_Result verifyResult = VerifyResultInvalid then
           [comparisonError
              (''Found signature made with '' @ vr_Cipher verifyResult @ '' key '' @ vr_KeyID verifyResult
               @ '', but verification result was invalid: '' @ [CHR 0x27] @ vr_Message verifyResult
               @ [CHR 0x27])]
         else
           [comparisonError
              (''Could not verify commit signature on revision '' @ [CHR 0x27] @ revision @ [CHR 0x27]
               @ '', check logs for more information.'')])
      else
        [comparisonError
           (''Target revision '' @ revision @ '' in Git is not signed, but a signature is required'')])"

section \<open>Small helpers of the state manager\<close>

definition isManagedNamespace :: "Unstructured option \<Rightarrow> Application \<Rightarrow> bool" where
  "isManagedNamespace ns app =
     (case ns of
        None \<Rightarrow> False
      | Some nsObj \<Rightarrow>
          obj_Kind nsObj = NamespaceKind \<and>
          obj_Name nsObj = dest_Namespace (spec_Destination (app_Spec app)) \<and>
          (case spec_SyncPolicy (app_Spec app) of
             None \<Rightarrow> False
           | Some policy \<Rightarrow> sp_ManagedNamespaceMetadata policy \<noteq> None))"

fun unmarshalManifests :: "deps \<Rightarrow> string list \<Rightarrow> error + Unstructured option list" where
  "unmarshalManifests d [] = Inr []"
| "unmarshalManifests d (manifest # manifests) =
     (case UnmarshalToUnstructured d manifest of
        Inl err \<Rightarrow> Inl err
      | Inr obj \<Rightarrow>
          (case unmarshalManifests d manifests of
             Inl err \<Rightarrow> Inl err
           | Inr targetObjs \<Rightarrow> Inr (obj # targetObjs)))"

text \<open>
  \<^verbatim>\<open>normalizeClusterScopeTracking\<close> walks the list from its last element to its first
  and writes to the objects in place; on an error of \<^verbatim>\<open>setAppInstance\<close> it returns
  at once, with the objects it has visited already changed. The first argument of
  \<open>normalizeWalk\<close> is the list reversed; it returns the visited prefix (in list order
  again) and the error.
\<close>

fun normalizeWalk ::
  "ResourceInfoProvider \<Rightarrow> (Unstructured \<Rightarrow> Unstructured \<times> error option) \<Rightarrow> Unstructured option list
   \<Rightarrow> Unstructured option list \<Rightarrow> Unstructured option list \<times> error option" where
  "normalizeWalk infoProvider setAppInstance [] visited = (visited, None)"
| "normalizeWalk infoProvider setAppInstance (None # rest) visited =
     normalizeWalk infoProvider setAppInstance rest (None # visited)"
| "normalizeWalk infoProvider setAppInstance (Some targetObj # rest) visited =
     (if \<not> IsNamespacedOrUnknown infoProvider (GroupKind_of targetObj) \<and> obj_Namespace targetObj \<noteq> ''''
      then (case setAppInstance (targetObj\<lparr>obj_Namespace := ''''\<rparr>) of
              (obj', Some err) \<Rightarrow>
                (rev rest @ Some obj' # visited,
                 Some (Wrap (''failed to set app instance label on cluster-scoped resource ''
                             @ obj_Group targetObj @ ''/'' @ obj_Version targetObj @ '', Kind=''
                             @ obj_Kind targetObj @ ''/'' @ obj_Name targetObj @ '': '') err))
            | (obj', None) \<Rightarrow> normalizeWalk infoProvider setAppInstance rest (Some obj' # visited))
      else normalizeWalk infoProvider setAppInstance rest (Some targetObj # visited))"

definition normalizeClusterScopeTracking ::
  "Unstructured option list \<Rightarrow> ResourceInfoProvider \<Rightarrow> (Unstructured \<Rightarrow> Unstructured \<times> error option)
   \<Rightarrow> Unstructured option list \<times> error option" where
  "normalizeClusterScopeTracking targetObjs infoProvider setAppInstance =
     normalizeWalk infoProvider setAppInstance (rev targetObjs) []"

definition getComparisonSettings ::
  "appStateManager \<Rightarrow>
   error + (string \<times> string \<times> (string \<Rightarrow> string \<Rightarrow> string \<Rightarrow> bool) \<times> string \<times> string)" where
  "getComparisonSettings m =
     (case sm_GetResourceOverrides (m_settingsMgr m) of
        Inl err \<Rightarrow> Inl err
      | Inr resourceOverrides \<Rightarrow>
     (case sm_GetAppInstanceLabelKey (m_settingsMgr m) of
        Inl err \<Rightarrow> Inl err
      | Inr appLabelKey \<Rightarrow>
     (case sm_GetResourcesFilter (m_settingsMgr m) of
        Inl err \<Rightarrow> Inl err
      | Inr resFilter \<Rightarrow>
     (case sm_GetInstallationID (m_settingsMgr m) of
        Inl err \<Rightarrow> Inl err
      | Inr installationID \<Rightarrow>
     (case sm_GetTrackingMethod (m_settingsMgr m) of
        Inl err \<Rightarrow> Inl err
      | Inr trackingMethod \<Rightarrow>
          Inr (appLabelKey, resourceOverrides, resFilter, installationID, trackingMethod))))))"

section \<open>Diff Engine Configuration: useDiffCache\<close>

text \<open>
  \<^verbatim>\<open>specEqualsCompareTo\<close> calls \<^verbatim>\<open>BuildComparedToStatus\<close> on a deep copy of the spec.
  On values the copy is the spec itself, and what the method leaves in its receiver is
  dropped with the copy. \<^verbatim>\<open>reflect.DeepEqual\<close> is equality of the modelled values (a
  nil and an empty slice, which it tells apart, are the same list here).
\<close>

definition specEqualsCompareTo ::
  "deps \<Rightarrow> ApplicationSpec \<Rightarrow> ApplicationSource list \<Rightarrow> ComparedTo \<Rightarrow> bool" where
  "specEqualsCompareTo d spec sources comparedTo =
     (let specCopy = spec;
          compareToSpec = fst (BuildComparedToStatus d specCopy sources)
      in comparedTo = compareToSpec)"

definition useDiffCache ::
  "deps \<Rightarrow> bool \<Rightarrow> ManifestResponse list \<Rightarrow> ApplicationSource list \<Rightarrow> Application
   \<Rightarrow> string list \<Rightarrow> time \<Rightarrow> bool \<Rightarrow> bool" where
  "useDiffCache d noCache manifestInfos sources app manifestRevisions statusRefreshTimeout serverSideDiff =
     (if noCache then False
      else if snd (IsRefreshRequested d app) then False
      else if Expired d (app_Status app) statusRefreshTimeout \<and> \<not> serverSideDiff then False
      else if length manifestInfos \<noteq> length sources then False
      else if GetRevisions d (app_Status app) \<noteq> manifestRevisions then False
      else if \<not> specEqualsCompareTo d (app_Spec app) sources
                   (ss_ComparedTo (status_Sync (app_Status app))) then False
      else True)"

section \<open>The spec comparison in memory\<close>

text \<open>
  What \<^verbatim>\<open>specEqualsCompareTo\<close> may write depends on what its arguments share. The
  spec and the compared-to snapshot are passed by value, but a Go struct value carries
  its pointers and slices: the copy that the callee receives points to the same
  \<^verbatim>\<open>ApplicationSource\<close>, the same \<^verbatim>\<open>SyncPolicy\<close> and the same backing arrays as the
  application's spec. So here the two functions are modelled once more with memory
  made explicit. Memory is a list of cells, an address is an index into it, and
  allocation appends a cell. A pointer is an address or nil; a slice is the address of
  its backing array, or nil.
\<close>

type_synonym addr = nat

record ApplicationSpec_mem =
  ms_Source :: "addr option"
  ms_Destination :: ApplicationDestination
  ms_Project :: string
  ms_SyncPolicy :: "addr option"
  ms_IgnoreDifferences :: "addr option"
  ms_Sources :: "addr option"

record ComparedTo_mem =
  mc_Source :: ApplicationSource
  mc_Destination :: ApplicationDestination
  mc_Sources :: "addr option"
  mc_IgnoreDifferences :: "addr option"

datatype cell =
    SourceCell ApplicationSource
  | PolicyCell SyncPolicy
  | RulesCell "string list"
  | SourcesCell "ApplicationSource list"
  | SpecCell ApplicationSpec_mem

type_synonym memory = "cell list"

definition cell_at :: "memory \<Rightarrow> addr \<Rightarrow> cell option" where
  "cell_at h a = (if a < length h then Some (h ! a) else None)"

text \<open>The addresses that a spec and a compared-to value hold.\<close>

definition spec_refs :: "ApplicationSpec_mem \<Rightarrow> addr set" where
  "spec_refs spec =
     set_option (ms_Source spec) \<union> set_option (ms_SyncPolicy spec)
     \<union> set_option (ms_IgnoreDifferences spec) \<union> set_option (ms_Sources spec)"

definition comparedTo_refs :: "ComparedTo_mem \<Rightarrow> addr set" where
  "comparedTo_refs comparedTo =
     set_option (mc_Sources comparedTo) \<union> set_option (mc_IgnoreDifferences comparedTo)"

text \<open>
  The value that a reader finds behind a pointer or a slice, and the values of a spec
  and of a compared-to snapshot in a given memory: what \<^verbatim>\<open>reflect.DeepEqual\<close> compares,
  and what the claim calls equal before and after the call.
\<close>

definition source_at :: "memory \<Rightarrow> addr option \<Rightarrow> ApplicationSource option" where
  "source_at h p =
     (case p of
        None \<Rightarrow> None
      | Some a \<Rightarrow> (case cell_at h a of Some (SourceCell source) \<Rightarrow> Some source | _ \<Rightarrow> None))"

definition policy_at :: "memory \<Rightarrow> addr option \<Rightarrow> SyncPolicy option" where
  "policy_at h p =
     (case p of
        None \<Rightarrow> None
      | Some a \<Rightarrow> (case cell_at h a of Some (PolicyCell policy) \<Rightarrow> Some policy | _ \<Rightarrow> None))"

definition rules_at :: "memory \<Rightarrow> addr option \<Rightarrow> string list" where
  "rules_at h p =
     (case p of
        None \<Rightarrow> []
      | Some a \<Rightarrow> (case cell_at h a of Some (RulesCell rules) \<Rightarrow> rules | _ \<Rightarrow> []))"

definition sources_at :: "memory \<Rightarrow> addr option \<Rightarrow> ApplicationSource list" where
  "sources_at h p =
     (case p of
        None \<Rightarrow> []
      | Some a \<Rightarrow> (case cell_at h a of Some (SourcesCell sources) \<Rightarrow> sources | _ \<Rightarrow> []))"

definition load_spec :: "memory \<Rightarrow> ApplicationSpec_mem \<Rightarrow> ApplicationSpec" where
  "load_spec h spec =
     \<lparr>spec_Source = source_at h (ms_Source spec),
      spec_Destination = ms_Destination spec,
      spec_Project = ms_Project spec,
      spec_SyncPolicy = policy_at h (ms_SyncPolicy spec),
      spec_IgnoreDifferences = rules_at h (ms_IgnoreDifferences spec),
      spec_Sources = sources_at h (ms_Sources spec)\<rparr>"

definition load_comparedTo :: "memory \<Rightarrow> ComparedTo_mem \<Rightarrow> ComparedTo" where
  "load_comparedTo h comparedTo =
     \<lparr>ct_Source = mc_Source comparedTo,
      ct_Destination = mc_Destination comparedTo,
      ct_Sources = sources_at h (mc_Sources comparedTo),
      ct_IgnoreDifferences = rules_at h (mc_IgnoreDifferences comparedTo)\<rparr>"

text \<open>
  \<^verbatim>\<open>DeepCopy\<close> (generated code) and \<^verbatim>\<open>BuildComparedToStatus\<close> are not among the
  sources at hand. In memory they are parameters: \<^verbatim>\<open>DeepCopy\<close> takes a spec and
  returns the address of a new spec object; \<^verbatim>\<open>BuildComparedToStatus\<close> takes the
  address of its receiver and the slice of sources and returns the compared-to value.
  Both return the memory they leave.
\<close>

record memoryDeps =
  mem_DeepCopy :: "memory \<Rightarrow> ApplicationSpec_mem \<Rightarrow> addr \<times> memory"
  mem_BuildComparedToStatus :: "memory \<Rightarrow> addr \<Rightarrow> addr option \<Rightarrow> ComparedTo_mem \<times> memory"

text \<open>
  What is assumed of the two. A deep copy of a spec whose pointers and slices are
  allocated writes to no existing cell; the object it returns is new, has the value of
  the original, and everything it points to is new as well. \<^verbatim>\<open>BuildComparedToStatus\<close>,
  a pointer-receiver method, may write to its receiver and through the receiver's
  pointers and slices, and to nothing else that exists.
\<close>

definition deepCopyContract :: "(memory \<Rightarrow> ApplicationSpec_mem \<Rightarrow> addr \<times> memory) \<Rightarrow> bool" where
  "deepCopyContract copy =
     (\<forall>h spec.
        spec_refs spec \<subseteq> {..<length h} \<longrightarrow>
        (case copy h spec of
           (p, h1) \<Rightarrow>
             take (length h) h1 = h \<and> length h \<le> p
             \<and> (case cell_at h1 p of
                  Some (SpecCell specCopy) \<Rightarrow>
                    load_spec h1 specCopy = load_spec h spec
                    \<and> spec_refs specCopy \<subseteq> {length h..<length h1}
                | _ \<Rightarrow> False)))"

definition receiverFootprint :: "(memory \<Rightarrow> addr \<Rightarrow> addr option \<Rightarrow> ComparedTo_mem \<times> memory) \<Rightarrow> bool" where
  "receiverFootprint build =
     (\<forall>h p sources.
        case build h p sources of
          (comparedTo, h') \<Rightarrow>
            length h \<le> length h'
            \<and> (\<forall>a < length h.
                  a \<noteq> p
                  \<and> a \<notin> (case cell_at h p of Some (SpecCell spec) \<Rightarrow> spec_refs spec | _ \<Rightarrow> {})
                  \<longrightarrow> h' ! a = h ! a))"

text \<open>
  The method in memory computes what the method on values computes: the value of the
  compared-to value it returns is the one built from the values of its receiver and of
  the sources.
\<close>

definition buildRefines :: "deps \<Rightarrow> memoryDeps \<Rightarrow> bool" where
  "buildRefines d md =
     (\<forall>h p spec sources.
        cell_at h p = Some (SpecCell spec) \<longrightarrow>
        (case mem_BuildComparedToStatus md h p sources of
           (comparedTo, h') \<Rightarrow>
             load_comparedTo h' comparedTo
             = fst (BuildComparedToStatus d (load_spec h spec) (sources_at h sources))))"

text \<open>
  An application in memory, as far as \<open>useDiffCache\<close> looks at it: its spec and its
  compared-to snapshot with their pointers and slices, and the application as the value
  that the methods \<^verbatim>\<open>IsRefreshRequested\<close>, \<^verbatim>\<open>Expired\<close> and \<^verbatim>\<open>GetRevisions\<close> read.
\<close>

record Application_mem =
  ma_Spec :: ApplicationSpec_mem
  ma_ComparedTo :: ComparedTo_mem
  ma_value :: Application

definition specEqualsCompareTo_mem ::
  "memoryDeps \<Rightarrow> memory \<Rightarrow> ApplicationSpec_mem \<Rightarrow> addr option \<Rightarrow> ComparedTo_mem \<Rightarrow> bool \<times> memory" where
  "specEqualsCompareTo_mem md h spec sources comparedTo =
     (case mem_DeepCopy md h spec of
        (specCopy, h1) \<Rightarrow>
          (case mem_BuildComparedToStatus md h1 specCopy sources of
             (compareToSpec, h2) \<Rightarrow>
               (load_comparedTo h2 comparedTo = load_comparedTo h2 compareToSpec, h2)))"

definition useDiffCache_mem ::
  "deps \<Rightarrow> memoryDeps \<Rightarrow> memory \<Rightarrow> bool \<Rightarrow> ManifestResponse list \<Rightarrow> addr option \<Rightarrow> Application_mem
   \<Rightarrow> string list \<Rightarrow> time \<Rightarrow> bool \<Rightarrow> bool \<times> memory" where
  "useDiffCache_mem d md h noCache manifestInfos sources app manifestRevisions statusRefreshTimeout
     serverSideDiff =
     (if noCache then (False, h)
      else if snd (IsRefreshRequested d (ma_value app)) then (False, h)
      else if Expired d (app_Status (ma_value app)) statusRefreshTimeout \<and> \<not> serverSideDiff
      then (False, h)
      else if length manifestInfos \<noteq> length (sources_at h sources) then (False, h)
      else if GetRevisions d (app_Status (ma_value app)) \<noteq> manifestRevisions then (False, h)
      else (case specEqualsCompareTo_mem md h (ma_Spec app) sources (ma_ComparedTo app) of
              (equal, h') \<Rightarrow> if \<not> equal then (False, h') else (True, h')))"

section \<open>Manifest Acquirer: GetRepoObjs\<close>

text \<open>
  Sequencing of calls that can fail: \<open>bindE\<close> continues with the value of a successful
  call and returns the error of a failed one, as \<^verbatim>\<open>if err != nil { return ... }\<close> does;
  \<open>wrapE p\<close> is the \<^verbatim>\<open>fmt.Errorf(p + "%w", err)\<close> around it. \<open>goQuote\<close> is the
  \<^verbatim>\<open>%q\<close> verb without its escapes.
\<close>

definition bindE :: "error + 'a \<Rightarrow> ('a \<Rightarrow> error + 'b) \<Rightarrow> error + 'b" where
  "bindE x f = (case x of Inl err \<Rightarrow> Inl err | Inr a \<Rightarrow> f a)"

definition wrapE :: "string \<Rightarrow> error + 'a \<Rightarrow> error + 'a" where
  "wrapE p x = (case x of Inl err \<Rightarrow> Inl (Wrap p err) | Inr a \<Rightarrow> Inr a)"

text \<open>A call does not panic: it returns a value or an error that is not a panic.\<close>

definition noPanic :: "error + 'a \<Rightarrow> bool" where
  "noPanic x = (case x of Inl e \<Rightarrow> \<not> isPanic e | Inr a \<Rightarrow> True)"

definition goQuote :: "string \<Rightarrow> string" where
  "goQuote s = [CHR 0x22] @ s @ [CHR 0x22]"

definition sourceOf :: "nat \<Rightarrow> nat \<Rightarrow> string" where
  "sourceOf i n = '' for source '' @ itoa (i + 1) @ '' of '' @ itoa n @ '': ''"

text \<open>What the prelude of \<^verbatim>\<open>GetRepoObjs\<close> has looked up when the loop over the sources starts.\<close>

record repoObjsLookups =
  lk_permittedHelmRepos :: "Repository list"
  lk_permittedOCIRepos :: "Repository list"
  lk_permittedHelmCredentials :: "RepoCreds list"
  lk_permittedOCICredentials :: "RepoCreds list"
  lk_enabledSourceTypes :: string
  lk_kustomizeSettings :: string
  lk_helmOptions :: string
  lk_trackingMethod :: string
  lk_installationID :: string
  lk_serverVersion :: string
  lk_apiResources :: "string list"
  lk_refSources :: string

text \<open>The arguments of \<^verbatim>\<open>GetRepoObjs\<close> that the loop reads and does not change.\<close>

record repoObjsArgs =
  ra_app :: Application
  ra_nSources :: nat
  ra_appLabelKey :: string
  ra_noCache :: bool
  ra_noRevisionCache :: bool
  ra_verifySignature :: bool
  ra_proj :: AppProject
  ra_sendRuntimeState :: bool

definition syncedRevisionOf :: "deps \<Rightarrow> Application \<Rightarrow> nat \<Rightarrow> string" where
  "syncedRevisionOf d app i =
     (if HasMultipleSources d (app_Spec app)
      then (if i < length (ss_Revisions (status_Sync (app_Status app)))
            then ss_Revisions (status_Sync (app_Status app)) ! i
            else '''')
      else ss_Revision (status_Sync (app_Status app)))"

text \<open>
  The guard of the preliminary path-change check (\<^verbatim>\<open>UpdateRevisionForPaths\<close>) for the
  source at index \<open>i\<close>.
\<close>

definition pathCheckApplies :: "deps \<Rightarrow> Application \<Rightarrow> nat \<Rightarrow> ApplicationSource \<Rightarrow> bool" where
  "pathCheckApplies d app i source =
     (\<not> IsHelm d source \<and> \<not> IsOCI d source \<and> syncedRevisionOf d app i \<noteq> '''' \<and>
      (case map_of (app_Annotations app) AnnotationKeyManifestGeneratePaths of
         None \<Rightarrow> False
       | Some keyManifestGenerateAnnotationVal \<Rightarrow> keyManifestGenerateAnnotationVal \<noteq> ''''))"

text \<open>
  \<^verbatim>\<open>revisions[i] = source.TargetRevision\<close> under its guard: the write, and the read
  \<^verbatim>\<open>revisions[i] == ""\<close> of the guard, panic when \<open>i\<close> is out of range.
\<close>

definition defaultRevision :: "nat \<Rightarrow> nat \<Rightarrow> ApplicationSource \<Rightarrow> string list \<Rightarrow> error + string list" where
  "defaultRevision n i source revisions =
     (if length revisions \<le> i then Inl (Panic ''index out of range'')
      else if length revisions < n \<or> revisions ! i = ''''
      then Inr (revisions[i := src_TargetRevision source])
      else Inr revisions)"

text \<open>
  One iteration of the loop over the sources: the revisions after the iteration, the
  objects and the response of this source, and the flag \<^verbatim>\<open>revisionsMayHaveChanges\<close>.
\<close>

definition getRepoObjsStep ::
  "deps \<Rightarrow> appStateManager \<Rightarrow> repoObjsArgs \<Rightarrow> repoObjsLookups \<Rightarrow> nat \<Rightarrow> ApplicationSource \<Rightarrow> string list
   \<Rightarrow> bool \<Rightarrow> error + (string list \<times> Unstructured option list \<times> ManifestResponse \<times> bool)" where
  "getRepoObjsStep d m a lk i source revisions0 mayHaveChanges0 =
     bindE (defaultRevision (ra_nSources a) i source revisions0) (\<lambda>revisions.
     bindE (wrapE (''failed to get repo '' @ goQuote (src_RepoURL source) @ '': '')
              (db_GetRepository (m_db m) (src_RepoURL source) (proj_Name (ra_proj a)))) (\<lambda>repo.
     let app = ra_app a;
         syncedRevision = syncedRevisionOf d app i;
         appNamespace = (if ra_sendRuntimeState a then dest_Namespace (spec_Destination (app_Spec app)) else '''');
         apiVersions = APIResourcesToStrings d (lk_apiResources lk)
     in
     bindE
       (if pathCheckApplies d app i source then
          bindE (wrapE (''failed to compare revisions'' @ sourceOf i (ra_nSources a))
                   (rc_UpdateRevisionForPaths (m_repoClientset m)
                      \<lparr>urq_Repo = repo, urq_Revision = revisions ! i, urq_SyncedRevision = syncedRevision,
                       urq_NoRevisionCache = ra_noRevisionCache a, urq_Paths = GetAppRefreshPaths d app,
                       urq_AppLabelKey = ra_appLabelKey a, urq_AppName = InstanceName d app (m_namespace m),
                       urq_Namespace = appNamespace, urq_ApplicationSource = source,
                       urq_KubeVersion = lk_serverVersion lk, urq_ApiVersions = apiVersions,
                       urq_TrackingMethod = lk_trackingMethod lk, urq_RefSources = lk_refSources lk,
                       urq_HasMultipleSources = HasMultipleSources d (app_Spec app),
                       urq_InstallationID = lk_installationID lk\<rparr>))
            (\<lambda>updateRevisionResult.
               Inr (if urs_Revision updateRevisionResult \<noteq> '''' then urs_Revision updateRevisionResult
                    else revisions ! i,
                    if urs_Changes updateRevisionResult then True else mayHaveChanges0))
        else Inr (revisions ! i, True))
       (\<lambda>(revision, mayHaveChanges).
     let repos = (if IsOCI d source then lk_permittedHelmRepos lk @ lk_permittedOCIRepos lk
                  else lk_permittedHelmRepos lk);
         helmRepoCreds = (if IsOCI d source then lk_permittedHelmCredentials lk @ lk_permittedOCICredentials lk
                          else lk_permittedHelmCredentials lk)
     in
     bindE (wrapE (''failed to generate manifest'' @ sourceOf i (ra_nSources a))
              (rc_GenerateManifest (m_repoClientset m)
                 \<lparr>mrq_Repo = repo, mrq_Repos = repos, mrq_Revision = revision,
                  mrq_NoCache = ra_noCache a, mrq_NoRevisionCache = ra_noRevisionCache a,
                  mrq_AppLabelKey = ra_appLabelKey a, mrq_AppName = InstanceName d app (m_namespace m),
                  mrq_Namespace = appNamespace, mrq_ApplicationSource = source,
                  mrq_KustomizeOptions = lk_kustomizeSettings lk, mrq_KubeVersion = lk_serverVersion lk,
                  mrq_ApiVersions = apiVersions, mrq_VerifySignature = ra_verifySignature a,
                  mrq_HelmRepoCreds = helmRepoCreds, mrq_TrackingMethod = lk_trackingMethod lk,
                  mrq_EnabledSourceTypes = lk_enabledSourceTypes lk, mrq_HelmOptions = lk_helmOptions lk,
                  mrq_HasMultipleSources = HasMultipleSources d (app_Spec app),
                  mrq_RefSources = lk_refSources lk, mrq_ProjectName = proj_Name (ra_proj a),
                  mrq_ProjectSourceRepos = proj_SourceRepos (ra_proj a),
                  mrq_AnnotationManifestGeneratePaths =
                    (case map_of (app_Annotations app) AnnotationKeyManifestGeneratePaths of
                       None \<Rightarrow> '''' | Some v \<Rightarrow> v),
                  mrq_InstallationID = lk_installationID lk\<rparr>)) (\<lambda>manifestInfo.
     bindE (wrapE (''failed to unmarshal manifests'' @ sourceOf i (ra_nSources a))
              (unmarshalManifests d (mr_Manifests manifestInfo))) (\<lambda>targetObj.
     Inr (revisions, targetObj, manifestInfo, mayHaveChanges))))))"

fun getRepoObjsLoop ::
  "deps \<Rightarrow> appStateManager \<Rightarrow> repoObjsArgs \<Rightarrow> repoObjsLookups \<Rightarrow> nat \<Rightarrow> ApplicationSource list
   \<Rightarrow> string list \<Rightarrow> Unstructured option list \<Rightarrow> ManifestResponse list \<Rightarrow> bool
   \<Rightarrow> error + (Unstructured option list \<times> ManifestResponse list \<times> bool)" where
  "getRepoObjsLoop d m a lk i [] revisions targetObjs manifestInfos mayHaveChanges =
     Inr (targetObjs, manifestInfos, mayHaveChanges)"
| "getRepoObjsLoop d m a lk i (source # sources) revisions targetObjs manifestInfos mayHaveChanges =
     (case getRepoObjsStep d m a lk i source revisions mayHaveChanges of
        Inl err \<Rightarrow> Inl err
      | Inr (revisions', targetObj, manifestInfo, mayHaveChanges') \<Rightarrow>
          getRepoObjsLoop d m a lk (Suc i) sources revisions' (targetObjs @ targetObj)
            (manifestInfos @ [manifestInfo]) mayHaveChanges')"

text \<open>
  \<^verbatim>\<open>GetRepoObjs\<close>. On an error Go returns \<^verbatim>\<open>(nil, nil, false, err)\<close>: the model
  returns the error alone. The writes to the caller's \<^verbatim>\<open>revisions\<close> slice are not
  returned: \<^verbatim>\<open>CompareAppState\<close> does not read the slice after the call.
\<close>

definition GetRepoObjs ::
  "deps \<Rightarrow> appStateManager \<Rightarrow> Application \<Rightarrow> ApplicationSource list \<Rightarrow> string \<Rightarrow> string list \<Rightarrow> bool
   \<Rightarrow> bool \<Rightarrow> bool \<Rightarrow> AppProject \<Rightarrow> bool
   \<Rightarrow> error + (Unstructured option list \<times> ManifestResponse list \<times> bool)" where
  "GetRepoObjs d m app sources appLabelKey revisions noCache noRevisionCache verifySignature proj
     sendRuntimeState =
     (let forProject = '' for project '' @ goQuote (proj_Name proj) @ '': '' in
     bindE (wrapE ''failed to list Helm repositories: '' (db_ListHelmRepositories (m_db m))) (\<lambda>helmRepos.
     bindE (wrapE (''failed to get permitted Helm repositories'' @ forProject)
              (GetPermittedRepos d proj helmRepos)) (\<lambda>permittedHelmRepos.
     bindE (wrapE ''failed to list OCI repositories: '' (db_ListOCIRepositories (m_db m))) (\<lambda>ociRepos.
     bindE (wrapE (''failed to get permitted OCI repositories'' @ forProject)
              (GetPermittedRepos d proj ociRepos)) (\<lambda>permittedOCIRepos.
     bindE (wrapE ''failed to get Helm credentials: ''
              (db_GetAllHelmRepositoryCredentials (m_db m))) (\<lambda>helmRepositoryCredentials.
     bindE (wrapE (''failed to get permitted Helm credentials'' @ forProject)
              (GetPermittedReposCredentials d proj helmRepositoryCredentials)) (\<lambda>permittedHelmCredentials.
     bindE (wrapE ''failed to get OCI credentials: ''
              (db_GetAllOCIRepositoryCredentials (m_db m))) (\<lambda>ociRepositoryCredentials.
     bindE (wrapE (''failed to get permitted OCI credentials'' @ forProject)
              (GetPermittedReposCredentials d proj ociRepositoryCredentials)) (\<lambda>permittedOCICredentials.
     bindE (wrapE ''failed to get enabled source types: ''
              (sm_GetEnabledSourceTypes (m_settingsMgr m))) (\<lambda>enabledSourceTypes.
     bindE (wrapE ''failed to get Kustomize settings: ''
              (sm_GetKustomizeSettings (m_settingsMgr m))) (\<lambda>kustomizeSettings.
     bindE (wrapE ''failed to get Helm settings: '' (sm_GetHelmSettings (m_settingsMgr m))) (\<lambda>helmOptions.
     bindE (wrapE ''failed to get trackingMethod: '' (sm_GetTrackingMethod (m_settingsMgr m))) (\<lambda>trackingMethod.
     bindE (wrapE ''failed to get installation ID: '' (sm_GetInstallationID (m_settingsMgr m))) (\<lambda>installationID.
     bindE (wrapE ''failed to get destination cluster: ''
              (GetDestinationCluster d (spec_Destination (app_Spec app)))) (\<lambda>destCluster.
     bindE (if sendRuntimeState
            then wrapE (''failed to get cluster version for cluster '' @ goQuote (cluster_Server destCluster)
                        @ '': '')
                   (lsc_GetVersionsInfo (m_liveStateCache m) destCluster)
            else Inr ('''', [])) (\<lambda>(serverVersion, apiResources).
     bindE (case rc_NewRepoServerClient (m_repoClientset m) of
              Some err \<Rightarrow> Inl (Wrap ''failed to connect to repo server: '' err)
            | None \<Rightarrow> Inr ()) (\<lambda>conn.
     bindE (wrapE ''failed to get ref sources: ''
              (GetRefSources d sources (spec_Project (app_Spec app)) revisions)) (\<lambda>refSources.
     getRepoObjsLoop d m
       \<lparr>ra_app = app, ra_nSources = length sources, ra_appLabelKey = appLabelKey, ra_noCache = noCache,
        ra_noRevisionCache = noRevisionCache, ra_verifySignature = verifySignature, ra_proj = proj,
        ra_sendRuntimeState = sendRuntimeState\<rparr>
       \<lparr>lk_permittedHelmRepos = permittedHelmRepos, lk_permittedOCIRepos = permittedOCIRepos,
        lk_permittedHelmCredentials = permittedHelmCredentials,
        lk_permittedOCICredentials = permittedOCICredentials,
        lk_enabledSourceTypes = enabledSourceTypes, lk_kustomizeSettings = kustomizeSettings,
        lk_helmOptions = helmOptions, lk_trackingMethod = trackingMethod,
        lk_installationID = installationID, lk_serverVersion = serverVersion,
        lk_apiResources = apiResources, lk_refSources = refSources\<rparr>
       0 sources revisions [] [] False))))))))))))))))))"

section \<open>Comparison Orchestrator: the phases of CompareAppState\<close>

subsection \<open>Initial sync status\<close>

definition initialSyncStatus ::
  "Application \<Rightarrow> string list \<Rightarrow> ApplicationSource list \<Rightarrow> bool \<Rightarrow> SyncStatus" where
  "initialSyncStatus app revisions sources hasMultipleSources =
     (let comparedTo =
            \<lparr>ct_Source = ApplicationSource_zero,
             ct_Destination = spec_Destination (app_Spec app),
             ct_Sources = [],
             ct_IgnoreDifferences = spec_IgnoreDifferences (app_Spec app)\<rparr>
      in if hasMultipleSources
         then \<lparr>ss_Status = SyncStatusCodeUnknown, ss_ComparedTo = comparedTo\<lparr>ct_Sources := sources\<rparr>,
               ss_Revision = '''', ss_Revisions = revisions\<rparr>
         else \<lparr>ss_Status = SyncStatusCodeUnknown,
               ss_ComparedTo = (case sources of [] \<Rightarrow> comparedTo
                                | source # rest \<Rightarrow> comparedTo\<lparr>ct_Source := source\<rparr>),
               ss_Revision = (case revisions of [] \<Rightarrow> '''' | revision # rest \<Rightarrow> revision),
               ss_Revisions = []\<rparr>)"

subsection \<open>Acquiring the target state\<close>

text \<open>
  The two clock readings of the error branch: the one \<^verbatim>\<open>time.Since(firstSeen)\<close> takes
  and the \<^verbatim>\<open>time.Now()\<close> stored on a first failure.
\<close>

record clockReadings =
  now_Since :: time
  now_Store :: time

text \<open>The locals that the acquisition hands to the rest of the pass.\<close>

record targetState =
  ts_targetObjs :: "Unstructured option list"
  ts_manifestInfos :: "ManifestResponse list"
  ts_revisionsMayHaveChanges :: bool
  ts_conditions :: "ApplicationCondition list"
  ts_failedToLoadObjs :: bool
  ts_repoErrorCache :: "string \<rightharpoonup> time"

text \<open>
  Lines 684 to 734: the call of \<^verbatim>\<open>GetRepoObjs\<close> with the grace period of repo errors,
  or the local manifests. \<open>Inl (err, cache)\<close> is a return from \<^verbatim>\<open>CompareAppState\<close>
  with \<^verbatim>\<open>(nil, err)\<close> and the repo-error cache as it is then.
\<close>

definition loadTargetState ::
  "deps \<Rightarrow> appStateManager \<Rightarrow> clockReadings \<Rightarrow> Application \<Rightarrow> AppProject \<Rightarrow> string list
   \<Rightarrow> ApplicationSource list \<Rightarrow> string \<Rightarrow> bool \<Rightarrow> bool \<Rightarrow> string list \<Rightarrow> bool
   \<Rightarrow> (error \<times> (string \<rightharpoonup> time)) + targetState" where
  "loadTargetState d m clk app project revisions0 sources appLabelKey noCache noRevisionCache
     localManifests verifySignature =
     (if localManifests = [] then
        (let revisions = (if length revisions0 \<noteq> length sources then map src_TargetRevision sources
                          else revisions0)
         in case GetRepoObjs d m app sources appLabelKey revisions noCache noRevisionCache verifySignature
                   project True of
              Inl err \<Rightarrow>
                if isPanic err then Inl (err, m_repoErrorCache m)
                else
                  (let failed =
                         \<lparr>ts_targetObjs = [], ts_manifestInfos = [], ts_revisionsMayHaveChanges = False,
                          ts_conditions = [comparisonError (''Failed to load target state: '' @ Error err)],
                          ts_failedToLoadObjs = True, ts_repoErrorCache = m_repoErrorCache m\<rparr>
                   in case m_repoErrorCache m (app_Name app) of
                        Some firstSeen \<Rightarrow>
                          if now_Since clk - firstSeen \<le> m_repoErrorGracePeriod m \<and> \<not> noRevisionCache
                          then Inl (ErrCompareStateRepo, m_repoErrorCache m)
                          else Inr failed
                      | None \<Rightarrow>
                          if \<not> noRevisionCache
                          then Inl (ErrCompareStateRepo, (m_repoErrorCache m)(app_Name app \<mapsto> now_Store clk))
                          else Inr failed)
            | Inr (targetObjs, manifestInfos, revisionsMayHaveChanges) \<Rightarrow>
                Inr \<lparr>ts_targetObjs = targetObjs, ts_manifestInfos = manifestInfos,
                     ts_revisionsMayHaveChanges = revisionsMayHaveChanges, ts_conditions = [],
                     ts_failedToLoadObjs = False,
                     ts_repoErrorCache = (m_repoErrorCache m)(app_Name app := None)\<rparr>)
      else if IsGPGEnabled d \<and> verifySignature then
        Inr \<lparr>ts_targetObjs = [], ts_manifestInfos = [], ts_revisionsMayHaveChanges = False,
             ts_conditions =
               [comparisonError ''Cannot use local manifests when signature verification is required''],
             ts_failedToLoadObjs = True, ts_repoErrorCache = m_repoErrorCache m\<rparr>
      else
        (case unmarshalManifests d localManifests of
           Inl err \<Rightarrow>
             Inr \<lparr>ts_targetObjs = [], ts_manifestInfos = [], ts_revisionsMayHaveChanges = False,
                  ts_conditions = [comparisonError (''Failed to load local manifests: '' @ Error err)],
                  ts_failedToLoadObjs = True, ts_repoErrorCache = m_repoErrorCache m\<rparr>
         | Inr targetObjs \<Rightarrow>
             Inr \<lparr>ts_targetObjs = targetObjs, ts_manifestInfos = [], ts_revisionsMayHaveChanges = False,
                  ts_conditions = [], ts_failedToLoadObjs = False,
                  ts_repoErrorCache = m_repoErrorCache m\<rparr>))"

subsection \<open>Normalizing and deduplicating the target objects\<close>

definition excludedResourceWarning :: "Unstructured \<Rightarrow> ApplicationCondition" where
  "excludedResourceWarning targetObj =
     \<lparr>cond_Type = ApplicationConditionExcludedResourceWarning,
      cond_Message = ''Resource '' @ obj_Group targetObj @ ''/'' @ obj_Kind targetObj @ '' ''
                     @ obj_Name targetObj @ '' is excluded in the settings''\<rparr>"

text \<open>
  Lines 758 to 776, from the last target object to the first: the first list is what
  is still to visit (reversed), the second what has been kept.
\<close>

fun excludeLoop ::
  "(string \<Rightarrow> string \<Rightarrow> string \<Rightarrow> bool) \<Rightarrow> string \<Rightarrow> Application \<Rightarrow> Unstructured list \<Rightarrow> Unstructured list
   \<Rightarrow> ApplicationCondition list \<Rightarrow> bool \<Rightarrow> Unstructured list \<times> ApplicationCondition list \<times> bool" where
  "excludeLoop IsExcludedResource server app [] kept conditions targetNsExists =
     (kept, conditions, targetNsExists)"
| "excludeLoop IsExcludedResource server app (targetObj # rest) kept conditions targetNsExists =
     (let excluded = IsExcludedResource (obj_Group targetObj) (obj_Kind targetObj) server
      in excludeLoop IsExcludedResource server app rest
           (if excluded then kept else targetObj # kept)
           (if excluded then conditions @ [excludedResourceWarning targetObj] else conditions)
           (targetNsExists \<or> isManagedNamespace (Some targetObj) app))"

text \<open>Lines 737 to 776: the target objects, the conditions appended, \<^verbatim>\<open>targetNsExists\<close>.\<close>

definition normalizeTargets ::
  "deps \<Rightarrow> appStateManager \<Rightarrow> Application \<Rightarrow> Cluster \<Rightarrow> string \<Rightarrow> string \<Rightarrow> string
   \<Rightarrow> (string \<Rightarrow> string \<Rightarrow> string \<Rightarrow> bool) \<Rightarrow> ResourceInfoProvider \<Rightarrow> Unstructured option list
   \<Rightarrow> Unstructured list \<times> ApplicationCondition list \<times> bool" where
  "normalizeTargets d m app destCluster appLabelKey trackingMethod installationID IsExcludedResource
     infoProvider targetObjs0 =
     (case normalizeClusterScopeTracking targetObjs0 infoProvider
             (\<lambda>u. rt_SetAppInstance (m_resourceTracking m) u appLabelKey (InstanceName d app (m_namespace m))
                     (dest_Namespace (spec_Destination (app_Spec app))) trackingMethod installationID) of
        (targetObjs1, normalizeErr) \<Rightarrow>
     (case DeduplicateTargetObjects (dest_Namespace (spec_Destination (app_Spec app))) targetObjs1
             infoProvider of
        (targetObjs2, dedupConditions, dedupErr) \<Rightarrow>
          excludeLoop IsExcludedResource (cluster_Server destCluster) app (rev targetObjs2) []
            ((case normalizeErr of
                Some err \<Rightarrow>
                  [comparisonError (''Failed to normalize cluster-scoped resource tracking: '' @ Error err)]
              | None \<Rightarrow> [])
             @ (case dedupErr of
                  Some err \<Rightarrow> [comparisonError (''Failed to deduplicate target state: '' @ Error err)]
                | None \<Rightarrow> [])
             @ dedupConditions)
            False))"

subsection \<open>Loading the live state\<close>

text \<open>
  The live objects by key are an association list, visited in list order where Go
  visits the map in no fixed order. Lines 789 to 807: the entries that stay, the
  conditions appended and whether \<^verbatim>\<open>failedToLoadObjs\<close> was set.
\<close>

fun permittedLoop ::
  "deps \<Rightarrow> AppProject \<Rightarrow> Cluster \<Rightarrow> Application \<Rightarrow> (ResourceKey \<times> Unstructured option) list
   \<Rightarrow> (ResourceKey \<times> Unstructured option) list \<times> ApplicationCondition list \<times> bool" where
  "permittedLoop d project destCluster app [] = ([], [], False)"
| "permittedLoop d project destCluster app ((k, v) # rest) =
     (case permittedLoop d project destCluster app rest of
        (kept, conditions, failed) \<Rightarrow>
          (case IsLiveResourcePermitted d project v destCluster of
             Inl err \<Rightarrow>
               ((k, v) # kept,
                comparisonError
                  (''Failed to check if live resource '' @ goQuote (ResourceKey_String k)
                   @ '' is permitted in project '' @ goQuote (spec_Project (app_Spec app)) @ '': ''
                   @ Error err) # conditions,
                True)
           | Inr permitted \<Rightarrow> (if permitted then (k, v) # kept else kept, conditions, failed)))"

definition sharedResourceWarning :: "deps \<Rightarrow> Application \<Rightarrow> Unstructured \<Rightarrow> string \<Rightarrow> ApplicationCondition" where
  "sharedResourceWarning d app liveObj appInstanceName =
     \<lparr>cond_Type = ApplicationConditionSharedResourceWarning,
      cond_Message = obj_Kind liveObj @ ''/'' @ obj_Name liveObj @ '' is part of applications ''
                     @ QualifiedName d app @ '' and ''
                     @ map (\<lambda>c. if c = CHR ''_'' then CHR ''/'' else c) appInstanceName\<rparr>"

text \<open>
  Lines 809 to 852: the shared-resource warnings and the managed namespace added to the
  target objects. The state is the target objects, the conditions and
  \<^verbatim>\<open>failedToLoadObjs\<close>.
\<close>

fun liveObjLoop ::
  "deps \<Rightarrow> appStateManager \<Rightarrow> Application \<Rightarrow> string \<Rightarrow> string \<Rightarrow> string \<Rightarrow> bool
   \<Rightarrow> (ResourceKey \<times> Unstructured option) list \<Rightarrow> Unstructured list \<Rightarrow> ApplicationCondition list \<Rightarrow> bool
   \<Rightarrow> Unstructured list \<times> ApplicationCondition list \<times> bool" where
  "liveObjLoop d m app appLabelKey trackingMethod installationID targetNsExists [] targetObjs conditions
     failed = (targetObjs, conditions, failed)"
| "liveObjLoop d m app appLabelKey trackingMethod installationID targetNsExists ((k, None) # rest)
     targetObjs conditions failed =
     liveObjLoop d m app appLabelKey trackingMethod installationID targetNsExists rest targetObjs
       conditions failed"
| "liveObjLoop d m app appLabelKey trackingMethod installationID targetNsExists ((k, Some liveObj) # rest)
     targetObjs conditions failed =
     (let appInstanceName =
            rt_GetAppName (m_resourceTracking m) liveObj appLabelKey trackingMethod installationID;
          conditions1 =
            (if appInstanceName \<noteq> '''' \<and> appInstanceName \<noteq> InstanceName d app (m_namespace m)
             then conditions @ [sharedResourceWarning d app liveObj appInstanceName]
             else conditions)
      in if isManagedNamespace (Some liveObj) app \<and> \<not> targetNsExists then
           (case ToUnstructured d (obj_Name liveObj) of
              Inl err \<Rightarrow>
                liveObjLoop d m app appLabelKey trackingMethod installationID targetNsExists rest
                  targetObjs (conditions1 @ [comparisonError (Error err)]) True
            | Inr managedNs \<Rightarrow>
                (case syncNamespace d (spec_SyncPolicy (app_Spec app)) managedNs liveObj of
                   Inl err \<Rightarrow>
                     liveObjLoop d m app appLabelKey trackingMethod installationID targetNsExists rest
                       targetObjs (conditions1 @ [comparisonError (Error err)]) True
                 | Inr managedNs' \<Rightarrow>
                     liveObjLoop d m app appLabelKey trackingMethod installationID targetNsExists rest
                       (targetObjs @ [managedNs']) conditions1 failed))
         else liveObjLoop d m app appLabelKey trackingMethod installationID targetNsExists rest
                targetObjs conditions1 failed)"

text \<open>
  Lines 779 to 860: the live objects by key, the target objects with the managed
  namespace, the conditions and \<^verbatim>\<open>failedToLoadObjs\<close> after the two loops.
\<close>

definition loadLiveState ::
  "deps \<Rightarrow> appStateManager \<Rightarrow> Application \<Rightarrow> AppProject \<Rightarrow> Cluster \<Rightarrow> string \<Rightarrow> string \<Rightarrow> string \<Rightarrow> bool
   \<Rightarrow> Unstructured list \<Rightarrow> ApplicationCondition list \<Rightarrow> bool
   \<Rightarrow> (ResourceKey \<times> Unstructured option) list \<times> Unstructured list \<times> ApplicationCondition list \<times> bool" where
  "loadLiveState d m app project destCluster appLabelKey trackingMethod installationID targetNsExists
     targetObjs conditions0 failed0 =
     (case (case lsc_GetManagedLiveObjs (m_liveStateCache m) destCluster app targetObjs of
              Inl err \<Rightarrow>
                ([], conditions0 @ [comparisonError (''Failed to load live state: '' @ Error err)], True)
            | Inr liveObjByKey \<Rightarrow> (liveObjByKey, conditions0, failed0)) of
        (liveObjByKey0, conditions1, failed1) \<Rightarrow>
     (case permittedLoop d project destCluster app liveObjByKey0 of
        (liveObjByKey, permConditions, permFailed) \<Rightarrow>
     (case liveObjLoop d m app appLabelKey trackingMethod installationID targetNsExists liveObjByKey
             targetObjs (conditions1 @ permConditions) (failed1 \<or> permFailed) of
        (targetObjs', conditions, failed) \<Rightarrow> (liveObjByKey, targetObjs', conditions, failed))))"

subsection \<open>Configuring the diff\<close>

definition serverSideDiffOf :: "deps \<Rightarrow> appStateManager \<Rightarrow> Application \<Rightarrow> bool" where
  "serverSideDiffOf d m app =
     (if HasAnnotationOption d (app_Annotations app) AnnotationCompareOptions ''ServerSideDiff=false''
      then False
      else m_serverSideDiff m \<or>
           HasAnnotationOption d (app_Annotations app) AnnotationCompareOptions ''ServerSideDiff=true'')"

definition unknownError :: "string \<Rightarrow> ApplicationCondition" where
  "unknownError msg = \<lparr>cond_Type = ApplicationConditionUnknownError, cond_Message = msg\<rparr>"

text \<open>
  Lines 863 to 925: the built diff configuration (nil when \<^verbatim>\<open>Build\<close> refuses it; the
  error is dropped) and the conditions appended. The deferred clean-up of the
  dry-run applier releases a resource and is not part of the model.
\<close>

definition buildDiffConfig ::
  "deps \<Rightarrow> appStateManager \<Rightarrow> Application \<Rightarrow> Cluster \<Rightarrow> ApplicationSource list \<Rightarrow> bool \<Rightarrow> string \<Rightarrow> string
   \<Rightarrow> string \<Rightarrow> ManifestResponse list \<Rightarrow> DiffConfig option \<times> ApplicationCondition list" where
  "buildDiffConfig d m app destCluster sources noCache appLabelKey resourceOverrides trackingMethod
     manifestInfos =
     (let ignoreAggregatedRoles =
            (case sm_GetResourceCompareOptions (m_settingsMgr m) of
               Inl err \<Rightarrow> GetDefaultDiffOptions d
             | Inr compareOptions \<Rightarrow> compareOptions);
          manifestRevisions = map mr_Revision manifestInfos;
          serverSideDiff = serverSideDiffOf d m app;
          useCache = useDiffCache d noCache manifestInfos sources app manifestRevisions
                       (m_statusRefreshTimeout m) serverSideDiff;
          gvk = getGVKParser d destCluster;
          applier = getServerSideDiffDryRunApplier d destCluster;
          builder =
            \<lparr>dc_Ignores = spec_IgnoreDifferences (app_Spec app),
             dc_Overrides = resourceOverrides,
             dc_IgnoreAggregatedRoles = ignoreAggregatedRoles,
             dc_AppLabelKey = appLabelKey,
             dc_TrackingMethod = trackingMethod,
             dc_NoCache = (\<not> useCache),
             dc_CacheAppName = (if useCache then InstanceName d app (m_namespace m) else ''''),
             dc_IgnoreMutationWebhook =
               (\<not> HasAnnotationOption d (app_Annotations app) AnnotationCompareOptions
                    ''IncludeMutationWebhook=true''),
             dc_GVKParser = fst gvk,
             dc_ServerSideDiff = serverSideDiff,
             dc_ServerSideDryRunner = (if serverSideDiff then fst applier else None),
             dc_StructuredMergeDiff =
               (case spec_SyncPolicy (app_Spec app) of
                  None \<Rightarrow> False
                | Some policy \<Rightarrow> SyncOptions_HasOption d (sp_SyncOptions policy) ''ServerSideApply=true'')\<rparr>
      in ((case DiffConfig_Validate d builder of Some err \<Rightarrow> None | None \<Rightarrow> Some builder),
          (case snd gvk of Some err \<Rightarrow> [unknownError (Error err)] | None \<Rightarrow> [])
          @ (if serverSideDiff
             then (case snd applier of Some err \<Rightarrow> [unknownError (Error err)] | None \<Rightarrow> [])
             else [])))"

subsection \<open>Sync Status Classifier\<close>

text \<open>
  The \<^verbatim>\<open>switch\<close> of lines 983 to 1002 for one pair with object \<open>obj\<close> (the live object
  if there is one, else the target): the sync status it stores in the resource state
  (the empty string when it stores none) and the running aggregate \<^verbatim>\<open>syncCode\<close>.
\<close>

definition syncSwitch ::
  "deps \<Rightarrow> Application \<Rightarrow> Unstructured option \<Rightarrow> Unstructured option \<Rightarrow> Unstructured \<Rightarrow> bool \<Rightarrow> bool
   \<Rightarrow> DiffResult \<Rightarrow> SyncStatusCode \<Rightarrow> SyncStatusCode \<times> SyncStatusCode" where
  "syncSwitch d app targetObj liveObj obj hook selfReferenced diffResult syncCode =
     (let isManagedNs = (isManagedNamespace targetObj app \<and> liveObj = None) in
      if hook \<or> Ignore d obj \<or> (case targetObj of None \<Rightarrow> False | Some t \<Rightarrow> Skip d t) \<or> \<not> selfReferenced
      then ('''', syncCode)
      else if \<not> isManagedNs \<and> (dr_Modified diffResult \<or> targetObj = None \<or> liveObj = None)
      then (SyncStatusCodeOutOfSync,
            (let needsPruning = (targetObj = None \<and> liveObj \<noteq> None) in
             if \<not> needsPruning \<or>
                \<not> HasAnnotationOption d (obj_Annotations obj) AnnotationCompareOptions ''IgnoreExtraneous''
             then SyncStatusCodeOutOfSync
             else syncCode))
      else (SyncStatusCodeSynced, syncCode))"

definition invalidSpecError :: "Unstructured \<Rightarrow> ApplicationCondition" where
  "invalidSpecError obj =
     \<lparr>cond_Type = ApplicationConditionInvalidSpecError,
      cond_Message = ''Namespace for '' @ obj_Name obj @ '' '' @ obj_Group obj @ ''/'' @ obj_Version obj
                     @ '', Kind='' @ obj_Kind obj @ '' is missing.''\<rparr>"

text \<open>
  The body of the loop of lines 939 to 1035 for index \<open>i\<close>: the entries
  \<^verbatim>\<open>managedResources[i]\<close> and \<^verbatim>\<open>resourceSummaries[i]\<close>, the conditions appended and the
  aggregate. When target and live are both nil the body is left by \<^verbatim>\<open>continue\<close> and
  both entries keep their zero value.
\<close>

definition classifyResource ::
  "deps \<Rightarrow> appStateManager \<Rightarrow> Application \<Rightarrow> AppProject \<Rightarrow> Cluster \<Rightarrow> string \<Rightarrow> string \<Rightarrow> bool
   \<Rightarrow> DiffResultList \<Rightarrow> Unstructured option \<Rightarrow> Unstructured option \<Rightarrow> nat \<Rightarrow> SyncStatusCode
   \<Rightarrow> managedResource \<times> ResourceStatus \<times> ApplicationCondition list \<times> SyncStatusCode" where
  "classifyResource d m app project destCluster trackingMethod installationID failedToLoadObjs
     diffResults targetObj liveObj i syncCode =
     (case (case liveObj of Some l \<Rightarrow> Some l | None \<Rightarrow> targetObj) of
        None \<Rightarrow> (managedResource_zero, ResourceStatus_zero, [], syncCode)
      | Some obj \<Rightarrow>
          (let selfReferenced =
                 m_isSelfReferencedObj d m liveObj targetObj (app_Name app) trackingMethod installationID;
               hook = isHook d obj;
               diffResult =
                 (if i < length (drl_Diffs diffResults) then drl_Diffs diffResults ! i
                  else \<lparr>dr_Modified = False, dr_NormalizedLive = ''{}'', dr_PredictedLive = ''{}''\<rparr>);
               switched = syncSwitch d app targetObj liveObj obj hook selfReferenced diffResult syncCode;
               namespaced = lsc_IsNamespaced (m_liveStateCache m) destCluster (GroupKind_of obj);
               status1 =
                 (if \<not> IsGroupKindPermitted d project (GroupKind_of obj)
                        (fst namespaced \<and> snd namespaced = None)
                  then SyncStatusCodeUnknown
                  else fst switched);
               resState =
                 \<lparr>rs_Group = obj_Group obj, rs_Version = obj_Version obj, rs_Kind = obj_Kind obj,
                  rs_Namespace = obj_Namespace obj, rs_Name = obj_Name obj,
                  rs_Status = (if failedToLoadObjs then SyncStatusCodeUnknown else status1),
                  rs_Hook = hook,
                  rs_RequiresPruning = (targetObj = None \<and> liveObj \<noteq> None \<and> selfReferenced),
                  rs_RequiresDeletionConfirmation =
                    ((case targetObj of
                        None \<Rightarrow> False
                      | Some t \<Rightarrow> HasAnnotationOption d (obj_Annotations t) AnnotationSyncOptions
                                    SyncOptionDeleteRequireConfirm)
                     \<or> (case liveObj of
                          None \<Rightarrow> False
                        | Some l \<Rightarrow> HasAnnotationOption d (obj_Annotations l) AnnotationSyncOptions
                                      SyncOptionDeleteRequireConfirm)),
                  rs_SyncWave = (case targetObj of None \<Rightarrow> 0 | Some t \<Rightarrow> Wave d t)\<rparr>
           in (\<lparr>mres_Target = targetObj, mres_Live = liveObj, mres_Diff = diffResult,
                mres_Group = rs_Group resState, mres_Version = rs_Version resState,
                mres_Kind = rs_Kind resState, mres_Namespace = rs_Namespace resState,
                mres_Name = rs_Name resState, mres_Hook = rs_Hook resState,
                mres_ResourceVersion = (case liveObj of None \<Rightarrow> '''' | Some l \<Rightarrow> obj_ResourceVersion l)\<rparr>,
               resState,
               (if fst namespaced \<and> obj_Namespace obj = '''' then [invalidSpecError obj] else []),
               snd switched)))"

text \<open>
  The loop over \<^verbatim>\<open>reconciliation.Target\<close>; \<^verbatim>\<open>reconciliation.Live[i]\<close> panics when the
  list of live objects is the shorter one.
\<close>

fun classifyLoop ::
  "(Unstructured option \<Rightarrow> Unstructured option \<Rightarrow> nat \<Rightarrow> SyncStatusCode
      \<Rightarrow> managedResource \<times> ResourceStatus \<times> ApplicationCondition list \<times> SyncStatusCode)
   \<Rightarrow> Unstructured option list \<Rightarrow> nat \<Rightarrow> Unstructured option list \<Rightarrow> SyncStatusCode
   \<Rightarrow> error + (managedResource list \<times> ResourceStatus list \<times> ApplicationCondition list \<times> SyncStatusCode)" where
  "classifyLoop body live i [] syncCode = Inr ([], [], [], syncCode)"
| "classifyLoop body live i (targetObj # rest) syncCode =
     (if length live \<le> i then Inl (Panic ''index out of range'')
      else (case body targetObj (live ! i) i syncCode of
              (managed, resState, conditions, syncCode') \<Rightarrow>
                (case classifyLoop body live (Suc i) rest syncCode' of
                   Inl err \<Rightarrow> Inl err
                 | Inr (managedResources, resourceSummaries, conditions', syncCode'') \<Rightarrow>
                     Inr (managed # managedResources, resState # resourceSummaries,
                          conditions @ conditions', syncCode''))))"

subsection \<open>The pass\<close>

text \<open>
  What a call of \<^verbatim>\<open>CompareAppState\<close> leaves behind: the pair it returns, the
  repo-error cache, the conditions it hands to \<^verbatim>\<open>app.Status.SetConditions\<close> (when it
  gets there) and, for reference, the value of the local \<^verbatim>\<open>failedToLoadObjs\<close> at the
  return.
\<close>

record outcome =
  out_result :: "error + comparisonResult"
  out_repoErrorCache :: "string \<rightharpoonup> time"
  out_conditions :: "ApplicationCondition list option"
  out_failedToLoadObjs :: bool

definition finalSyncCode :: "deps \<Rightarrow> Application \<Rightarrow> bool \<Rightarrow> SyncStatusCode \<Rightarrow> SyncStatusCode" where
  "finalSyncCode d app failedToLoadObjs syncCode =
     (if failedToLoadObjs then SyncStatusCodeUnknown
      else if HasChangedManagedNamespaceMetadata d app then SyncStatusCodeOutOfSync
      else syncCode)"

definition resolvedSyncStatus :: "SyncStatus \<Rightarrow> SyncStatusCode \<Rightarrow> bool \<Rightarrow> string list \<Rightarrow> SyncStatus" where
  "resolvedSyncStatus syncStatus syncCode hasMultipleSources manifestRevisions =
     (if hasMultipleSources
      then syncStatus\<lparr>ss_Status := syncCode, ss_Revisions := manifestRevisions\<rparr>
      else (case manifestRevisions of
              [] \<Rightarrow> syncStatus\<lparr>ss_Status := syncCode\<rparr>
            | revision # rest \<Rightarrow> syncStatus\<lparr>ss_Status := syncCode, ss_Revision := revision\<rparr>))"

definition signatureConditions ::
  "deps \<Rightarrow> bool \<Rightarrow> AppProject \<Rightarrow> ManifestResponse list \<Rightarrow> ApplicationCondition list" where
  "signatureConditions d verifySignature project manifestInfos =
     concat (map (\<lambda>manifestInfo.
                    if IsGPGEnabled d \<and> verifySignature
                    then verifyGnuPGSignature d (mr_Revision manifestInfo) project manifestInfo
                    else [])
                 manifestInfos)"

text \<open>
  Lines 737 to 934, from the loaded target state to the diff: the locals that the
  classification and the assembly of the result read.
\<close>

record comparisonInputs =
  ci_targetObjs :: "Unstructured list"
  ci_reconciliation :: ReconciliationResult
  ci_diffConfig :: "DiffConfig option"
  ci_diffResults :: DiffResultList
  ci_conditions :: "ApplicationCondition list"
  ci_failedToLoadObjs :: bool

definition prepareComparison ::
  "deps \<Rightarrow> appStateManager \<Rightarrow> Application \<Rightarrow> AppProject \<Rightarrow> ApplicationSource list \<Rightarrow> bool \<Rightarrow> string
   \<Rightarrow> string \<Rightarrow> (string \<Rightarrow> string \<Rightarrow> string \<Rightarrow> bool) \<Rightarrow> string \<Rightarrow> string \<Rightarrow> Cluster \<Rightarrow> targetState
   \<Rightarrow> comparisonInputs" where
  "prepareComparison d m app project sources noCache appLabelKey resourceOverrides IsExcludedResource
     installationID trackingMethod destCluster loaded =
     (let infoProvider =
            (case lsc_GetClusterCache (m_liveStateCache m) destCluster of
               Inl err \<Rightarrow> resourceInfoProviderStub
             | Inr clusterCache \<Rightarrow> clusterCache)
      in
      case normalizeTargets d m app destCluster appLabelKey trackingMethod installationID
             IsExcludedResource infoProvider (ts_targetObjs loaded) of
        (targetObjs0, conditions0, targetNsExists) \<Rightarrow>
      case loadLiveState d m app project destCluster appLabelKey trackingMethod installationID
             targetNsExists targetObjs0 (ts_conditions loaded @ conditions0) (ts_failedToLoadObjs loaded) of
        (liveObjByKey, targetObjs, conditions1, failed1) \<Rightarrow>
      let reconciliation =
            Reconcile d targetObjs liveObjByKey (dest_Namespace (spec_Destination (app_Spec app)))
              infoProvider
      in
      case buildDiffConfig d m app destCluster sources noCache appLabelKey resourceOverrides trackingMethod
             (ts_manifestInfos loaded) of
        (diffConfig, conditions2) \<Rightarrow>
      case StateDiffs d (rr_Live reconciliation) (rr_Target reconciliation) diffConfig of
        Inl err \<Rightarrow>
          \<lparr>ci_targetObjs = targetObjs, ci_reconciliation = reconciliation, ci_diffConfig = diffConfig,
           ci_diffResults = \<lparr>drl_Diffs = [], drl_Modified = False\<rparr>,
           ci_conditions =
             conditions1 @ conditions2
             @ [comparisonError (''Failed to compare desired state to live state: '' @ Error err)],
           ci_failedToLoadObjs = True\<rparr>
      | Inr diffResults \<Rightarrow>
          \<lparr>ci_targetObjs = targetObjs, ci_reconciliation = reconciliation, ci_diffConfig = diffConfig,
           ci_diffResults = diffResults, ci_conditions = conditions1 @ conditions2,
           ci_failedToLoadObjs = failed1\<rparr>)"

text \<open>
  Lines 936 to 1057: the classification loop, the aggregate, the health. The record
  holds the locals that the end of the pass reads; \<open>cl_conditions\<close> is the value of
  \<^verbatim>\<open>conditions\<close> when the signature check of line 1062 begins.
\<close>

record classification =
  cl_managedResources :: "managedResource list"
  cl_resourceSummaries :: "ResourceStatus list"
  cl_syncCode :: SyncStatusCode
  cl_healthStatus :: HealthStatusCode
  cl_conditions :: "ApplicationCondition list"

definition classifyPairs ::
  "deps \<Rightarrow> appStateManager \<Rightarrow> Application \<Rightarrow> AppProject \<Rightarrow> string \<Rightarrow> string \<Rightarrow> string \<Rightarrow> Cluster
   \<Rightarrow> comparisonInputs \<Rightarrow> error + classification" where
  "classifyPairs d m app project resourceOverrides installationID trackingMethod destCluster inputs =
     (case classifyLoop
             (classifyResource d m app project destCluster trackingMethod installationID
                (ci_failedToLoadObjs inputs) (ci_diffResults inputs))
             (rr_Live (ci_reconciliation inputs)) 0 (rr_Target (ci_reconciliation inputs))
             SyncStatusCodeSynced of
        Inl err \<Rightarrow> Inl err
      | Inr (managedResources, resourceSummaries, conditions4, syncCode) \<Rightarrow>
          (let health = setApplicationHealth d managedResources resourceSummaries resourceOverrides app
                          (m_persistResourceHealth m)
           in Inr \<lparr>cl_managedResources = managedResources,
                   cl_resourceSummaries = resourceSummaries,
                   cl_syncCode = finalSyncCode d app (ci_failedToLoadObjs inputs) syncCode,
                   cl_healthStatus = fst health,
                   cl_conditions =
                     ci_conditions inputs @ conditions4
                     @ (case snd health of
                          Some err \<Rightarrow> [comparisonError (''error setting app health: '' @ Error err)]
                        | None \<Rightarrow> [])\<rparr>))"

text \<open>Lines 737 to 1099: the pass from the loaded target state on.\<close>

definition compareLoaded ::
  "deps \<Rightarrow> appStateManager \<Rightarrow> Application \<Rightarrow> AppProject \<Rightarrow> ApplicationSource list \<Rightarrow> bool \<Rightarrow> bool
   \<Rightarrow> SyncStatus \<Rightarrow> string \<Rightarrow> string \<Rightarrow> (string \<Rightarrow> string \<Rightarrow> string \<Rightarrow> bool) \<Rightarrow> string \<Rightarrow> string \<Rightarrow> Cluster
   \<Rightarrow> bool \<Rightarrow> targetState \<Rightarrow> outcome" where
  "compareLoaded d m app project sources noCache hasMultipleSources syncStatus appLabelKey
     resourceOverrides IsExcludedResource installationID trackingMethod destCluster verifySignature loaded =
     (let inputs = prepareComparison d m app project sources noCache appLabelKey resourceOverrides
                     IsExcludedResource installationID trackingMethod destCluster loaded;
          manifestRevisions = map mr_Revision (ts_manifestInfos loaded)
      in
      case classifyPairs d m app project resourceOverrides installationID trackingMethod destCluster
             inputs of
        Inl err \<Rightarrow>
          \<lparr>out_result = Inl err, out_repoErrorCache = ts_repoErrorCache loaded, out_conditions = None,
           out_failedToLoadObjs = ci_failedToLoadObjs inputs\<rparr>
      | Inr cl \<Rightarrow>
          \<lparr>out_result =
             Inr \<lparr>res_syncStatus =
                    resolvedSyncStatus syncStatus (cl_syncCode cl) hasMultipleSources manifestRevisions,
                  res_healthStatus = cl_healthStatus cl,
                  res_resources = cl_resourceSummaries cl,
                  res_managedResources = cl_managedResources cl,
                  res_reconciliationResult = ci_reconciliation inputs,
                  res_diffConfig = ci_diffConfig inputs,
                  res_appSourceType =
                    (if hasMultipleSources then []
                     else (case ts_manifestInfos loaded of
                             [] \<Rightarrow> []
                           | manifestInfo # rest \<Rightarrow> mr_SourceType manifestInfo)),
                  res_appSourceTypes =
                    (if hasMultipleSources then map mr_SourceType (ts_manifestInfos loaded) else []),
                  res_diffResultList = Some (ci_diffResults inputs),
                  res_hasPostDeleteHooks = list_ex (isPostDeleteHook d) (ci_targetObjs inputs),
                  res_revisionsMayHaveChanges = ts_revisionsMayHaveChanges loaded\<rparr>,
           out_repoErrorCache = ts_repoErrorCache loaded,
           out_conditions =
             Some (cl_conditions cl
                   @ signatureConditions d verifySignature project (ts_manifestInfos loaded)),
           out_failedToLoadObjs = ci_failedToLoadObjs inputs\<rparr>)"

text \<open>The result of the early return when the comparison settings cannot be loaded.\<close>

definition unknownComparisonResult :: "SyncStatus \<Rightarrow> comparisonResult" where
  "unknownComparisonResult syncStatus =
     \<lparr>res_syncStatus = syncStatus, res_healthStatus = HealthStatusUnknown, res_resources = [],
      res_managedResources = [],
      res_reconciliationResult = \<lparr>rr_Live = [], rr_Target = [], rr_Hooks = []\<rparr>,
      res_diffConfig = None, res_appSourceType = '''', res_appSourceTypes = [],
      res_diffResultList = None, res_hasPostDeleteHooks = False, res_revisionsMayHaveChanges = False\<rparr>"

definition CompareAppState ::
  "deps \<Rightarrow> appStateManager \<Rightarrow> clockReadings \<Rightarrow> Application \<Rightarrow> AppProject \<Rightarrow> string list
   \<Rightarrow> ApplicationSource list \<Rightarrow> bool \<Rightarrow> bool \<Rightarrow> string list \<Rightarrow> bool \<Rightarrow> outcome" where
  "CompareAppState d m clk app project revisions sources noCache noRevisionCache localManifests
     hasMultipleSources =
     (let syncStatus = initialSyncStatus app revisions sources hasMultipleSources in
      case getComparisonSettings m of
        Inl err \<Rightarrow>
          \<lparr>out_result = Inr (unknownComparisonResult syncStatus),
           out_repoErrorCache = m_repoErrorCache m, out_conditions = None,
           out_failedToLoadObjs = False\<rparr>
      | Inr (appLabelKey, resourceOverrides, resFilter, installationID, trackingMethod) \<Rightarrow>
          (let verifySignature = (length (proj_SignatureKeys project) > 0 \<and> IsGPGEnabled d) in
           case GetDestinationCluster d (spec_Destination (app_Spec app)) of
             Inl err \<Rightarrow>
               \<lparr>out_result = Inl err, out_repoErrorCache = m_repoErrorCache m, out_conditions = None,
                out_failedToLoadObjs = False\<rparr>
           | Inr destCluster \<Rightarrow>
               (case loadTargetState d m clk app project revisions sources appLabelKey noCache
                       noRevisionCache localManifests verifySignature of
                  Inl (err, repoErrorCache) \<Rightarrow>
                    \<lparr>out_result = Inl err, out_repoErrorCache = repoErrorCache, out_conditions = None,
                     out_failedToLoadObjs = False\<rparr>
                | Inr loaded \<Rightarrow>
                    compareLoaded d m app project sources noCache hasMultipleSources syncStatus
                      appLabelKey resourceOverrides resFilter installationID trackingMethod destCluster
                      verifySignature loaded)))"

section \<open>A concrete scenario\<close>

text \<open>
  A single-source application whose source is a chart at revision \<open>1.2.3\<close>; rendering
  returns a Deployment and a Service. The collaborators are simple executable
  stand-ins. The theorems below are instantiated with them.
\<close>

definition demo_deployment :: Unstructured where
  "demo_deployment =
     \<lparr>obj_Group = ''apps'', obj_Version = ''v1'', obj_Kind = ''Deployment'', obj_Namespace = ''default'',
      obj_Name = ''web'', obj_GenerateName = '''', obj_ResourceVersion = ''1'', obj_Annotations = []\<rparr>"

definition demo_service :: Unstructured where
  "demo_service =
     \<lparr>obj_Group = '''', obj_Version = ''v1'', obj_Kind = ''Service'', obj_Namespace = ''default'',
      obj_Name = ''web'', obj_GenerateName = '''', obj_ResourceVersion = ''1'', obj_Annotations = []\<rparr>"

definition demo_source :: ApplicationSource where
  "demo_source =
     \<lparr>src_RepoURL = ''https://charts.example.com'', src_Path = '''', src_TargetRevision = ''1.2.3'',
      src_Chart = ''guestbook'', src_Ref = ''''\<rparr>"

definition demo_destination :: ApplicationDestination where
  "demo_destination =
     \<lparr>dest_Server = ''https://kubernetes.default.svc'', dest_Namespace = ''default'', dest_Name = ''''\<rparr>"

definition demo_comparedTo :: ComparedTo where
  "demo_comparedTo =
     \<lparr>ct_Source = demo_source, ct_Destination = demo_destination, ct_Sources = [],
      ct_IgnoreDifferences = []\<rparr>"

definition demo_app :: Application where
  "demo_app =
     \<lparr>app_Name = ''guestbook'', app_Namespace = ''argocd'', app_Annotations = [],
      app_Spec = \<lparr>spec_Source = Some demo_source, spec_Destination = demo_destination,
                  spec_Project = ''default'', spec_SyncPolicy = None, spec_IgnoreDifferences = [],
                  spec_Sources = []\<rparr>,
      app_Status = \<lparr>status_Sync = \<lparr>ss_Status = '''', ss_ComparedTo = demo_comparedTo,
                                     ss_Revision = '''', ss_Revisions = []\<rparr>,
                    status_Conditions = [], status_ReconciledAt = None\<rparr>\<rparr>"

definition demo_project :: AppProject where
  "demo_project = \<lparr>proj_Name = ''default'', proj_SourceRepos = [''*''], proj_SignatureKeys = []\<rparr>"

definition demo_signed_project :: AppProject where
  "demo_signed_project =
     \<lparr>proj_Name = ''default'', proj_SourceRepos = [''*''], proj_SignatureKeys = [''4AEE18F83AFDEB23'']\<rparr>"

definition demo_response :: ManifestResponse where
  "demo_response =
     \<lparr>mr_Manifests = [''deployment'', ''service''], mr_Revision = ''1.2.3'', mr_SourceType = ''Helm'',
      mr_VerifyResult = ''''\<rparr>"

definition demo_reconcile ::
  "Unstructured list \<Rightarrow> (ResourceKey \<times> Unstructured option) list \<Rightarrow> string \<Rightarrow> ResourceInfoProvider
   \<Rightarrow> ReconciliationResult" where
  "demo_reconcile targetObjs liveObjByKey namespace infoProvider =
     (let extra = filter (\<lambda>kv. fst kv \<notin> set (map GetResourceKey targetObjs)) liveObjByKey
      in \<lparr>rr_Live = map (\<lambda>t. case map_of liveObjByKey (GetResourceKey t) of
                                 None \<Rightarrow> None | Some v \<Rightarrow> v) targetObjs
                      @ map snd extra,
           rr_Target = map Some targetObjs @ map (\<lambda>kv. None) extra,
           rr_Hooks = []\<rparr>)"

definition demo_deps :: deps where
  "demo_deps =
     \<lparr>IsHelm = (\<lambda>source. src_Chart source \<noteq> ''''),
      IsOCI = (\<lambda>source. take 6 (src_RepoURL source) = ''oci://''),
      HasMultipleSources = (\<lambda>spec. spec_Sources spec \<noteq> []),
      BuildComparedToStatus =
        (\<lambda>spec sources.
           (\<lparr>ct_Source = (if spec_Sources spec \<noteq> [] then ApplicationSource_zero
                           else (case sources of [] \<Rightarrow> ApplicationSource_zero | s # rest \<Rightarrow> s)),
             ct_Destination = spec_Destination spec,
             ct_Sources = (if spec_Sources spec \<noteq> [] then sources else []),
             ct_IgnoreDifferences = spec_IgnoreDifferences spec\<rparr>,
            spec\<lparr>spec_Project := ''scratch''\<rparr>)),
      InstanceName = (\<lambda>app namespace. app_Name app),
      QualifiedName = (\<lambda>app. app_Namespace app @ ''/'' @ app_Name app),
      IsRefreshRequested = (\<lambda>app. ('''', False)),
      HasChangedManagedNamespaceMetadata = (\<lambda>app. False),
      Expired = (\<lambda>status timeout. False),
      GetRevisions =
        (\<lambda>status. if ss_Revisions (status_Sync status) \<noteq> [] then ss_Revisions (status_Sync status)
                  else if ss_Revision (status_Sync status) \<noteq> '''' then [ss_Revision (status_Sync status)]
                  else []),
      IsGroupKindPermitted = (\<lambda>project gk namespaced. True),
      IsLiveResourcePermitted = (\<lambda>project obj cluster. Inr True),
      SyncOptions_HasOption = (\<lambda>options option. List.member options option),
      UnmarshalToUnstructured =
        (\<lambda>manifest. if manifest = ''deployment'' then Inr (Some demo_deployment)
                    else if manifest = ''service'' then Inr (Some demo_service)
                    else Inl (Err ''error unmarshaling manifest'')),
      GetPermittedRepos = (\<lambda>project repos. Inr repos),
      GetPermittedReposCredentials = (\<lambda>project creds. Inr creds),
      GetDestinationCluster =
        (\<lambda>dest. Inr \<lparr>cluster_Server = dest_Server dest, cluster_Name = dest_Name dest\<rparr>),
      GetRefSources = (\<lambda>sources project revisions. Inr ''''),
      APIResourcesToStrings = (\<lambda>resources. resources),
      UnstructuredToAppInstanceValue =
        (\<lambda>un appName namespace.
           \<lparr>aiv_ApplicationName = appName, aiv_Group = obj_Group un, aiv_Kind = obj_Kind un,
            aiv_Namespace = (if obj_Namespace un = '''' then namespace else obj_Namespace un),
            aiv_Name = obj_Name un\<rparr>),
      GetAppRefreshPaths = (\<lambda>app. []),
      IsGPGEnabled = True,
      ParseGitCommitVerification =
        (\<lambda>payload. \<lparr>vr_Result = ''Unknown'', vr_KeyID = '''', vr_Cipher = '''', vr_Message = payload\<rparr>),
      KeyID = (\<lambda>k. k),
      GetDefaultDiffOptions = False,
      DiffConfig_Validate = (\<lambda>config. None),
      StateDiffs =
        (\<lambda>lives targets config.
           Inr \<lparr>drl_Diffs = map (\<lambda>t. \<lparr>dr_Modified = False, dr_NormalizedLive = ''{}'',
                                       dr_PredictedLive = ''{}''\<rparr>) targets,
                drl_Modified = False\<rparr>),
      HasAnnotationOption =
        (\<lambda>annotations key option. case map_of annotations key of None \<Rightarrow> False | Some v \<Rightarrow> v = option),
      Ignore = (\<lambda>obj. False),
      Skip = (\<lambda>obj. False),
      Wave = (\<lambda>obj. 0),
      Reconcile = demo_reconcile,
      ToUnstructured =
        (\<lambda>name. Inr \<lparr>obj_Group = '''', obj_Version = ''v1'', obj_Kind = ''Namespace'', obj_Namespace = '''',
                      obj_Name = name, obj_GenerateName = '''', obj_ResourceVersion = '''',
                      obj_Annotations = []\<rparr>),
      isHook = (\<lambda>obj. False),
      isPostDeleteHook = (\<lambda>obj. False),
      syncNamespace = (\<lambda>policy managedNs liveObj. Inr managedNs),
      setApplicationHealth = (\<lambda>managed statuses overrides app persist. (''Healthy'', None)),
      getGVKParser = (\<lambda>cluster. (Some ''parser'', None)),
      getServerSideDiffDryRunApplier = (\<lambda>cluster. (Some ''applier'', None))\<rparr>"

definition demo_infoProvider :: ResourceInfoProvider where
  "demo_infoProvider = (\<lambda>gk. Inr (snd gk \<noteq> ''Namespace''))"

definition demo_m :: appStateManager where
  "demo_m =
     \<lparr>m_db =
        \<lparr>db_ListHelmRepositories = Inr [], db_ListOCIRepositories = Inr [],
         db_GetAllHelmRepositoryCredentials = Inr [], db_GetAllOCIRepositoryCredentials = Inr [],
         db_GetRepository = (\<lambda>url project. Inr url)\<rparr>,
      m_settingsMgr =
        \<lparr>sm_GetResourceOverrides = Inr '''', sm_GetAppInstanceLabelKey = Inr ''app.kubernetes.io/instance'',
         sm_GetResourcesFilter = Inr (\<lambda>g k server. False), sm_GetInstallationID = Inr '''',
         sm_GetTrackingMethod = Inr ''annotation'', sm_GetEnabledSourceTypes = Inr '''',
         sm_GetKustomizeSettings = Inr '''', sm_GetHelmSettings = Inr '''',
         sm_GetResourceCompareOptions = Inr False\<rparr>,
      m_repoClientset =
        \<lparr>rc_NewRepoServerClient = None,
         rc_UpdateRevisionForPaths = (\<lambda>request. Inr \<lparr>urs_Changes = False, urs_Revision = ''''\<rparr>),
         rc_GenerateManifest = (\<lambda>request. Inr (demo_response\<lparr>mr_Revision := mrq_Revision request\<rparr>))\<rparr>,
      m_liveStateCache =
        \<lparr>lsc_GetVersionsInfo = (\<lambda>cluster. Inr (''1.30'', [])),
         lsc_GetClusterCache = (\<lambda>cluster. Inr demo_infoProvider),
         lsc_GetManagedLiveObjs = (\<lambda>cluster app targetObjs. Inr []),
         lsc_IsNamespaced = (\<lambda>cluster gk. (snd gk \<noteq> ''Namespace'', None))\<rparr>,
      m_namespace = ''argocd'',
      m_statusRefreshTimeout = 180,
      m_resourceTracking =
        \<lparr>rt_GetAppInstance = (\<lambda>un trackingMethod installationID. None),
         rt_GetAppName = (\<lambda>un key trackingMethod installationID. ''''),
         rt_SetAppInstance = (\<lambda>un key val namespace trackingMethod installationID. (un, None))\<rparr>,
      m_persistResourceHealth = False,
      m_repoErrorCache = Map.empty,
      m_repoErrorGracePeriod = 180,
      m_serverSideDiff = False\<rparr>"

definition demo_clock :: clockReadings where
  "demo_clock = \<lparr>now_Since = 1000, now_Store = 1001\<rparr>"

text \<open>The same state manager with a repo server that cannot render.\<close>

definition demo_m_failing :: appStateManager where
  "demo_m_failing =
     demo_m\<lparr>m_repoClientset :=
              (m_repoClientset demo_m)\<lparr>rc_GenerateManifest := (\<lambda>request. Inl (Err ''rpc error''))\<rparr>\<rparr>"

text \<open>Variations of the scenario.\<close>

definition demo_synced_app :: Application where
  "demo_synced_app =
     demo_app\<lparr>app_Status :=
                \<lparr>status_Sync = \<lparr>ss_Status = SyncStatusCodeSynced, ss_ComparedTo = demo_comparedTo,
                                ss_Revision = ''1.2.3'', ss_Revisions = []\<rparr>,
                 status_Conditions = [], status_ReconciledAt = Some 900\<rparr>\<rparr>"

text \<open>A state manager that has seen the repo error of \<open>guestbook\<close> at time 950.\<close>

definition demo_m_seen :: appStateManager where
  "demo_m_seen = demo_m_failing\<lparr>m_repoErrorCache := [''guestbook'' \<mapsto> 950]\<rparr>"

text \<open>A state manager whose settings manager cannot read the tracking method.\<close>

definition demo_m_no_settings :: appStateManager where
  "demo_m_no_settings =
     demo_m\<lparr>m_settingsMgr :=
              (m_settingsMgr demo_m)\<lparr>sm_GetTrackingMethod := Inl (Err ''configmap not found'')\<rparr>\<rparr>"

text \<open>Collaborators whose diff fails, and a state manager that cannot load the live state.\<close>

definition demo_deps_broken_diff :: deps where
  "demo_deps_broken_diff = demo_deps\<lparr>StateDiffs := (\<lambda>lives targets config. Inl (Err ''diff failed''))\<rparr>"

definition demo_m_no_live :: appStateManager where
  "demo_m_no_live =
     demo_m\<lparr>m_liveStateCache :=
              (m_liveStateCache demo_m)\<lparr>lsc_GetManagedLiveObjs :=
                 (\<lambda>cluster app targetObjs. Inl (Err ''cluster unreachable''))\<rparr>\<rparr>"


text \<open>The Deployment rendered twice, the second time at a later resource version.\<close>

definition demo_deployment_again :: Unstructured where
  "demo_deployment_again = demo_deployment\<lparr>obj_ResourceVersion := ''2''\<rparr>"

definition demo_deployment_key :: ResourceKey where
  "demo_deployment_key =
     \<lparr>key_Group = ''apps'', key_Kind = ''Deployment'', key_Namespace = ''default'', key_Name = ''web''\<rparr>"

text \<open>A live Deployment and the tracking id its annotation carries.\<close>

definition demo_tracking_id :: AppInstanceValue where
  "demo_tracking_id =
     \<lparr>aiv_ApplicationName = ''guestbook'', aiv_Group = ''apps'', aiv_Kind = ''Deployment'',
      aiv_Namespace = ''default'', aiv_Name = ''web''\<rparr>"

definition demo_m_tracked :: appStateManager where
  "demo_m_tracked =
     demo_m\<lparr>m_resourceTracking :=
              (m_resourceTracking demo_m)\<lparr>rt_GetAppInstance :=
                 (\<lambda>un trackingMethod installationID. Some demo_tracking_id)\<rparr>\<rparr>"

definition demo_cluster :: Cluster where
  "demo_cluster = \<lparr>cluster_Server = ''https://kubernetes.default.svc'', cluster_Name = ''''\<rparr>"

text \<open>
  The application in memory: its one source behind the pointer of the spec, and the
  slice of sources of the pass. Then stand-ins for the two methods: a deep copy, which
  copies every cell the spec points to before it allocates the new spec; a shallow
  copy, which allocates the new spec only; and a \<^verbatim>\<open>BuildComparedToStatus\<close> that
  writes to a field of its receiver and through the receiver's source pointer.
\<close>

definition demo_memory :: memory where
  "demo_memory = [SourceCell demo_source, SourcesCell [demo_source]]"

definition demo_spec_mem :: ApplicationSpec_mem where
  "demo_spec_mem =
     \<lparr>ms_Source = Some 0, ms_Destination = demo_destination, ms_Project = ''default'',
      ms_SyncPolicy = None, ms_IgnoreDifferences = None, ms_Sources = None\<rparr>"

definition demo_comparedTo_mem :: ComparedTo_mem where
  "demo_comparedTo_mem =
     \<lparr>mc_Source = demo_source, mc_Destination = demo_destination, mc_Sources = None,
      mc_IgnoreDifferences = None\<rparr>"

definition demo_app_mem :: Application_mem where
  "demo_app_mem =
     \<lparr>ma_Spec = demo_spec_mem, ma_ComparedTo = demo_comparedTo_mem, ma_value = demo_synced_app\<rparr>"

definition demo_copyCell :: "memory \<Rightarrow> addr option \<Rightarrow> addr option \<times> memory" where
  "demo_copyCell h p =
     (case p of
        None \<Rightarrow> (None, h)
      | Some a \<Rightarrow> (Some (length h), h @ [h ! a]))"

definition demo_DeepCopy :: "memory \<Rightarrow> ApplicationSpec_mem \<Rightarrow> addr \<times> memory" where
  "demo_DeepCopy h spec =
     (case demo_copyCell h (ms_Source spec) of
        (source, h1) \<Rightarrow>
     case demo_copyCell h1 (ms_SyncPolicy spec) of
        (policy, h2) \<Rightarrow>
     case demo_copyCell h2 (ms_IgnoreDifferences spec) of
        (rules, h3) \<Rightarrow>
     case demo_copyCell h3 (ms_Sources spec) of
        (sources, h4) \<Rightarrow>
          (length h4,
           h4 @ [SpecCell (spec\<lparr>ms_Source := source, ms_SyncPolicy := policy,
                                ms_IgnoreDifferences := rules, ms_Sources := sources\<rparr>)]))"

definition demo_ShallowCopy :: "memory \<Rightarrow> ApplicationSpec_mem \<Rightarrow> addr \<times> memory" where
  "demo_ShallowCopy h spec = (length h, h @ [SpecCell spec])"

definition demo_BuildComparedToStatus_mem ::
  "memory \<Rightarrow> addr \<Rightarrow> addr option \<Rightarrow> ComparedTo_mem \<times> memory" where
  "demo_BuildComparedToStatus_mem h p sources =
     (case cell_at h p of
        Some (SpecCell spec) \<Rightarrow>
          (let h1 = h[p := SpecCell (spec\<lparr>ms_Project := ''scratch''\<rparr>)];
               h2 = (case ms_Source spec of
                       None \<Rightarrow> h1
                     | Some a \<Rightarrow>
                         (case cell_at h1 a of
                            Some (SourceCell source) \<Rightarrow>
                              h1[a := SourceCell (source\<lparr>src_Ref := ''compared''\<rparr>)]
                          | _ \<Rightarrow> h1))
           in (\<lparr>mc_Source =
                  (if sources_at h (ms_Sources spec) \<noteq> [] then ApplicationSource_zero
                   else (case sources_at h sources of
                           [] \<Rightarrow> ApplicationSource_zero
                         | source # rest \<Rightarrow> source)),
                mc_Destination = ms_Destination spec,
                mc_Sources = (if sources_at h (ms_Sources spec) \<noteq> [] then sources else None),
                mc_IgnoreDifferences = ms_IgnoreDifferences spec\<rparr>,
               h2))
      | _ \<Rightarrow>
          (\<lparr>mc_Source = ApplicationSource_zero,
            mc_Destination = \<lparr>dest_Server = [], dest_Namespace = [], dest_Name = []\<rparr>,
            mc_Sources = None, mc_IgnoreDifferences = None\<rparr>,
           h))"

definition demo_md :: memoryDeps where
  "demo_md =
     \<lparr>mem_DeepCopy = demo_DeepCopy, mem_BuildComparedToStatus = demo_BuildComparedToStatus_mem\<rparr>"

definition demo_md_shallow :: memoryDeps where
  "demo_md_shallow =
     \<lparr>mem_DeepCopy = demo_ShallowCopy, mem_BuildComparedToStatus = demo_BuildComparedToStatus_mem\<rparr>"

text \<open>A comparison pass of the scenario, for given collaborators, project and \<^verbatim>\<open>noRevisionCache\<close>.\<close>

definition demo_pass :: "deps \<Rightarrow> appStateManager \<Rightarrow> AppProject \<Rightarrow> bool \<Rightarrow> outcome" where
  "demo_pass d m project noRevisionCache =
     CompareAppState d m demo_clock demo_app project [''1.2.3''] [demo_source] False noRevisionCache []
       False"



section \<open>Lemmas about the model\<close>

subsection \<open>Sequencing of fallible calls\<close>

lemma bindE_Inr: "(bindE x f = Inr y) = (\<exists>a. x = Inr a \<and> f a = Inr y)"
  by (cases x) (simp_all add: bindE_def)

lemma wrapE_Inr: "(wrapE p x = Inr y) = (x = Inr y)"
  by (cases x) (simp_all add: wrapE_def)

lemma noPanic_wrapE [simp]: "noPanic (wrapE p x)"
  by (cases x) (simp_all add: noPanic_def wrapE_def)

lemma noPanic_Inr [simp]: "noPanic (Inr a)"
  by (simp add: noPanic_def)

lemma noPanic_Inl [simp]: "noPanic (Inl e) = (\<not> isPanic e)"
  by (simp add: noPanic_def)

lemma noPanic_bindE_iff:
  "noPanic (bindE x f) = (noPanic x \<and> (\<forall>a. x = Inr a \<longrightarrow> noPanic (f a)))"
  by (cases x) (simp_all add: bindE_def)

lemma noPanic_D: "noPanic x \<Longrightarrow> x = Inl e \<Longrightarrow> \<not> isPanic e"
  by (simp add: noPanic_def)

subsection \<open>The map of target objects by key\<close>

lemma groupTargets_keyed:
  "groupTargets ip ns i objs m
   = foldl (\<lambda>m ko. appendByKey m (fst ko) (snd ko)) m (keyedTargets ip ns i objs)"
  by (induction ip ns i objs m rule: groupTargets.induct) (simp_all add: Let_def)

lemma appendByKey_keys:
  "map fst (appendByKey m k obj) = (if k \<in> fst ` set m then map fst m else map fst m @ [k])"
  by (induction m k obj rule: appendByKey.induct) auto

lemma appendByKey_map_of:
  "map_of (appendByKey m k obj) k' =
     (if k' = k then Some ((case map_of m k of None \<Rightarrow> [] | Some ts \<Rightarrow> ts) @ [obj]) else map_of m k')"
  by (induction m k obj rule: appendByKey.induct) auto

lemma filed_distinct:
  "distinct (map fst m)
   \<Longrightarrow> distinct (map fst (foldl (\<lambda>m ko. appendByKey m (fst ko) (snd ko)) m kos))"
  by (induction kos arbitrary: m) (simp_all add: appendByKey_keys)

lemma filed_map_of:
  "map_of (foldl (\<lambda>m ko. appendByKey m (fst ko) (snd ko)) m kos) k =
     (let new = map snd (filter (\<lambda>ko. fst ko = k) kos) in
      if new = [] then map_of m k
      else Some ((case map_of m k of None \<Rightarrow> [] | Some ts \<Rightarrow> ts) @ new))"
proof (induction kos arbitrary: m)
  case Nil
  then show ?case by simp
next
  case (Cons ko kos)
  show ?case by (simp add: Cons.IH appendByKey_map_of Let_def)
qed

lemma distinct_keys_split:
  assumes "distinct (map fst m)" and "map_of m k = Some ts"
  shows "\<exists>before after. m = before @ [(k, ts)] @ after \<and> k \<notin> fst ` set before \<and> k \<notin> fst ` set after"
proof -
  from assms(2) have "(k, ts) \<in> set m" by (rule map_of_SomeD)
  then obtain before after where m: "m = before @ (k, ts) # after" by (auto dest: split_list)
  with assms(1) have "k \<notin> fst ` set before" and "k \<notin> fst ` set after" by auto
  with m show ?thesis by auto
qed

lemma targetByKey_entry:
  assumes "targetsSharing ns objs ip k \<noteq> []"
  shows "\<exists>before after.
           targetByKey ns objs ip = before @ [(k, targetsSharing ns objs ip k)] @ after
         \<and> k \<notin> fst ` set before \<and> k \<notin> fst ` set after"
proof -
  have d: "distinct (map fst (targetByKey ns objs ip))"
    unfolding targetByKey_def groupTargets_keyed by (rule filed_distinct) simp
  have "map_of (targetByKey ns objs ip) k = Some (targetsSharing ns objs ip k)"
    using assms unfolding targetByKey_def groupTargets_keyed targetsSharing_def
    by (simp add: filed_map_of Let_def)
  with d show ?thesis by (rule distinct_keys_split)
qed

lemma setTargetNamespace_spec:
  "setTargetNamespace ip ns obj = obj\<lparr>obj_Namespace := spec_namespaceOf ip ns obj\<rparr>"
  by (auto simp: setTargetNamespace_def spec_namespaceOf_def IsNamespacedOrUnknown_def GroupKind_of_def
           split: sum.splits)

lemma targetKey_spec:
  "(targetKey i (setTargetNamespace ip ns obj) = key) = spec_sharesKey ip ns key (i, Some obj)"
  by (cases key)
     (auto simp: setTargetNamespace_spec targetKey_def GetResourceKey_def spec_sharesKey_def
                 spec_nameOf_def Let_def)

lemma keyedTargets_spec:
  "map snd (filter (\<lambda>ko. fst ko = key) (keyedTargets ip ns i objs))
   = map (\<lambda>io. (the (snd io))\<lparr>obj_Namespace := key_Namespace key\<rparr>)
       (filter (spec_sharesKey ip ns key) (enumerate i objs))"
proof (induction objs arbitrary: i)
  case Nil
  then show ?case by simp
next
  case (Cons x objs)
  show ?case
  proof (cases x)
    case None
    then show ?thesis by (simp add: Cons.IH spec_sharesKey_def)
  next
    case (Some obj)
    have "spec_sharesKey ip ns key (i, Some obj)
          \<Longrightarrow> setTargetNamespace ip ns obj = obj\<lparr>obj_Namespace := key_Namespace key\<rparr>"
      by (simp add: setTargetNamespace_spec spec_sharesKey_def)
    with Some show ?thesis by (simp add: Cons.IH Let_def targetKey_spec)
  qed
qed

lemma targetsSharing_spec:
  "targetsSharing ns objs ip key
   = map (\<lambda>io. (the (snd io))\<lparr>obj_Namespace := key_Namespace key\<rparr>) (spec_objectsSharing ns objs ip key)"
  by (simp add: targetsSharing_def spec_objectsSharing_def keyedTargets_spec)

subsection \<open>The loop over the sources\<close>

lemma defaultRevision_length:
  "defaultRevision n i source revisions = Inr revisions' \<Longrightarrow> length revisions' = length revisions"
  by (auto simp: defaultRevision_def split: if_splits)

lemma noPanic_defaultRevision: "noPanic (defaultRevision n i source revisions) = (i < length revisions)"
  by (auto simp: defaultRevision_def)

lemma getRepoObjsStep_flag:
  assumes "getRepoObjsStep d m a lk i source revisions flag0 = Inr (revisions', objs, info, flag')"
  shows "(flag0 \<longrightarrow> flag') \<and> (\<not> pathCheckApplies d (ra_app a) i source \<longrightarrow> flag')"
  using assms
  by (auto simp: getRepoObjsStep_def bindE_Inr wrapE_Inr Let_def split: if_splits)

lemma getRepoObjsStep_length:
  "getRepoObjsStep d m a lk i source revisions flag0 = Inr (revisions', objs, info, flag')
   \<Longrightarrow> length revisions' = length revisions"
  by (auto simp: getRepoObjsStep_def bindE_Inr wrapE_Inr Let_def defaultRevision_length split: if_splits)

lemma getRepoObjsStep_noPanic:
  "i < length revisions \<Longrightarrow> noPanic (getRepoObjsStep d m a lk i source revisions flag0)"
  by (simp add: getRepoObjsStep_def Let_def noPanic_bindE_iff noPanic_defaultRevision split_beta)

lemma getRepoObjsLoop_mono:
  "getRepoObjsLoop d m a lk i sources revisions objs infos flag0 = Inr (objs', infos', flag)
   \<Longrightarrow> flag0 \<Longrightarrow> flag"
proof (induction sources arbitrary: i revisions objs infos flag0)
  case Nil
  then show ?case by simp
next
  case (Cons source sources)
  from Cons.prems(1) obtain revisions1 targetObj manifestInfo flag1 where
    step: "getRepoObjsStep d m a lk i source revisions flag0
           = Inr (revisions1, targetObj, manifestInfo, flag1)"
    and rest: "getRepoObjsLoop d m a lk (Suc i) sources revisions1 (objs @ targetObj)
                 (infos @ [manifestInfo]) flag1 = Inr (objs', infos', flag)"
    by (auto split: sum.splits)
  from getRepoObjsStep_flag[OF step] Cons.prems(2) have "flag1" by simp
  with Cons.IH[OF rest] show ?case by simp
qed

lemma getRepoObjsLoop_skipped:
  "getRepoObjsLoop d m a lk i sources revisions objs infos flag0 = Inr (objs', infos', flag)
   \<Longrightarrow> j < length sources \<Longrightarrow> \<not> pathCheckApplies d (ra_app a) (i + j) (sources ! j) \<Longrightarrow> flag"
proof (induction sources arbitrary: i j revisions objs infos flag0)
  case Nil
  then show ?case by simp
next
  case (Cons source sources)
  from Cons.prems(1) obtain revisions1 targetObj manifestInfo flag1 where
    step: "getRepoObjsStep d m a lk i source revisions flag0
           = Inr (revisions1, targetObj, manifestInfo, flag1)"
    and rest: "getRepoObjsLoop d m a lk (Suc i) sources revisions1 (objs @ targetObj)
                 (infos @ [manifestInfo]) flag1 = Inr (objs', infos', flag)"
    by (auto split: sum.splits)
  show ?case
  proof (cases j)
    case 0
    with Cons.prems(3) have "\<not> pathCheckApplies d (ra_app a) i source" by simp
    with getRepoObjsStep_flag[OF step] have "flag1" by simp
    with getRepoObjsLoop_mono[OF rest] show ?thesis by simp
  next
    case (Suc j')
    with Cons.prems have "j' < length sources"
      and "\<not> pathCheckApplies d (ra_app a) (Suc i + j') (sources ! j')"
      by simp_all
    with Cons.IH[OF rest] show ?thesis by simp
  qed
qed

lemma getRepoObjsLoop_noPanic:
  "i + length sources \<le> length revisions
   \<Longrightarrow> noPanic (getRepoObjsLoop d m a lk i sources revisions objs infos flag0)"
proof (induction sources arbitrary: i revisions objs infos flag0)
  case Nil
  then show ?case by simp
next
  case (Cons source sources)
  then have i: "i < length revisions" by simp
  show ?case
  proof (cases "getRepoObjsStep d m a lk i source revisions flag0")
    case (Inl e)
    with getRepoObjsStep_noPanic[OF i, of d m a lk source flag0] show ?thesis
      by (simp add: noPanic_def)
  next
    case (Inr r)
    obtain revisions1 targetObj manifestInfo flag1 where
      r: "r = (revisions1, targetObj, manifestInfo, flag1)"
      by (cases r) auto
    from Inr r have "length revisions1 = length revisions" by (auto dest: getRepoObjsStep_length)
    with Cons.prems have "Suc i + length sources \<le> length revisions1" by simp
    from Cons.IH[OF this] Inr r show ?thesis by simp
  qed
qed

lemma GetRepoObjs_loop:
  assumes "GetRepoObjs d m app sources appLabelKey revisions noCache noRevisionCache verifySignature proj
             sendRuntimeState = Inr r"
  shows "\<exists>lk. getRepoObjsLoop d m
       \<lparr>ra_app = app, ra_nSources = length sources, ra_appLabelKey = appLabelKey, ra_noCache = noCache,
        ra_noRevisionCache = noRevisionCache, ra_verifySignature = verifySignature, ra_proj = proj,
        ra_sendRuntimeState = sendRuntimeState\<rparr> lk 0 sources revisions [] [] False = Inr r"
  using assms unfolding GetRepoObjs_def Let_def
  apply (simp only: bindE_Inr split_beta)
  apply (elim exE conjE)
  apply (erule exI)
  done

lemma GetRepoObjs_noPanic:
  "length sources \<le> length revisions
   \<Longrightarrow> noPanic (GetRepoObjs d m app sources appLabelKey revisions noCache noRevisionCache verifySignature
                  proj sendRuntimeState)"
  by (simp add: GetRepoObjs_def Let_def noPanic_bindE_iff split_beta getRepoObjsLoop_noPanic
           split: option.split)

subsection \<open>The classification loop and the assembly of the result\<close>

lemma ss_Status_resolved [simp]:
  "ss_Status (resolvedSyncStatus syncStatus syncCode hasMultipleSources manifestRevisions) = syncCode"
  by (simp add: resolvedSyncStatus_def split: list.split)

lemma classifyLoop_paired:
  assumes "classifyLoop body live i targets code = Inr (mrs, rss, cs, code')"
    and "\<forall>k < length targets. targets ! k \<noteq> None \<or> live ! (i + k) \<noteq> None"
    and "\<And>t l k c. t \<noteq> None \<or> l \<noteq> None \<Longrightarrow> Q (fst (snd (body t l k c)))"
  shows "\<forall>rs \<in> set rss. Q rs"
  using assms(1,2)
proof (induction targets arbitrary: i code mrs rss cs code')
  case Nil
  then show ?case by simp
next
  case (Cons t targets)
  from Cons.prems(1) have i: "i < length live" by (auto split: if_splits)
  obtain mr rs c1 code1 where b: "body t (live ! i) i code = (mr, rs, c1, code1)"
    by (cases "body t (live ! i) i code") auto
  from Cons.prems(1) i b obtain mrs' rss' cs' where
    rest: "classifyLoop body live (Suc i) targets code1 = Inr (mrs', rss', cs', code')"
    and eq: "rss = rs # rss'"
    by (auto split: sum.splits)
  from Cons.prems(2) have "t \<noteq> None \<or> live ! i \<noteq> None" by fastforce
  from assms(3)[OF this, of i code] b have first: "Q rs" by simp
  have "\<forall>k < length targets. targets ! k \<noteq> None \<or> live ! (Suc i + k) \<noteq> None"
  proof (intro allI impI)
    fix k assume "k < length targets"
    then have "Suc k < length (t # targets)" by simp
    with Cons.prems(2) have "(t # targets) ! Suc k \<noteq> None \<or> live ! (i + Suc k) \<noteq> None"
      by blast
    then show "targets ! k \<noteq> None \<or> live ! (Suc i + k) \<noteq> None" by simp
  qed
  from Cons.IH[OF rest this] first eq show ?case by simp
qed

lemma classifyLoop_total:
  "i + length targets \<le> length live \<Longrightarrow> \<exists>r. classifyLoop body live i targets code = Inr r"
proof (induction targets arbitrary: i code)
  case Nil
  then show ?case by simp
next
  case (Cons t targets)
  obtain mr rs c1 code1 where b: "body t (live ! i) i code = (mr, rs, c1, code1)"
    by (cases "body t (live ! i) i code") auto
  from Cons.prems have "Suc i + length targets \<le> length live" by simp
  from Cons.IH[OF this, of code1] obtain r where
    "classifyLoop body live (Suc i) targets code1 = Inr r" by blast
  with Cons.prems b show ?case by (cases r) auto
qed

lemma classifyLoop_code:
  assumes "classifyLoop body live i targets code = Inr (mrs, rss, cs, code')"
    and "\<And>t l k c. Q c \<Longrightarrow> Q (snd (snd (snd (body t l k c))))"
    and "Q code"
  shows "Q code'"
  using assms(1,3)
proof (induction targets arbitrary: i code mrs rss cs)
  case Nil
  then show ?case by simp
next
  case (Cons t targets)
  obtain mr rs c1 code1 where b: "body t (live ! i) i code = (mr, rs, c1, code1)"
    by (cases "body t (live ! i) i code") auto
  from Cons.prems(1) b obtain mrs' rss' cs' where
    rest: "classifyLoop body live (Suc i) targets code1 = Inr (mrs', rss', cs', code')"
    by (auto split: sum.splits if_splits)
  from assms(2)[OF Cons.prems(2), of t "live ! i" i] b have "Q code1" by simp
  from Cons.IH[OF rest this] show ?case .
qed

lemma classifyResource_entry:
  "classifyResource d m app project destCluster trackingMethod installationID failed diffResults t l k c
     = (mr, rs, cs, c')
   \<Longrightarrow> mres_Target mr = t \<and> mres_Live mr = l
     \<and> (t = None \<and> l = None \<longrightarrow> rs = ResourceStatus_zero)
     \<and> (failed \<and> (t \<noteq> None \<or> l \<noteq> None) \<longrightarrow> rs_Status rs = SyncStatusCodeUnknown)"
  by (cases l; cases t) (auto simp: classifyResource_def Let_def managedResource_zero_def)

lemma classifyResource_code:
  "snd (snd (snd (classifyResource d m app project destCluster trackingMethod installationID failed
                    diffResults t l k c))) \<in> {c, SyncStatusCodeOutOfSync}"
  by (cases l; cases t) (auto simp: classifyResource_def syncSwitch_def Let_def)

lemma finalSyncCode_range:
  "syncCode \<in> {SyncStatusCodeSynced, SyncStatusCodeOutOfSync} \<Longrightarrow>
   finalSyncCode d app failed syncCode
   \<in> {SyncStatusCodeUnknown, SyncStatusCodeSynced, SyncStatusCodeOutOfSync}"
  by (auto simp: finalSyncCode_def)

lemma signatureConditions_append:
  "signatureConditions d v project (xs @ ys)
   = signatureConditions d v project xs @ signatureConditions d v project ys"
  by (simp add: signatureConditions_def)

lemma signatureConditions_unsigned:
  "IsGPGEnabled d \<Longrightarrow> mr_VerifyResult manifestInfo = '''' \<Longrightarrow>
   signatureConditions d True project (manifestInfo # after)
   = comparisonError (''Target revision '' @ mr_Revision manifestInfo
                      @ '' in Git is not signed, but a signature is required'')
     # signatureConditions d True project after"
  by (simp add: signatureConditions_def verifyGnuPGSignature_def)

lemma compareLoaded_cache:
  "out_repoErrorCache (compareLoaded d m app project sources noCache hasMultipleSources syncStatus
     appLabelKey resourceOverrides resFilter installationID trackingMethod destCluster verifySignature loaded)
   = ts_repoErrorCache loaded"
  by (simp add: compareLoaded_def Let_def split_beta split: sum.split)

lemma compareLoaded_failed:
  assumes "out_failedToLoadObjs (compareLoaded d m app project sources noCache hasMultipleSources syncStatus
             appLabelKey resourceOverrides resFilter installationID trackingMethod destCluster
             verifySignature loaded)"
    and "out_result (compareLoaded d m app project sources noCache hasMultipleSources syncStatus
             appLabelKey resourceOverrides resFilter installationID trackingMethod destCluster
             verifySignature loaded) = Inr res"
    and "\<forall>i < length (rr_Target (res_reconciliationResult res)).
           rr_Target (res_reconciliationResult res) ! i \<noteq> None
           \<or> rr_Live (res_reconciliationResult res) ! i \<noteq> None"
  shows "ss_Status (res_syncStatus res) = SyncStatusCodeUnknown
       \<and> (\<forall>rs \<in> set (res_resources res). rs_Status rs = SyncStatusCodeUnknown)"
proof -
  define inputs where
    "inputs = prepareComparison d m app project sources noCache appLabelKey resourceOverrides
                resFilter installationID trackingMethod destCluster loaded"
  define body where
    "body = classifyResource d m app project destCluster trackingMethod installationID
              (ci_failedToLoadObjs inputs) (ci_diffResults inputs)"
  from assms(1,2) obtain mrs rss cs code where
    loop: "classifyLoop body (rr_Live (ci_reconciliation inputs)) 0 (rr_Target (ci_reconciliation inputs))
             SyncStatusCodeSynced = Inr (mrs, rss, cs, code)"
    and failed: "ci_failedToLoadObjs inputs"
    and res: "res_reconciliationResult res = ci_reconciliation inputs" "res_resources res = rss"
      "ss_Status (res_syncStatus res) = finalSyncCode d app (ci_failedToLoadObjs inputs) code"
    by (auto simp: compareLoaded_def classifyPairs_def Let_def inputs_def body_def split: sum.splits)
  from assms(3) res(1) have paired:
    "\<forall>k < length (rr_Target (ci_reconciliation inputs)).
       rr_Target (ci_reconciliation inputs) ! k \<noteq> None
       \<or> rr_Live (ci_reconciliation inputs) ! (0 + k) \<noteq> None"
    by simp
  have "\<forall>rs \<in> set rss. rs_Status rs = SyncStatusCodeUnknown"
  proof (rule classifyLoop_paired[OF loop paired])
    fix t l :: "Unstructured option" and k c
    assume pair: "t \<noteq> None \<or> l \<noteq> None"
    obtain mr rs cs c' where b: "body t l k c = (mr, rs, cs, c')" by (cases "body t l k c") auto
    from classifyResource_entry[OF b[unfolded body_def]] failed b pair
    show "rs_Status (fst (snd (body t l k c))) = SyncStatusCodeUnknown"
      by auto
  qed
  with res failed show ?thesis by (simp add: finalSyncCode_def)
qed

lemma compareLoaded_completes:
  assumes aligned:
    "\<forall>t l n p. length (rr_Target (Reconcile d t l n p)) \<le> length (rr_Live (Reconcile d t l n p))"
  shows "\<exists>res cl.
           classifyPairs d m app project resourceOverrides installationID trackingMethod destCluster
             (prepareComparison d m app project sources noCache appLabelKey resourceOverrides
                resFilter installationID trackingMethod destCluster loaded) = Inr cl
         \<and> out_result (compareLoaded d m app project sources noCache hasMultipleSources syncStatus
             appLabelKey resourceOverrides resFilter installationID trackingMethod destCluster
             verifySignature loaded) = Inr res
         \<and> ss_Status (res_syncStatus res)
           \<in> {SyncStatusCodeUnknown, SyncStatusCodeSynced, SyncStatusCodeOutOfSync}
         \<and> out_conditions (compareLoaded d m app project sources noCache hasMultipleSources syncStatus
             appLabelKey resourceOverrides resFilter installationID trackingMethod destCluster
             verifySignature loaded)
           = Some (cl_conditions cl
                   @ signatureConditions d verifySignature project (ts_manifestInfos loaded))"
proof -
  define inputs where
    "inputs = prepareComparison d m app project sources noCache appLabelKey resourceOverrides
                resFilter installationID trackingMethod destCluster loaded"
  define body where
    "body = classifyResource d m app project destCluster trackingMethod installationID
              (ci_failedToLoadObjs inputs) (ci_diffResults inputs)"
  have "length (rr_Target (ci_reconciliation inputs)) \<le> length (rr_Live (ci_reconciliation inputs))"
    using aligned
    by (simp add: inputs_def prepareComparison_def Let_def split_beta split: sum.split)
  then have "0 + length (rr_Target (ci_reconciliation inputs))
             \<le> length (rr_Live (ci_reconciliation inputs))"
    by simp
  from classifyLoop_total[OF this, of body SyncStatusCodeSynced] obtain mrs rss cs code where
    loop: "classifyLoop body (rr_Live (ci_reconciliation inputs)) 0 (rr_Target (ci_reconciliation inputs))
             SyncStatusCodeSynced = Inr (mrs, rss, cs, code)"
    by (metis prod_cases4)
  have "code \<in> {SyncStatusCodeSynced, SyncStatusCodeOutOfSync}"
  proof (rule classifyLoop_code[OF loop])
    fix t l k c
    assume "c \<in> {SyncStatusCodeSynced, SyncStatusCodeOutOfSync}"
    with classifyResource_code[of d m app project destCluster trackingMethod installationID
           "ci_failedToLoadObjs inputs" "ci_diffResults inputs" t l k c]
    show "snd (snd (snd (body t l k c))) \<in> {SyncStatusCodeSynced, SyncStatusCodeOutOfSync}"
      by (auto simp: body_def)
  qed simp
  from finalSyncCode_range[OF this] loop show ?thesis
    by (simp add: compareLoaded_def classifyPairs_def Let_def inputs_def[symmetric]
                  body_def[symmetric])
qed

subsection \<open>Memory\<close>

lemma take_longer: "take (length h) h' = h \<Longrightarrow> length h \<le> length h'"
proof -
  assume "take (length h) h' = h"
  then have "length (take (length h) h') = length h" by simp
  then show ?thesis by simp
qed

lemma cell_at_frame:
  assumes "take (length h) h' = h" and "a < length h"
  shows "cell_at h' a = cell_at h a"
proof -
  from assms(1) have longer: "length h \<le> length h'" by (rule take_longer)
  from assms(2) have "take (length h) h' ! a = h' ! a" by simp
  with assms(1) have "h' ! a = h ! a" by simp
  with longer assms(2) show ?thesis by (simp add: cell_at_def)
qed

lemma source_at_frame:
  "take (length h) h' = h \<Longrightarrow> set_option p \<subseteq> {..<length h} \<Longrightarrow> source_at h' p = source_at h p"
  by (cases p) (simp_all add: source_at_def cell_at_frame)

lemma policy_at_frame:
  "take (length h) h' = h \<Longrightarrow> set_option p \<subseteq> {..<length h} \<Longrightarrow> policy_at h' p = policy_at h p"
  by (cases p) (simp_all add: policy_at_def cell_at_frame)

lemma rules_at_frame:
  "take (length h) h' = h \<Longrightarrow> set_option p \<subseteq> {..<length h} \<Longrightarrow> rules_at h' p = rules_at h p"
  by (cases p) (simp_all add: rules_at_def cell_at_frame)

lemma sources_at_frame:
  "take (length h) h' = h \<Longrightarrow> set_option p \<subseteq> {..<length h} \<Longrightarrow> sources_at h' p = sources_at h p"
  by (cases p) (simp_all add: sources_at_def cell_at_frame)

lemma load_spec_frame:
  assumes "take (length h) h' = h" and "spec_refs spec \<subseteq> {..<length h}"
  shows "load_spec h' spec = load_spec h spec"
  using assms(2)
  by (simp add: load_spec_def spec_refs_def source_at_frame[OF assms(1)] policy_at_frame[OF assms(1)]
                rules_at_frame[OF assms(1)] sources_at_frame[OF assms(1)])

lemma load_comparedTo_frame:
  assumes "take (length h) h' = h" and "comparedTo_refs comparedTo \<subseteq> {..<length h}"
  shows "load_comparedTo h' comparedTo = load_comparedTo h comparedTo"
  using assms(2)
  by (simp add: load_comparedTo_def comparedTo_refs_def rules_at_frame[OF assms(1)]
                sources_at_frame[OF assms(1)])

lemma deepCopyContractD:
  assumes "deepCopyContract copy" and "spec_refs spec \<subseteq> {..<length h}"
    and "copy h spec = (p, h1)"
  shows "take (length h) h1 = h" and "length h \<le> p"
    and "\<exists>specCopy. cell_at h1 p = Some (SpecCell specCopy)
           \<and> load_spec h1 specCopy = load_spec h spec
           \<and> spec_refs specCopy \<subseteq> {length h..<length h1}"
proof -
  from assms(1)[unfolded deepCopyContract_def, rule_format, OF assms(2)]
  have contract:
    "take (length h) h1 = h \<and> length h \<le> p
     \<and> (case cell_at h1 p of
          Some (SpecCell specCopy) \<Rightarrow>
            load_spec h1 specCopy = load_spec h spec
            \<and> spec_refs specCopy \<subseteq> {length h..<length h1}
        | _ \<Rightarrow> False)"
    unfolding assms(3) by simp
  then show "take (length h) h1 = h" and "length h \<le> p" by simp_all
  from contract have "case cell_at h1 p of
          Some (SpecCell specCopy) \<Rightarrow>
            load_spec h1 specCopy = load_spec h spec
            \<and> spec_refs specCopy \<subseteq> {length h..<length h1}
        | _ \<Rightarrow> False"
    by simp
  then show "\<exists>specCopy. cell_at h1 p = Some (SpecCell specCopy)
           \<and> load_spec h1 specCopy = load_spec h spec
           \<and> spec_refs specCopy \<subseteq> {length h..<length h1}"
  proof (cases "cell_at h1 p")
    case None
    then show "(case cell_at h1 p of
          Some (SpecCell specCopy) \<Rightarrow>
            load_spec h1 specCopy = load_spec h spec
            \<and> spec_refs specCopy \<subseteq> {length h..<length h1}
        | _ \<Rightarrow> False) \<Longrightarrow> ?thesis" by simp
  next
    case (Some c)
    then show "(case cell_at h1 p of
          Some (SpecCell specCopy) \<Rightarrow>
            load_spec h1 specCopy = load_spec h spec
            \<and> spec_refs specCopy \<subseteq> {length h..<length h1}
        | _ \<Rightarrow> False) \<Longrightarrow> ?thesis" by (cases c) simp_all
  qed
qed


lemma receiverFootprintD:
  assumes "receiverFootprint build" and "build h p sources = (comparedTo, h')"
    and "cell_at h p = Some (SpecCell spec)"
  shows "length h \<le> length h'"
    and "a < length h \<Longrightarrow> a \<noteq> p \<Longrightarrow> a \<notin> spec_refs spec \<Longrightarrow> h' ! a = h ! a"
proof -
  from assms(1)[unfolded receiverFootprint_def, rule_format, of h p sources]
  have footprint:
    "length h \<le> length h'
     \<and> (\<forall>a < length h.
           a \<noteq> p
           \<and> a \<notin> (case cell_at h p of Some (SpecCell spec) \<Rightarrow> spec_refs spec | _ \<Rightarrow> {})
           \<longrightarrow> h' ! a = h ! a)"
    unfolding assms(2) by simp
  then show "length h \<le> length h'" by simp
  from footprint have "\<forall>a < length h. a \<noteq> p \<and> a \<notin> spec_refs spec \<longrightarrow> h' ! a = h ! a"
    unfolding assms(3) by simp
  then show "a < length h \<Longrightarrow> a \<noteq> p \<Longrightarrow> a \<notin> spec_refs spec \<Longrightarrow> h' ! a = h ! a"
    by blast
qed

lemma copy_then_build_frame:
  assumes contract: "deepCopyContract copy" and footprint: "receiverFootprint build"
    and valid: "spec_refs spec \<subseteq> {..<length h}"
    and copied: "copy h spec = (p, h1)" and built: "build h1 p sources = (comparedTo, h2)"
  shows "take (length h) h2 = h"
proof -
  note kept = deepCopyContractD(1)[OF contract valid copied]
  note fresh = deepCopyContractD(2)[OF contract valid copied]
  from deepCopyContractD(3)[OF contract valid copied] obtain specCopy where
    object: "cell_at h1 p = Some (SpecCell specCopy)"
    and deep: "spec_refs specCopy \<subseteq> {length h..<length h1}"
    by blast
  note grown = receiverFootprintD(1)[OF footprint built object]
  note others = receiverFootprintD(2)[OF footprint built object]
  from kept have longer: "length h \<le> length h1" by (rule take_longer)
  show ?thesis
  proof (rule nth_equalityI)
    from longer grown show "length (take (length h) h2) = length h" by simp
  next
    fix a assume "a < length (take (length h) h2)"
    then have a: "a < length h" by simp
    with fresh have "a \<noteq> p" by simp
    moreover from a deep have "a \<notin> spec_refs specCopy" by auto
    moreover from a longer have "a < length h1" by simp
    ultimately have "h2 ! a = h1 ! a" by (simp add: others)
    also from a have "h1 ! a = take (length h) h1 ! a" by simp
    also from kept have "\<dots> = h ! a" by simp
    finally show "take (length h) h2 ! a = h ! a" using a by simp
  qed
qed

lemma specEqualsCompareTo_mem_frame:
  assumes "deepCopyContract (mem_DeepCopy md)" and "receiverFootprint (mem_BuildComparedToStatus md)"
    and "spec_refs spec \<subseteq> {..<length h}"
  shows "take (length h) (snd (specEqualsCompareTo_mem md h spec sources comparedTo)) = h"
proof -
  obtain p h1 where copied: "mem_DeepCopy md h spec = (p, h1)"
    by (cases "mem_DeepCopy md h spec") auto
  obtain built h2 where built: "mem_BuildComparedToStatus md h1 p sources = (built, h2)"
    by (cases "mem_BuildComparedToStatus md h1 p sources") auto
  from copy_then_build_frame[OF assms copied built] show ?thesis
    by (simp add: specEqualsCompareTo_mem_def copied built)
qed

lemma useDiffCache_mem_frame:
  assumes "deepCopyContract (mem_DeepCopy md)" and "receiverFootprint (mem_BuildComparedToStatus md)"
    and "spec_refs (ma_Spec app) \<subseteq> {..<length h}"
  shows "take (length h) (snd (useDiffCache_mem d md h noCache manifestInfos sources app
                                 manifestRevisions statusRefreshTimeout serverSideDiff)) = h"
  using specEqualsCompareTo_mem_frame[OF assms, of sources "ma_ComparedTo app"]
  by (simp add: useDiffCache_mem_def split_beta)

lemma demo_copyCell_None [simp]: "demo_copyCell h None = (None, h)"
  by (simp add: demo_copyCell_def)

lemma demo_copyCell_Some [simp]: "demo_copyCell h (Some a) = (Some (length h), h @ [h ! a])"
  by (simp add: demo_copyCell_def)

lemma cell_at_append: "a < length h \<Longrightarrow> cell_at (h @ new) a = cell_at h a"
  by (simp add: cell_at_def nth_append)

lemma cell_at_new: "cell_at (h @ c # new) (length h) = Some c"
  by (simp add: cell_at_def nth_append)

lemma demo_DeepCopy_contract: "deepCopyContract demo_DeepCopy"
  unfolding deepCopyContract_def
proof (intro allI impI)
  fix h :: memory and spec
  assume valid: "spec_refs spec \<subseteq> {..<length h}"
  then show "case demo_DeepCopy h spec of
               (p, h1) \<Rightarrow>
                 take (length h) h1 = h \<and> length h \<le> p
                 \<and> (case cell_at h1 p of
                      Some (SpecCell specCopy) \<Rightarrow>
                        load_spec h1 specCopy = load_spec h spec
                        \<and> spec_refs specCopy \<subseteq> {length h..<length h1}
                    | _ \<Rightarrow> False)"
    by (cases "ms_Source spec"; cases "ms_SyncPolicy spec"; cases "ms_IgnoreDifferences spec";
        cases "ms_Sources spec")
       (simp_all add: demo_DeepCopy_def cell_at_def spec_refs_def load_spec_def
                      source_at_def policy_at_def rules_at_def sources_at_def nth_append)
qed


lemma demo_BuildComparedToStatus_mem_footprint: "receiverFootprint demo_BuildComparedToStatus_mem"
  unfolding receiverFootprint_def
proof (intro allI)
  fix h :: memory and p sources
  show "case demo_BuildComparedToStatus_mem h p sources of
          (comparedTo, h') \<Rightarrow>
            length h \<le> length h'
            \<and> (\<forall>a < length h.
                  a \<noteq> p
                  \<and> a \<notin> (case cell_at h p of Some (SpecCell spec) \<Rightarrow> spec_refs spec | _ \<Rightarrow> {})
                  \<longrightarrow> h' ! a = h ! a)"
  proof (cases "cell_at h p")
    case None
    then show ?thesis by (simp add: demo_BuildComparedToStatus_mem_def)
  next
    case (Some c)
    show ?thesis
    proof (cases c)
      case (SpecCell spec)
      with Some show ?thesis
        by (cases "ms_Source spec")
           (auto simp: demo_BuildComparedToStatus_mem_def Let_def spec_refs_def
                 split: option.splits cell.splits)
    qed (simp_all add: Some demo_BuildComparedToStatus_mem_def)
  qed
qed

text \<open>
  For allocated arguments the comparison in memory returns what the comparison on values
  returns for the values of its arguments; the stand-in of the scenario computes in
  memory what the stand-in on values computes.
\<close>

lemma specEqualsCompareTo_mem_value:
  assumes contract: "deepCopyContract (mem_DeepCopy md)"
    and footprint: "receiverFootprint (mem_BuildComparedToStatus md)"
    and refines: "buildRefines d md"
    and valid: "spec_refs spec \<subseteq> {..<length h}" "set_option sources \<subseteq> {..<length h}"
      "comparedTo_refs comparedTo \<subseteq> {..<length h}"
  shows "fst (specEqualsCompareTo_mem md h spec sources comparedTo)
         = specEqualsCompareTo d (load_spec h spec) (sources_at h sources) (load_comparedTo h comparedTo)"
proof -
  obtain p h1 where copied: "mem_DeepCopy md h spec = (p, h1)"
    by (cases "mem_DeepCopy md h spec") auto
  obtain built h2 where built: "mem_BuildComparedToStatus md h1 p sources = (built, h2)"
    by (cases "mem_BuildComparedToStatus md h1 p sources") auto
  note kept = deepCopyContractD(1)[OF contract valid(1) copied]
  from deepCopyContractD(3)[OF contract valid(1) copied] obtain specCopy where
    object: "cell_at h1 p = Some (SpecCell specCopy)"
    and same: "load_spec h1 specCopy = load_spec h spec"
    by blast
  from refines[unfolded buildRefines_def, rule_format, OF object, of sources]
  have "load_comparedTo h2 built
        = fst (BuildComparedToStatus d (load_spec h1 specCopy) (sources_at h1 sources))"
    unfolding built by simp
  also have "\<dots> = fst (BuildComparedToStatus d (load_spec h spec) (sources_at h sources))"
    by (simp add: same sources_at_frame[OF kept valid(2)])
  finally have loaded: "load_comparedTo h2 built
        = fst (BuildComparedToStatus d (load_spec h spec) (sources_at h sources))" .
  have "take (length h) h2 = h"
    by (rule copy_then_build_frame[OF contract footprint valid(1) copied built])
  from load_comparedTo_frame[OF this valid(3)] loaded show ?thesis
    by (simp add: specEqualsCompareTo_mem_def specEqualsCompareTo_def copied built)
qed

lemma cell_at_update:
  "cell_at (h[i := c]) a = (if a = i \<and> i < length h then Some c else cell_at h a)"
  by (simp add: cell_at_def)

lemma sources_at_update:
  assumes "\<And>ss. c \<noteq> SourcesCell ss" and "\<And>ss. cell_at h i \<noteq> Some (SourcesCell ss)"
  shows "sources_at (h[i := c]) x = sources_at h x"
proof (cases x)
  case None
  then show ?thesis by (simp add: sources_at_def)
next
  case (Some a)
  show ?thesis
  proof (cases "a = i \<and> i < length h")
    case True
    with assms Some show ?thesis
      by (cases c; cases "h ! i") (auto simp: sources_at_def cell_at_def)
  next
    case False
    with Some show ?thesis by (auto simp: sources_at_def cell_at_update)
  qed
qed

lemma rules_at_update:
  assumes "\<And>rs. c \<noteq> RulesCell rs" and "\<And>rs. cell_at h i \<noteq> Some (RulesCell rs)"
  shows "rules_at (h[i := c]) x = rules_at h x"
proof (cases x)
  case None
  then show ?thesis by (simp add: rules_at_def)
next
  case (Some a)
  show ?thesis
  proof (cases "a = i \<and> i < length h")
    case True
    with assms Some show ?thesis
      by (cases c; cases "h ! i") (auto simp: rules_at_def cell_at_def)
  next
    case False
    with Some show ?thesis by (auto simp: rules_at_def cell_at_update)
  qed
qed

lemma demo_written_slices:
  assumes "cell_at h p = Some (SpecCell spec)"
  shows "sources_at (snd (demo_BuildComparedToStatus_mem h p sources)) x = sources_at h x"
    and "rules_at (snd (demo_BuildComparedToStatus_mem h p sources)) x = rules_at h x"
proof -
  let ?h1 = "h[p := SpecCell (spec\<lparr>ms_Project := ''scratch''\<rparr>)]"
  have s1: "\<And>y. sources_at ?h1 y = sources_at h y"
    by (rule sources_at_update) (simp_all add: assms)
  have r1: "\<And>y. rules_at ?h1 y = rules_at h y"
    by (rule rules_at_update) (simp_all add: assms)
  show "sources_at (snd (demo_BuildComparedToStatus_mem h p sources)) x = sources_at h x"
  proof (cases "ms_Source spec")
    case None
    with assms s1 show ?thesis by (simp add: demo_BuildComparedToStatus_mem_def)
  next
    case (Some a)
    show ?thesis
    proof (cases "cell_at ?h1 a")
      case None
      with assms Some s1 show ?thesis by (simp add: demo_BuildComparedToStatus_mem_def)
    next
      case cell: (Some c)
      show ?thesis
      proof (cases c)
        case (SourceCell source)
        have "sources_at (?h1[a := SourceCell (source\<lparr>src_Ref := ''compared''\<rparr>)]) x
              = sources_at ?h1 x"
          by (rule sources_at_update) (simp_all add: cell SourceCell)
        with assms Some cell SourceCell s1 show ?thesis
          by (simp add: demo_BuildComparedToStatus_mem_def)
      qed (use assms Some cell s1 in \<open>simp_all add: demo_BuildComparedToStatus_mem_def\<close>)
    qed
  qed
  show "rules_at (snd (demo_BuildComparedToStatus_mem h p sources)) x = rules_at h x"
  proof (cases "ms_Source spec")
    case None
    with assms r1 show ?thesis by (simp add: demo_BuildComparedToStatus_mem_def)
  next
    case (Some a)
    show ?thesis
    proof (cases "cell_at ?h1 a")
      case None
      with assms Some r1 show ?thesis by (simp add: demo_BuildComparedToStatus_mem_def)
    next
      case cell: (Some c)
      show ?thesis
      proof (cases c)
        case (SourceCell source)
        have "rules_at (?h1[a := SourceCell (source\<lparr>src_Ref := ''compared''\<rparr>)]) x
              = rules_at ?h1 x"
          by (rule rules_at_update) (simp_all add: cell SourceCell)
        with assms Some cell SourceCell r1 show ?thesis
          by (simp add: demo_BuildComparedToStatus_mem_def)
      qed (use assms Some cell r1 in \<open>simp_all add: demo_BuildComparedToStatus_mem_def\<close>)
    qed
  qed
qed

lemma demo_buildRefines: "buildRefines demo_deps demo_md"
  unfolding buildRefines_def
proof (intro allI impI)
  fix h :: memory and p spec sources
  assume object: "cell_at h p = Some (SpecCell spec)"
  have built: "demo_BuildComparedToStatus_mem h p sources
               = (fst (demo_BuildComparedToStatus_mem h p sources),
                  snd (demo_BuildComparedToStatus_mem h p sources))"
    by simp
  have "load_comparedTo (snd (demo_BuildComparedToStatus_mem h p sources))
          (fst (demo_BuildComparedToStatus_mem h p sources))
        = load_comparedTo h (fst (demo_BuildComparedToStatus_mem h p sources))"
    by (simp add: load_comparedTo_def demo_written_slices[OF object])
  also have "\<dots> = fst (BuildComparedToStatus demo_deps (load_spec h spec) (sources_at h sources))"
    using object
    by (simp add: load_comparedTo_def demo_BuildComparedToStatus_mem_def demo_deps_def Let_def
                  load_spec_def sources_at_def rules_at_def)
  finally show "case mem_BuildComparedToStatus demo_md h p sources of
          (comparedTo, h') \<Rightarrow>
            load_comparedTo h' comparedTo
            = fst (BuildComparedToStatus demo_deps (load_spec h spec) (sources_at h sources))"
    by (simp add: demo_md_def split_beta)
qed

text \<open>
  With the shallow copy the call writes through the pointer that the copy shares with
  the spec it was given: the source of that spec is not what it was.
\<close>

lemma shallow_copy_is_written:
  "load_spec (snd (specEqualsCompareTo_mem demo_md_shallow demo_memory demo_spec_mem (Some 1)
                     demo_comparedTo_mem)) demo_spec_mem
   \<noteq> load_spec demo_memory demo_spec_mem"
  by code_simp

section \<open>The claims\<close>

subsection \<open>C2: the cache-use decision\<close>

text \<open>
  Claim C2. \<open>useDiffCache\<close> returns false whenever \<open>noCache\<close> is true, or a refresh was
  requested on the application, or the resolved revisions differ from the revisions
  recorded in the application status, or the compared-to value built from the spec
  and the sources differs from the recorded one. It returns true only when none of
  those hold, there are as many manifest responses as sources, and the status is not
  expired or server-side diff is enabled.
\<close>

theorem useDiffCache_decision:
  "((noCache \<or> snd (IsRefreshRequested d app) \<or> GetRevisions d (app_Status app) \<noteq> manifestRevisions
     \<or> ss_ComparedTo (status_Sync (app_Status app))
        \<noteq> fst (BuildComparedToStatus d (app_Spec app) sources))
    \<longrightarrow> \<not> useDiffCache d noCache manifestInfos sources app manifestRevisions
              statusRefreshTimeout serverSideDiff)
   \<and> (useDiffCache d noCache manifestInfos sources app manifestRevisions statusRefreshTimeout
         serverSideDiff
       \<longrightarrow> \<not> noCache \<and> \<not> snd (IsRefreshRequested d app)
           \<and> GetRevisions d (app_Status app) = manifestRevisions
           \<and> ss_ComparedTo (status_Sync (app_Status app))
             = fst (BuildComparedToStatus d (app_Spec app) sources)
           \<and> length manifestInfos = length sources
           \<and> (\<not> Expired d (app_Status app) statusRefreshTimeout \<or> serverSideDiff))"
  by (auto simp: useDiffCache_def specEqualsCompareTo_def Let_def split: if_splits)

theorem useDiffCache_decision_witness:
  "\<not> useDiffCache demo_deps True [demo_response] [demo_source] demo_synced_app [''1.2.3''] 180 False
   \<and> useDiffCache demo_deps False [demo_response] [demo_source] demo_synced_app [''1.2.3''] 180 False
   \<and> GetRevisions demo_deps (app_Status demo_synced_app) = [''1.2.3'']
   \<and> ss_ComparedTo (status_Sync (app_Status demo_synced_app))
     = fst (BuildComparedToStatus demo_deps (app_Spec demo_synced_app) [demo_source])
   \<and> length [demo_response] = length [demo_source]"
proof -
  have used: "useDiffCache demo_deps False [demo_response] [demo_source] demo_synced_app
                [''1.2.3''] 180 False"
    by code_simp
  from useDiffCache_decision[of True demo_deps demo_synced_app "[''1.2.3'']" "[demo_source]"
         "[demo_response]" 180 False]
  have "\<not> useDiffCache demo_deps True [demo_response] [demo_source] demo_synced_app
            [''1.2.3''] 180 False"
    by simp
  moreover
  from useDiffCache_decision[of False demo_deps demo_synced_app "[''1.2.3'']" "[demo_source]"
         "[demo_response]" 180 False] used
  have "GetRevisions demo_deps (app_Status demo_synced_app) = [''1.2.3'']
        \<and> ss_ComparedTo (status_Sync (app_Status demo_synced_app))
          = fst (BuildComparedToStatus demo_deps (app_Spec demo_synced_app) [demo_source])
        \<and> length [demo_response] = length [demo_source]"
    by blast
  ultimately show ?thesis using used by blast
qed

subsection \<open>C3: deduplication keeps the last object of a key\<close>

text \<open>
  Claim C3. Let \<open>N > 1\<close> objects of the input share a resource key: same group and
  kind, same namespace after normalization, same name (the generated name followed by
  the position for an object that has a generated name and no name). Then the map
  \<open>targetByKey\<close> has exactly one entry for that key, and the iteration of the second
  loop for that entry keeps exactly one object, the last of the \<open>N\<close> in input order
  (with its namespace normalized), and appends exactly one condition: a
  repeated-resource warning whose message is
  \<^verbatim>\<open>Resource <group>/<kind>/<namespace>/<name> appeared <N> times among application resources.\<close>
  The entries before and after it are for other keys.
\<close>

theorem DeduplicateTargetObjects_keeps_last:
  assumes "N = length (spec_objectsSharing namespace objs infoProvider key)" and "N > 1"
    and "snd (last (spec_objectsSharing namespace objs infoProvider key)) = Some lastObj"
  shows "\<exists>before targets after.
           targetByKey namespace objs infoProvider = before @ [(key, targets)] @ after
         \<and> key \<notin> fst ` set before \<and> key \<notin> fst ` set after
         \<and> DeduplicateTargetObjects namespace objs infoProvider
           = (map dedupResultOf before @ [lastObj\<lparr>obj_Namespace := key_Namespace key\<rparr>]
                @ map dedupResultOf after,
              concat (map dedupConditionsOf before)
                @ [\<lparr>cond_Type = ApplicationConditionRepeatedResourceWarning,
                    cond_Message =
                      ''Resource '' @ key_Group key @ ''/'' @ key_Kind key @ ''/''
                      @ key_Namespace key @ ''/'' @ key_Name key @ '' appeared '' @ itoa N
                      @ '' times among application resources.''\<rparr>]
                @ concat (map dedupConditionsOf after),
              None)"
proof -
  let ?shared = "spec_objectsSharing namespace objs infoProvider key"
  let ?targets = "targetsSharing namespace objs infoProvider key"
  from assms(1,2) have nonempty: "?shared \<noteq> []" by auto
  have len: "length ?targets = N" using assms(1) by (simp add: targetsSharing_spec)
  with assms(2) have "?targets \<noteq> []" by auto
  from targetByKey_entry[OF this] obtain before after where
    split: "targetByKey namespace objs infoProvider = before @ [(key, ?targets)] @ after"
    and other: "key \<notin> fst ` set before" "key \<notin> fst ` set after"
    by blast
  have kept: "last ?targets = lastObj\<lparr>obj_Namespace := key_Namespace key\<rparr>"
    using nonempty assms(3) by (simp add: targetsSharing_spec last_map)
  from split len assms(2) kept have
    "DeduplicateTargetObjects namespace objs infoProvider
     = (map dedupResultOf before @ [lastObj\<lparr>obj_Namespace := key_Namespace key\<rparr>]
          @ map dedupResultOf after,
        concat (map dedupConditionsOf before)
          @ [\<lparr>cond_Type = ApplicationConditionRepeatedResourceWarning,
              cond_Message =
                ''Resource '' @ key_Group key @ ''/'' @ key_Kind key @ ''/''
                @ key_Namespace key @ ''/'' @ key_Name key @ '' appeared '' @ itoa N
                @ '' times among application resources.''\<rparr>]
          @ concat (map dedupConditionsOf after),
        None)"
    by (simp add: DeduplicateTargetObjects_def Let_def dedupResultOf_def dedupConditionsOf_def
                  repeatedResourceCondition_def ResourceKey_String_def)
  with split other show ?thesis by blast
qed

text \<open>
  The Deployment rendered twice, the second time without a namespace, with the Service
  between the two: the second Deployment is kept, in the application's namespace, and
  the one condition names the key and the count 2.
\<close>

theorem DeduplicateTargetObjects_keeps_last_witness:
  "(2::nat) = length (spec_objectsSharing ''default''
                       [Some demo_deployment, Some demo_service,
                        Some (demo_deployment_again\<lparr>obj_Namespace := ''''\<rparr>)]
                       demo_infoProvider demo_deployment_key)
   \<and> (2::nat) > 1
   \<and> snd (last (spec_objectsSharing ''default''
                  [Some demo_deployment, Some demo_service,
                   Some (demo_deployment_again\<lparr>obj_Namespace := ''''\<rparr>)]
                  demo_infoProvider demo_deployment_key))
     = Some (demo_deployment_again\<lparr>obj_Namespace := ''''\<rparr>)
   \<and> DeduplicateTargetObjects ''default''
       [Some demo_deployment, Some demo_service,
        Some (demo_deployment_again\<lparr>obj_Namespace := ''''\<rparr>)] demo_infoProvider
     = ([demo_deployment_again, demo_service],
        [\<lparr>cond_Type = ApplicationConditionRepeatedResourceWarning,
          cond_Message =
            ''Resource apps/Deployment/default/web appeared 2 times among application resources.''\<rparr>],
        None)
   \<and> (\<exists>before targets after.
         targetByKey ''default''
           [Some demo_deployment, Some demo_service,
            Some (demo_deployment_again\<lparr>obj_Namespace := ''''\<rparr>)] demo_infoProvider
         = before @ [(demo_deployment_key, targets)] @ after
       \<and> demo_deployment_key \<notin> fst ` set before \<and> demo_deployment_key \<notin> fst ` set after
       \<and> DeduplicateTargetObjects ''default''
           [Some demo_deployment, Some demo_service,
            Some (demo_deployment_again\<lparr>obj_Namespace := ''''\<rparr>)] demo_infoProvider
         = (map dedupResultOf before
              @ [demo_deployment_again\<lparr>obj_Namespace := '''',
                                        obj_Namespace := key_Namespace demo_deployment_key\<rparr>]
              @ map dedupResultOf after,
            concat (map dedupConditionsOf before)
              @ [\<lparr>cond_Type = ApplicationConditionRepeatedResourceWarning,
                  cond_Message =
                    ''Resource '' @ key_Group demo_deployment_key @ ''/''
                    @ key_Kind demo_deployment_key @ ''/'' @ key_Namespace demo_deployment_key
                    @ ''/'' @ key_Name demo_deployment_key @ '' appeared '' @ itoa 2
                    @ '' times among application resources.''\<rparr>]
              @ concat (map dedupConditionsOf after),
            None))"
proof -
  have n: "(2::nat) = length (spec_objectsSharing ''default''
                       [Some demo_deployment, Some demo_service,
                        Some (demo_deployment_again\<lparr>obj_Namespace := ''''\<rparr>)]
                       demo_infoProvider demo_deployment_key)"
    by code_simp
  have gt: "(2::nat) > 1" by simp
  have final: "snd (last (spec_objectsSharing ''default''
                  [Some demo_deployment, Some demo_service,
                   Some (demo_deployment_again\<lparr>obj_Namespace := ''''\<rparr>)]
                  demo_infoProvider demo_deployment_key))
     = Some (demo_deployment_again\<lparr>obj_Namespace := ''''\<rparr>)"
    by code_simp
  have run: "DeduplicateTargetObjects ''default''
       [Some demo_deployment, Some demo_service,
        Some (demo_deployment_again\<lparr>obj_Namespace := ''''\<rparr>)] demo_infoProvider
     = ([demo_deployment_again, demo_service],
        [\<lparr>cond_Type = ApplicationConditionRepeatedResourceWarning,
          cond_Message =
            ''Resource apps/Deployment/default/web appeared 2 times among application resources.''\<rparr>],
        None)"
    by code_simp
  from DeduplicateTargetObjects_keeps_last[OF n gt final] n gt final run show ?thesis by blast
qed

subsection \<open>C4: the ownership check\<close>

text \<open>
  Claim C4. \<open>m_isSelfReferencedObj\<close> returns true when the live object is nil, and
  returns true when the tracking method is label-based. Otherwise, with the tracking
  id taken from the desired-state object when there is one, and else from the live
  object's tracking annotation (when \<open>GetAppInstance\<close> finds one), it returns true if
  and only if the live object's name, group and kind equal those of the tracking id
  and its namespace equals the tracking id's namespace or is empty.
\<close>

theorem isSelfReferencedObj_cases:
  "m_isSelfReferencedObj d m None config appName trackingMethod installationID
   \<and> m_isSelfReferencedObj d m live config appName TrackingMethodLabel installationID
   \<and> (trackingMethod \<noteq> TrackingMethodLabel \<longrightarrow>
        m_isSelfReferencedObj d m (Some liveObj) (Some configObj) appName trackingMethod installationID
        = (let aiv = UnstructuredToAppInstanceValue d configObj appName '''' in
           obj_Name liveObj = aiv_Name aiv \<and> obj_Group liveObj = aiv_Group aiv \<and>
           obj_Kind liveObj = aiv_Kind aiv \<and>
           (obj_Namespace liveObj = aiv_Namespace aiv \<or> obj_Namespace liveObj = '''')))
   \<and> (trackingMethod \<noteq> TrackingMethodLabel \<and>
        rt_GetAppInstance (m_resourceTracking m) liveObj trackingMethod installationID = Some appInstance
        \<longrightarrow>
        m_isSelfReferencedObj d m (Some liveObj) None appName trackingMethod installationID
        = (obj_Name liveObj = aiv_Name appInstance \<and> obj_Group liveObj = aiv_Group appInstance \<and>
           obj_Kind liveObj = aiv_Kind appInstance \<and>
           (obj_Namespace liveObj = aiv_Namespace appInstance \<or> obj_Namespace liveObj = '''')))"
  by (cases live) (auto simp: m_isSelfReferencedObj_def isSelfReferencedObj_def Let_def)

theorem isSelfReferencedObj_cases_witness:
  "''annotation'' \<noteq> TrackingMethodLabel
   \<and> rt_GetAppInstance (m_resourceTracking demo_m_tracked) demo_service ''annotation'' ''''
     = Some demo_tracking_id
   \<and> m_isSelfReferencedObj demo_deps demo_m_tracked None (Some demo_deployment) ''guestbook''
       ''annotation'' ''''
   \<and> m_isSelfReferencedObj demo_deps demo_m_tracked (Some demo_service) (Some demo_deployment)
       ''guestbook'' TrackingMethodLabel ''''
   \<and> m_isSelfReferencedObj demo_deps demo_m_tracked (Some demo_deployment_again) (Some demo_deployment)
       ''guestbook'' ''annotation'' ''''
   \<and> \<not> m_isSelfReferencedObj demo_deps demo_m_tracked (Some demo_service) None ''guestbook''
         ''annotation'' ''''"
proof -
  have annot: "''annotation'' \<noteq> TrackingMethodLabel" by (simp add: TrackingMethodLabel_def)
  have tracked: "rt_GetAppInstance (m_resourceTracking demo_m_tracked) demo_service ''annotation'' ''''
                 = Some demo_tracking_id"
    by (simp add: demo_m_tracked_def)
  from isSelfReferencedObj_cases[of demo_deps demo_m_tracked "Some demo_deployment" "''guestbook''"
         "''annotation''" "''''" "Some demo_service" demo_deployment_again demo_deployment
         demo_tracking_id] annot
  have a: "m_isSelfReferencedObj demo_deps demo_m_tracked None (Some demo_deployment) ''guestbook''
             ''annotation'' ''''"
    and b: "m_isSelfReferencedObj demo_deps demo_m_tracked (Some demo_service) (Some demo_deployment)
             ''guestbook'' TrackingMethodLabel ''''"
    and c: "m_isSelfReferencedObj demo_deps demo_m_tracked (Some demo_deployment_again)
              (Some demo_deployment) ''guestbook'' ''annotation'' ''''"
    by (simp_all add: demo_deps_def demo_deployment_def demo_deployment_again_def Let_def)
  from isSelfReferencedObj_cases[of demo_deps demo_m_tracked "Some demo_deployment" "''guestbook''"
         "''annotation''" "''''" "Some demo_service" demo_service demo_deployment
         demo_tracking_id] annot tracked
  have e: "\<not> m_isSelfReferencedObj demo_deps demo_m_tracked (Some demo_service) None ''guestbook''
               ''annotation'' ''''"
    by (simp add: demo_service_def demo_tracking_id_def)
  from annot tracked a b c e show ?thesis by blast
qed

subsection \<open>C8: sources whose path-change check is skipped\<close>

text \<open>
  Claim C8. When \<open>GetRepoObjs\<close> returns its results, and for some source the
  preliminary path-change check was skipped (the source is a Helm chart or an OCI
  reference, or its synced revision is empty, or the manifest-generate-paths
  annotation is absent or empty), the returned \<open>revisionsMayHaveChanges\<close> is true.
\<close>

theorem GetRepoObjs_revisionsMayHaveChanges:
  assumes "GetRepoObjs d m app sources appLabelKey revisions noCache noRevisionCache verifySignature proj
             sendRuntimeState = Inr (targetObjs, manifestInfos, revisionsMayHaveChanges)"
    and "i < length sources"
    and "IsHelm d (sources ! i) \<or> IsOCI d (sources ! i) \<or> syncedRevisionOf d app i = ''''
         \<or> map_of (app_Annotations app) AnnotationKeyManifestGeneratePaths = None
         \<or> map_of (app_Annotations app) AnnotationKeyManifestGeneratePaths = Some ''''"
  shows "revisionsMayHaveChanges"
proof -
  from GetRepoObjs_loop[OF assms(1)] obtain lk where
    loop: "getRepoObjsLoop d m
       \<lparr>ra_app = app, ra_nSources = length sources, ra_appLabelKey = appLabelKey, ra_noCache = noCache,
        ra_noRevisionCache = noRevisionCache, ra_verifySignature = verifySignature, ra_proj = proj,
        ra_sendRuntimeState = sendRuntimeState\<rparr> lk 0 sources revisions [] [] False
       = Inr (targetObjs, manifestInfos, revisionsMayHaveChanges)" by blast
  from assms(3) have "\<not> pathCheckApplies d app (0 + i) (sources ! i)"
    by (auto simp: pathCheckApplies_def)
  with getRepoObjsLoop_skipped[OF loop assms(2)] show ?thesis by simp
qed

theorem GetRepoObjs_revisionsMayHaveChanges_witness:
  "GetRepoObjs demo_deps demo_m demo_app [demo_source] ''app.kubernetes.io/instance'' [''1.2.3'']
     False False False demo_project True
   = Inr ([Some demo_deployment, Some demo_service], [demo_response], True)
   \<and> (0::nat) < length [demo_source]
   \<and> IsHelm demo_deps ([demo_source] ! 0)
   \<and> syncedRevisionOf demo_deps demo_app 0 = ''''"
proof -
  have run: "GetRepoObjs demo_deps demo_m demo_app [demo_source] ''app.kubernetes.io/instance''
               [''1.2.3''] False False False demo_project True
             = Inr ([Some demo_deployment, Some demo_service], [demo_response], True)"
    by code_simp
  have i: "(0::nat) < length [demo_source]" by simp
  have helm: "IsHelm demo_deps ([demo_source] ! 0)" by code_simp
  have synced: "syncedRevisionOf demo_deps demo_app 0 = ''''" by code_simp
  from helm have skipped:
    "IsHelm demo_deps ([demo_source] ! 0) \<or> IsOCI demo_deps ([demo_source] ! 0)
     \<or> syncedRevisionOf demo_deps demo_app 0 = ''''
     \<or> map_of (app_Annotations demo_app) AnnotationKeyManifestGeneratePaths = None
     \<or> map_of (app_Annotations demo_app) AnnotationKeyManifestGeneratePaths = Some ''''"
    by blast
  from GetRepoObjs_revisionsMayHaveChanges[OF run i skipped] run i helm synced
  show ?thesis by blast
qed

subsection \<open>C9: a settings failure aborts the pass\<close>

text \<open>
  Claim C9. If loading the comparison settings fails, \<open>CompareAppState\<close> returns at
  once: the result has the initial sync status, whose code is Unknown, the health
  status Unknown and nothing else; the repo-error cache is unchanged and no conditions
  are set. No later phase runs: the outcome is the same whatever the collaborators of
  the later phases, the clock, the project and the flags and local manifests are.
\<close>

theorem settings_failure_aborts:
  assumes "getComparisonSettings m = Inl err"
  shows "CompareAppState d m clk app project revisions sources noCache noRevisionCache localManifests
           hasMultipleSources
         = \<lparr>out_result =
              Inr (unknownComparisonResult (initialSyncStatus app revisions sources hasMultipleSources)),
            out_repoErrorCache = m_repoErrorCache m, out_conditions = None,
            out_failedToLoadObjs = False\<rparr>
       \<and> ss_Status (res_syncStatus
            (unknownComparisonResult (initialSyncStatus app revisions sources hasMultipleSources)))
         = SyncStatusCodeUnknown
       \<and> res_healthStatus
            (unknownComparisonResult (initialSyncStatus app revisions sources hasMultipleSources))
         = HealthStatusUnknown
       \<and> res_resources
            (unknownComparisonResult (initialSyncStatus app revisions sources hasMultipleSources)) = []
       \<and> CompareAppState d m clk app project revisions sources noCache noRevisionCache localManifests
           hasMultipleSources
         = CompareAppState d' m clk' app project' revisions sources noCache' noRevisionCache'
             localManifests' hasMultipleSources"
  using assms
  by (simp add: CompareAppState_def unknownComparisonResult_def initialSyncStatus_def Let_def)

theorem settings_failure_aborts_witness:
  "getComparisonSettings demo_m_no_settings = Inl (Err ''configmap not found'')
   \<and> out_result (demo_pass demo_deps demo_m_no_settings demo_project False)
     = Inr (unknownComparisonResult (initialSyncStatus demo_app [''1.2.3''] [demo_source] False))
   \<and> out_conditions (demo_pass demo_deps demo_m_no_settings demo_project False) = None
   \<and> demo_pass demo_deps demo_m_no_settings demo_project False
     = demo_pass demo_deps_broken_diff demo_m_no_settings demo_signed_project True"
proof -
  have failed: "getComparisonSettings demo_m_no_settings = Inl (Err ''configmap not found'')"
    by (simp add: getComparisonSettings_def demo_m_no_settings_def demo_m_def)
  from settings_failure_aborts[OF failed, of demo_deps demo_clock demo_app demo_project "[''1.2.3'']"
         "[demo_source]" False False "[]" False demo_deps_broken_diff demo_clock demo_signed_project
         False True "[]"]
  have early: "CompareAppState demo_deps demo_m_no_settings demo_clock demo_app demo_project [''1.2.3'']
                 [demo_source] False False [] False
               = \<lparr>out_result =
                    Inr (unknownComparisonResult
                           (initialSyncStatus demo_app [''1.2.3''] [demo_source] False)),
                  out_repoErrorCache = m_repoErrorCache demo_m_no_settings, out_conditions = None,
                  out_failedToLoadObjs = False\<rparr>"
    and same: "CompareAppState demo_deps demo_m_no_settings demo_clock demo_app demo_project [''1.2.3'']
                 [demo_source] False False [] False
               = CompareAppState demo_deps_broken_diff demo_m_no_settings demo_clock demo_app
                   demo_signed_project [''1.2.3''] [demo_source] False True [] False"
    by blast+
  from early have
    "out_result (demo_pass demo_deps demo_m_no_settings demo_project False)
     = Inr (unknownComparisonResult (initialSyncStatus demo_app [''1.2.3''] [demo_source] False))"
    and "out_conditions (demo_pass demo_deps demo_m_no_settings demo_project False) = None"
    by (simp_all add: demo_pass_def)
  moreover from same have
    "demo_pass demo_deps demo_m_no_settings demo_project False
     = demo_pass demo_deps_broken_diff demo_m_no_settings demo_signed_project True"
    by (simp only: demo_pass_def)
  ultimately show ?thesis using failed by blast
qed

subsection \<open>C10: the spec comparison writes only to its own copy\<close>

text \<open>
  Claim C10. \<open>specEqualsCompareTo\<close>, and \<open>useDiffCache\<close> which calls it, leave their
  inputs unchanged. The spec and the compared-to snapshot of the application are passed
  by value, with the pointers and slices they hold. Let \<^verbatim>\<open>DeepCopy\<close> be a deep copy
  and let \<^verbatim>\<open>BuildComparedToStatus\<close> write only to its receiver and through the
  receiver's pointers and slices. Then no cell that existed before the call is written:
  the only cells written are those of the copy the call allocates. So the spec and the
  compared-to snapshot have after the call the values they had before it.
\<close>

theorem specEqualsCompareTo_frame:
  assumes "deepCopyContract (mem_DeepCopy md)" and "receiverFootprint (mem_BuildComparedToStatus md)"
    and "spec_refs (ma_Spec app) \<subseteq> {..<length h}"
    and "comparedTo_refs (ma_ComparedTo app) \<subseteq> {..<length h}"
    and "h' = snd (specEqualsCompareTo_mem md h (ma_Spec app) sources (ma_ComparedTo app))"
    and "h'' = snd (useDiffCache_mem d md h noCache manifestInfos sources app manifestRevisions
                      statusRefreshTimeout serverSideDiff)"
  shows "take (length h) h' = h
       \<and> load_spec h' (ma_Spec app) = load_spec h (ma_Spec app)
       \<and> load_comparedTo h' (ma_ComparedTo app) = load_comparedTo h (ma_ComparedTo app)
       \<and> take (length h) h'' = h
       \<and> load_spec h'' (ma_Spec app) = load_spec h (ma_Spec app)
       \<and> load_comparedTo h'' (ma_ComparedTo app) = load_comparedTo h (ma_ComparedTo app)"
proof -
  have first: "take (length h) h' = h"
    unfolding assms(5) by (rule specEqualsCompareTo_mem_frame[OF assms(1-3)])
  have second: "take (length h) h'' = h"
    unfolding assms(6) by (rule useDiffCache_mem_frame[OF assms(1-3)])
  from first second load_spec_frame[OF first assms(3)] load_comparedTo_frame[OF first assms(4)]
    load_spec_frame[OF second assms(3)] load_comparedTo_frame[OF second assms(4)]
  show ?thesis by simp
qed

text \<open>
  The application of the scenario in memory. The call allocates a copy of the source
  and the new spec, in cells 2 and 3, and \<^verbatim>\<open>BuildComparedToStatus\<close> writes to both;
  cells 0 and 1, which hold the source of the application and the slice of sources, are
  as they were.
\<close>

theorem specEqualsCompareTo_frame_witness:
  "snd (specEqualsCompareTo_mem demo_md demo_memory demo_spec_mem (Some 1) demo_comparedTo_mem)
   = [SourceCell demo_source, SourcesCell [demo_source],
      SourceCell (demo_source\<lparr>src_Ref := ''compared''\<rparr>),
      SpecCell (demo_spec_mem\<lparr>ms_Source := Some 2, ms_Project := ''scratch''\<rparr>)]
   \<and> fst (specEqualsCompareTo_mem demo_md demo_memory demo_spec_mem (Some 1) demo_comparedTo_mem)
   \<and> take (length demo_memory)
       (snd (specEqualsCompareTo_mem demo_md demo_memory demo_spec_mem (Some 1) demo_comparedTo_mem))
     = demo_memory
   \<and> load_spec
       (snd (specEqualsCompareTo_mem demo_md demo_memory demo_spec_mem (Some 1) demo_comparedTo_mem))
       demo_spec_mem
     = app_Spec demo_app
   \<and> load_comparedTo
       (snd (specEqualsCompareTo_mem demo_md demo_memory demo_spec_mem (Some 1) demo_comparedTo_mem))
       demo_comparedTo_mem
     = demo_comparedTo
   \<and> fst (useDiffCache_mem demo_deps demo_md demo_memory False [demo_response] (Some 1) demo_app_mem
            [''1.2.3''] 180 False)
   \<and> take (length demo_memory)
       (snd (useDiffCache_mem demo_deps demo_md demo_memory False [demo_response] (Some 1)
               demo_app_mem [''1.2.3''] 180 False))
     = demo_memory
   \<and> load_spec
       (snd (useDiffCache_mem demo_deps demo_md demo_memory False [demo_response] (Some 1)
               demo_app_mem [''1.2.3''] 180 False))
       demo_spec_mem
     = app_Spec demo_app"
proof -
  have copy: "deepCopyContract (mem_DeepCopy demo_md)"
    by (simp add: demo_md_def demo_DeepCopy_contract)
  have build: "receiverFootprint (mem_BuildComparedToStatus demo_md)"
    by (simp add: demo_md_def demo_BuildComparedToStatus_mem_footprint)
  have valid: "spec_refs (ma_Spec demo_app_mem) \<subseteq> {..<length demo_memory}"
    "comparedTo_refs (ma_ComparedTo demo_app_mem) \<subseteq> {..<length demo_memory}"
    by (simp_all add: demo_app_mem_def demo_spec_mem_def demo_comparedTo_mem_def demo_memory_def
                      spec_refs_def comparedTo_refs_def)
  have parts: "ma_Spec demo_app_mem = demo_spec_mem" "ma_ComparedTo demo_app_mem = demo_comparedTo_mem"
    by (simp_all add: demo_app_mem_def)
  have before: "load_spec demo_memory demo_spec_mem = app_Spec demo_app"
    "load_comparedTo demo_memory demo_comparedTo_mem = demo_comparedTo"
    by code_simp+
  have written:
    "snd (specEqualsCompareTo_mem demo_md demo_memory demo_spec_mem (Some 1) demo_comparedTo_mem)
     = [SourceCell demo_source, SourcesCell [demo_source],
        SourceCell (demo_source\<lparr>src_Ref := ''compared''\<rparr>),
        SpecCell (demo_spec_mem\<lparr>ms_Source := Some 2, ms_Project := ''scratch''\<rparr>)]"
    by code_simp
  have equal:
    "fst (specEqualsCompareTo_mem demo_md demo_memory demo_spec_mem (Some 1) demo_comparedTo_mem)"
    "fst (useDiffCache_mem demo_deps demo_md demo_memory False [demo_response] (Some 1) demo_app_mem
            [''1.2.3''] 180 False)"
    by code_simp+
  from specEqualsCompareTo_frame[OF copy build valid refl refl, where sources = "Some 1"
         and d = demo_deps and noCache = False and manifestInfos = "[demo_response]"
         and manifestRevisions = "[''1.2.3'']" and statusRefreshTimeout = 180
         and serverSideDiff = False]
    written equal before
  show ?thesis unfolding parts by simp
qed

subsection \<open>C5: the grace period of repo errors\<close>

text \<open>
  Claim C5. Let the settings and the destination cluster load, and let there be no
  local manifests, so that the pass reaches \<open>GetRepoObjs\<close>. When \<open>GetRepoObjs\<close> fails,
  no time is stored for the application's name and \<open>noRevisionCache\<close> is false, the pass
  stores the time of the failure under the name and returns the sentinel
  \<open>ErrCompareStateRepo\<close>, not the error of \<open>GetRepoObjs\<close>. When it fails, a time is stored,
  the time since then is within the grace period and \<open>noRevisionCache\<close> is false, the
  pass returns the sentinel and leaves the cache as it is. When \<open>GetRepoObjs\<close> succeeds,
  the pass deletes the entry of the name.
\<close>

theorem repo_error_grace_period:
  assumes "getComparisonSettings m
           = Inr (appLabelKey, resourceOverrides, resFilter, installationID, trackingMethod)"
    and "GetDestinationCluster d (spec_Destination (app_Spec app)) = Inr destCluster"
  shows
    "(GetRepoObjs d m app sources appLabelKey
        (if length revisions \<noteq> length sources then map src_TargetRevision sources else revisions)
        noCache False (0 < length (proj_SignatureKeys project) \<and> IsGPGEnabled d) project True = Inl err
      \<and> m_repoErrorCache m (app_Name app) = None
      \<longrightarrow> out_result (CompareAppState d m clk app project revisions sources noCache False []
                        hasMultipleSources)
            = Inl ErrCompareStateRepo
          \<and> out_repoErrorCache (CompareAppState d m clk app project revisions sources noCache False []
                                   hasMultipleSources)
            = (m_repoErrorCache m)(app_Name app \<mapsto> now_Store clk))
   \<and> (GetRepoObjs d m app sources appLabelKey
        (if length revisions \<noteq> length sources then map src_TargetRevision sources else revisions)
        noCache False (0 < length (proj_SignatureKeys project) \<and> IsGPGEnabled d) project True = Inl err
      \<and> m_repoErrorCache m (app_Name app) = Some firstSeen
      \<and> now_Since clk - firstSeen \<le> m_repoErrorGracePeriod m
      \<longrightarrow> out_result (CompareAppState d m clk app project revisions sources noCache False []
                        hasMultipleSources)
            = Inl ErrCompareStateRepo
          \<and> out_repoErrorCache (CompareAppState d m clk app project revisions sources noCache False []
                                   hasMultipleSources)
            = m_repoErrorCache m)
   \<and> (GetRepoObjs d m app sources appLabelKey
        (if length revisions \<noteq> length sources then map src_TargetRevision sources else revisions)
        noCache noRevisionCache (0 < length (proj_SignatureKeys project) \<and> IsGPGEnabled d) project True
      = Inr loaded
      \<longrightarrow> out_repoErrorCache (CompareAppState d m clk app project revisions sources noCache
                                   noRevisionCache [] hasMultipleSources)
            = (m_repoErrorCache m)(app_Name app := None))"
proof -
  have np: "\<And>e nrc. GetRepoObjs d m app sources appLabelKey
        (if length revisions \<noteq> length sources then map src_TargetRevision sources else revisions)
        noCache nrc (0 < length (proj_SignatureKeys project) \<and> IsGPGEnabled d) project True = Inl e
        \<Longrightarrow> \<not> isPanic e"
    by (rule noPanic_D[OF GetRepoObjs_noPanic]) auto
  show ?thesis
    using assms np
    by (auto simp: CompareAppState_def loadTargetState_def Let_def compareLoaded_cache
             split: prod.splits)
qed

theorem repo_error_grace_period_witness:
  "GetRepoObjs demo_deps demo_m_failing demo_app [demo_source] ''app.kubernetes.io/instance''
     (if length [''1.2.3''] \<noteq> length [demo_source] then map src_TargetRevision [demo_source]
      else [''1.2.3''])
     False False (0 < length (proj_SignatureKeys demo_project) \<and> IsGPGEnabled demo_deps) demo_project
     True
   = Inl (Wrap ''failed to generate manifest for source 1 of 1: '' (Err ''rpc error''))
   \<and> m_repoErrorCache demo_m_failing (app_Name demo_app) = None
   \<and> out_result (demo_pass demo_deps demo_m_failing demo_project False) = Inl ErrCompareStateRepo
   \<and> out_repoErrorCache (demo_pass demo_deps demo_m_failing demo_project False)
     = (m_repoErrorCache demo_m_failing)(app_Name demo_app \<mapsto> now_Store demo_clock)
   \<and> m_repoErrorCache demo_m_seen (app_Name demo_app) = Some 950
   \<and> now_Since demo_clock - 950 \<le> m_repoErrorGracePeriod demo_m_seen
   \<and> out_result (demo_pass demo_deps demo_m_seen demo_project False) = Inl ErrCompareStateRepo
   \<and> out_repoErrorCache (demo_pass demo_deps demo_m_seen demo_project False)
     = m_repoErrorCache demo_m_seen
   \<and> out_repoErrorCache (demo_pass demo_deps demo_m demo_project False)
     = (m_repoErrorCache demo_m)(app_Name demo_app := None)"
proof -
  have settings: "\<And>m. m_settingsMgr m = m_settingsMgr demo_m \<Longrightarrow>
      getComparisonSettings m
      = Inr (''app.kubernetes.io/instance'', '''', (\<lambda>g k server. False), '''', ''annotation'')"
    by (simp add: getComparisonSettings_def demo_m_def)
  have cluster: "GetDestinationCluster demo_deps (spec_Destination (app_Spec demo_app))
                 = Inr demo_cluster"
    by (simp add: demo_deps_def demo_app_def demo_cluster_def demo_destination_def)
  have s1: "m_settingsMgr demo_m_failing = m_settingsMgr demo_m" by (simp add: demo_m_failing_def)
  have s2: "m_settingsMgr demo_m_seen = m_settingsMgr demo_m"
    by (simp add: demo_m_seen_def demo_m_failing_def)
  have fails: "GetRepoObjs demo_deps demo_m_failing demo_app [demo_source] ''app.kubernetes.io/instance''
     (if length [''1.2.3''] \<noteq> length [demo_source] then map src_TargetRevision [demo_source]
      else [''1.2.3''])
     False False (0 < length (proj_SignatureKeys demo_project) \<and> IsGPGEnabled demo_deps) demo_project
     True
     = Inl (Wrap ''failed to generate manifest for source 1 of 1: '' (Err ''rpc error''))"
    by code_simp
  have fails_seen: "GetRepoObjs demo_deps demo_m_seen demo_app [demo_source] ''app.kubernetes.io/instance''
     (if length [''1.2.3''] \<noteq> length [demo_source] then map src_TargetRevision [demo_source]
      else [''1.2.3''])
     False False (0 < length (proj_SignatureKeys demo_project) \<and> IsGPGEnabled demo_deps) demo_project
     True
     = Inl (Wrap ''failed to generate manifest for source 1 of 1: '' (Err ''rpc error''))"
    by code_simp
  have succeeds: "GetRepoObjs demo_deps demo_m demo_app [demo_source] ''app.kubernetes.io/instance''
     (if length [''1.2.3''] \<noteq> length [demo_source] then map src_TargetRevision [demo_source]
      else [''1.2.3''])
     False False (0 < length (proj_SignatureKeys demo_project) \<and> IsGPGEnabled demo_deps) demo_project
     True
     = Inr ([Some demo_deployment, Some demo_service], [demo_response], True)"
    by code_simp
  have unseen: "m_repoErrorCache demo_m_failing (app_Name demo_app) = None"
    by (simp add: demo_m_failing_def demo_m_def)
  have seen: "m_repoErrorCache demo_m_seen (app_Name demo_app) = Some 950"
    by (simp add: demo_m_seen_def demo_app_def)
  have within: "now_Since demo_clock - 950 \<le> m_repoErrorGracePeriod demo_m_seen"
    by (simp add: demo_clock_def demo_m_seen_def demo_m_failing_def demo_m_def)
  from repo_error_grace_period[OF settings[OF s1] cluster, where sources = "[demo_source]"
         and revisions = "[''1.2.3'']" and noCache = False and project = demo_project
         and clk = demo_clock and hasMultipleSources = False] fails unseen
  have first: "out_result (demo_pass demo_deps demo_m_failing demo_project False) = Inl ErrCompareStateRepo
     \<and> out_repoErrorCache (demo_pass demo_deps demo_m_failing demo_project False)
       = (m_repoErrorCache demo_m_failing)(app_Name demo_app \<mapsto> now_Store demo_clock)"
    unfolding demo_pass_def by blast
  from repo_error_grace_period[OF settings[OF s2] cluster, where sources = "[demo_source]"
         and revisions = "[''1.2.3'']" and noCache = False and project = demo_project
         and clk = demo_clock and hasMultipleSources = False and firstSeen = 950]
    fails_seen seen within
  have second: "out_result (demo_pass demo_deps demo_m_seen demo_project False) = Inl ErrCompareStateRepo
     \<and> out_repoErrorCache (demo_pass demo_deps demo_m_seen demo_project False)
       = m_repoErrorCache demo_m_seen"
    unfolding demo_pass_def by blast
  from repo_error_grace_period[OF settings[OF refl] cluster, where sources = "[demo_source]"
         and revisions = "[''1.2.3'']" and noCache = False and project = demo_project
         and clk = demo_clock and hasMultipleSources = False and noRevisionCache = False] succeeds
  have third: "out_repoErrorCache (demo_pass demo_deps demo_m demo_project False)
     = (m_repoErrorCache demo_m)(app_Name demo_app := None)"
    unfolding demo_pass_def by blast
  from fails unseen first seen within second third show ?thesis by blast
qed

subsection \<open>C6: an unsigned revision\<close>

text \<open>
  Claim C6. Let the project declare at least one signature key and GPG be enabled,
  and let the pass have rendered its sources (settings and cluster loaded, no local
  manifests, \<open>GetRepoObjs\<close> successful, the reconciliation index-aligned). The pass
  completes: the classification returns, and the pass returns a result whose sync
  status is one of Unknown, Synced and OutOfSync. Its conditions are the conditions
  accumulated up to the health evaluation, followed by those of the signature check, one
  response after the other; a response whose verification payload is empty contributes
  exactly one condition there: a comparison error with the message
  \<^verbatim>\<open>Target revision <revision> in Git is not signed, but a signature is required\<close>.
\<close>

theorem unsigned_revision_condition:
  assumes "getComparisonSettings m
           = Inr (appLabelKey, resourceOverrides, resFilter, installationID, trackingMethod)"
    and "GetDestinationCluster d (spec_Destination (app_Spec app)) = Inr destCluster"
    and "0 < length (proj_SignatureKeys project)" and "IsGPGEnabled d"
    and "GetRepoObjs d m app sources appLabelKey
           (if length revisions \<noteq> length sources then map src_TargetRevision sources else revisions)
           noCache noRevisionCache True project True
         = Inr (targetObjs, before @ manifestInfo # after, mayHaveChanges)"
    and "mr_VerifyResult manifestInfo = ''''"
    and "\<forall>t l n p. length (rr_Target (Reconcile d t l n p)) \<le> length (rr_Live (Reconcile d t l n p))"
  shows "\<exists>res cl.
           classifyPairs d m app project resourceOverrides installationID trackingMethod destCluster
             (prepareComparison d m app project sources noCache appLabelKey resourceOverrides
                resFilter installationID trackingMethod destCluster
                \<lparr>ts_targetObjs = targetObjs, ts_manifestInfos = before @ manifestInfo # after,
                 ts_revisionsMayHaveChanges = mayHaveChanges, ts_conditions = [],
                 ts_failedToLoadObjs = False,
                 ts_repoErrorCache = (m_repoErrorCache m)(app_Name app := None)\<rparr>) = Inr cl
         \<and> out_result (CompareAppState d m clk app project revisions sources noCache noRevisionCache []
                         hasMultipleSources) = Inr res
         \<and> ss_Status (res_syncStatus res)
           \<in> {SyncStatusCodeUnknown, SyncStatusCodeSynced, SyncStatusCodeOutOfSync}
         \<and> out_conditions (CompareAppState d m clk app project revisions sources noCache
                             noRevisionCache [] hasMultipleSources)
           = Some (cl_conditions cl
                   @ signatureConditions d True project before
                   @ [\<lparr>cond_Type = ApplicationConditionComparisonError,
                       cond_Message = ''Target revision '' @ mr_Revision manifestInfo
                                      @ '' in Git is not signed, but a signature is required''\<rparr>]
                   @ signatureConditions d True project after)"
proof -
  define loaded where "loaded =
     \<lparr>ts_targetObjs = targetObjs, ts_manifestInfos = before @ manifestInfo # after,
      ts_revisionsMayHaveChanges = mayHaveChanges, ts_conditions = [], ts_failedToLoadObjs = False,
      ts_repoErrorCache = (m_repoErrorCache m)(app_Name app := None)\<rparr>"
  have pass: "CompareAppState d m clk app project revisions sources noCache noRevisionCache []
                hasMultipleSources
      = compareLoaded d m app project sources noCache hasMultipleSources
          (initialSyncStatus app revisions sources hasMultipleSources)
          appLabelKey resourceOverrides resFilter installationID trackingMethod destCluster True loaded"
    using assms(1-5) by (simp add: CompareAppState_def loadTargetState_def Let_def loaded_def)
  from compareLoaded_completes[OF assms(7), of m app project resourceOverrides installationID
         trackingMethod destCluster sources noCache appLabelKey resFilter loaded hasMultipleSources
         "initialSyncStatus app revisions sources hasMultipleSources" True]
  obtain res cl where
    "classifyPairs d m app project resourceOverrides installationID trackingMethod destCluster
       (prepareComparison d m app project sources noCache appLabelKey resourceOverrides
          resFilter installationID trackingMethod destCluster loaded) = Inr cl"
    "out_result (compareLoaded d m app project sources noCache hasMultipleSources
          (initialSyncStatus app revisions sources hasMultipleSources)
          appLabelKey resourceOverrides resFilter installationID trackingMethod destCluster True loaded)
     = Inr res"
    "ss_Status (res_syncStatus res)
     \<in> {SyncStatusCodeUnknown, SyncStatusCodeSynced, SyncStatusCodeOutOfSync}"
    "out_conditions (compareLoaded d m app project sources noCache hasMultipleSources
          (initialSyncStatus app revisions sources hasMultipleSources)
          appLabelKey resourceOverrides resFilter installationID trackingMethod destCluster True loaded)
     = Some (cl_conditions cl @ signatureConditions d True project (ts_manifestInfos loaded))"
    by blast
  moreover have "signatureConditions d True project (ts_manifestInfos loaded)
     = signatureConditions d True project before
       @ [\<lparr>cond_Type = ApplicationConditionComparisonError,
           cond_Message = ''Target revision '' @ mr_Revision manifestInfo
                          @ '' in Git is not signed, but a signature is required''\<rparr>]
       @ signatureConditions d True project after"
    using assms(4,6)
    by (simp add: loaded_def signatureConditions_append signatureConditions_unsigned
                  comparisonError_def)
  ultimately show ?thesis unfolding pass loaded_def[symmetric] by auto
qed

text \<open>
  The pass of the scenario in a project that declares a signature key: the one render
  response has no verification payload. Nothing else raises a condition, so the
  conditions of the pass are exactly the one comparison error, which names revision
  \<open>1.2.3\<close>; the sync status is OutOfSync, as neither object is live.
\<close>

theorem unsigned_revision_condition_witness:
  "0 < length (proj_SignatureKeys demo_signed_project) \<and> IsGPGEnabled demo_deps
   \<and> GetRepoObjs demo_deps demo_m demo_app [demo_source] ''app.kubernetes.io/instance''
       (if length [''1.2.3''] \<noteq> length [demo_source] then map src_TargetRevision [demo_source]
        else [''1.2.3''])
       False False True demo_signed_project True
     = Inr ([Some demo_deployment, Some demo_service], [] @ demo_response # [], True)
   \<and> mr_VerifyResult demo_response = ''''
   \<and> out_conditions (demo_pass demo_deps demo_m demo_signed_project False)
     = Some [\<lparr>cond_Type = ApplicationConditionComparisonError,
              cond_Message =
                ''Target revision 1.2.3 in Git is not signed, but a signature is required''\<rparr>]
   \<and> ss_Status (res_syncStatus (projr (out_result (demo_pass demo_deps demo_m demo_signed_project False))))
     = SyncStatusCodeOutOfSync
   \<and> (\<exists>res cl.
         classifyPairs demo_deps demo_m demo_app demo_signed_project '''' '''' ''annotation''
           demo_cluster
           (prepareComparison demo_deps demo_m demo_app demo_signed_project [demo_source] False
              ''app.kubernetes.io/instance'' '''' (\<lambda>g k server. False) '''' ''annotation''
              demo_cluster
              \<lparr>ts_targetObjs = [Some demo_deployment, Some demo_service],
               ts_manifestInfos = [] @ demo_response # [],
               ts_revisionsMayHaveChanges = True, ts_conditions = [],
               ts_failedToLoadObjs = False,
               ts_repoErrorCache = (m_repoErrorCache demo_m)(app_Name demo_app := None)\<rparr>) = Inr cl
       \<and> out_result (demo_pass demo_deps demo_m demo_signed_project False) = Inr res
       \<and> ss_Status (res_syncStatus res)
         \<in> {SyncStatusCodeUnknown, SyncStatusCodeSynced, SyncStatusCodeOutOfSync}
       \<and> out_conditions (demo_pass demo_deps demo_m demo_signed_project False)
         = Some (cl_conditions cl
                 @ signatureConditions demo_deps True demo_signed_project []
                 @ [\<lparr>cond_Type = ApplicationConditionComparisonError,
                     cond_Message = ''Target revision '' @ mr_Revision demo_response
                                    @ '' in Git is not signed, but a signature is required''\<rparr>]
                 @ signatureConditions demo_deps True demo_signed_project []))"
proof -
  have settings: "getComparisonSettings demo_m
      = Inr (''app.kubernetes.io/instance'', '''', (\<lambda>g k server. False), '''', ''annotation'')"
    by (simp add: getComparisonSettings_def demo_m_def)
  have cluster: "GetDestinationCluster demo_deps (spec_Destination (app_Spec demo_app))
                 = Inr demo_cluster"
    by (simp add: demo_deps_def demo_app_def demo_cluster_def demo_destination_def)
  have keys: "0 < length (proj_SignatureKeys demo_signed_project)" by code_simp
  have gpg: "IsGPGEnabled demo_deps" by code_simp
  have rendered: "GetRepoObjs demo_deps demo_m demo_app [demo_source] ''app.kubernetes.io/instance''
       (if length [''1.2.3''] \<noteq> length [demo_source] then map src_TargetRevision [demo_source]
        else [''1.2.3''])
       False False True demo_signed_project True
     = Inr ([Some demo_deployment, Some demo_service], [] @ demo_response # [], True)"
    by code_simp
  have unsigned: "mr_VerifyResult demo_response = ''''" by code_simp
  have aligned: "\<forall>t l n p. length (rr_Target (Reconcile demo_deps t l n p))
                           \<le> length (rr_Live (Reconcile demo_deps t l n p))"
    by (simp add: demo_deps_def demo_reconcile_def Let_def)
  have conditions: "out_conditions (demo_pass demo_deps demo_m demo_signed_project False)
     = Some [\<lparr>cond_Type = ApplicationConditionComparisonError,
              cond_Message =
                ''Target revision 1.2.3 in Git is not signed, but a signature is required''\<rparr>]"
    by code_simp
  have status: "ss_Status (res_syncStatus (projr (out_result
                   (demo_pass demo_deps demo_m demo_signed_project False))))
                = SyncStatusCodeOutOfSync"
    by code_simp
  from unsigned_revision_condition[OF settings cluster keys gpg rendered unsigned aligned,
         where clk = demo_clock and hasMultipleSources = False]
  have "\<exists>res cl.
         classifyPairs demo_deps demo_m demo_app demo_signed_project '''' '''' ''annotation''
           demo_cluster
           (prepareComparison demo_deps demo_m demo_app demo_signed_project [demo_source] False
              ''app.kubernetes.io/instance'' '''' (\<lambda>g k server. False) '''' ''annotation''
              demo_cluster
              \<lparr>ts_targetObjs = [Some demo_deployment, Some demo_service],
               ts_manifestInfos = [] @ demo_response # [],
               ts_revisionsMayHaveChanges = True, ts_conditions = [],
               ts_failedToLoadObjs = False,
               ts_repoErrorCache = (m_repoErrorCache demo_m)(app_Name demo_app := None)\<rparr>) = Inr cl
       \<and> out_result (demo_pass demo_deps demo_m demo_signed_project False) = Inr res
       \<and> ss_Status (res_syncStatus res)
         \<in> {SyncStatusCodeUnknown, SyncStatusCodeSynced, SyncStatusCodeOutOfSync}
       \<and> out_conditions (demo_pass demo_deps demo_m demo_signed_project False)
         = Some (cl_conditions cl
                 @ signatureConditions demo_deps True demo_signed_project []
                 @ [\<lparr>cond_Type = ApplicationConditionComparisonError,
                     cond_Message = ''Target revision '' @ mr_Revision demo_response
                                    @ '' in Git is not signed, but a signature is required''\<rparr>]
                 @ signatureConditions demo_deps True demo_signed_project [])"
    unfolding demo_pass_def .
  with keys gpg rendered unsigned conditions status show ?thesis by blast
qed

subsection \<open>C1: a failed load forces Unknown\<close>

text \<open>
  Claim C1. When \<open>failedToLoadObjs\<close> is set in a pass that returns a result (the target
  state could not be acquired, or the live state could not be loaded, or the diff
  failed), the aggregate sync status of the result is Unknown and so is the sync status
  of every per-resource entry of the result, whatever the classification computed for
  it. The pairs are those of the reconciliation the result carries; by the invariant of
  the data model each of them has a target or a live object.
\<close>

theorem failedToLoadObjs_forces_unknown:
  assumes "out_failedToLoadObjs (CompareAppState d m clk app project revisions sources noCache
             noRevisionCache localManifests hasMultipleSources)"
    and "out_result (CompareAppState d m clk app project revisions sources noCache noRevisionCache
             localManifests hasMultipleSources) = Inr res"
    and "\<forall>i < length (rr_Target (res_reconciliationResult res)).
           rr_Target (res_reconciliationResult res) ! i \<noteq> None
           \<or> rr_Live (res_reconciliationResult res) ! i \<noteq> None"
  shows "ss_Status (res_syncStatus res) = SyncStatusCodeUnknown
       \<and> (\<forall>rs \<in> set (res_resources res). rs_Status rs = SyncStatusCodeUnknown)"
proof -
  from assms(1,2) obtain appLabelKey resourceOverrides resFilter installationID trackingMethod
    destCluster loaded where
    "out_failedToLoadObjs (compareLoaded d m app project sources noCache hasMultipleSources
        (initialSyncStatus app revisions sources hasMultipleSources)
        appLabelKey resourceOverrides resFilter installationID trackingMethod destCluster
        (length (proj_SignatureKeys project) > 0 \<and> IsGPGEnabled d) loaded)"
    "out_result (compareLoaded d m app project sources noCache hasMultipleSources
        (initialSyncStatus app revisions sources hasMultipleSources)
        appLabelKey resourceOverrides resFilter installationID trackingMethod destCluster
        (length (proj_SignatureKeys project) > 0 \<and> IsGPGEnabled d) loaded) = Inr res"
    by (auto simp: CompareAppState_def Let_def split: sum.splits prod.splits)
  from compareLoaded_failed[OF this assms(3)] show ?thesis .
qed

text \<open>
  Three passes of the scenario, one for each cause. In the first the diff fails, in
  the second the live state cannot be loaded: both results have the two rendered
  objects as targets, with no live counterpart. In the third the repo server cannot
  render and the revision cache is not to be used, so the pass goes on with no
  targets.
\<close>

theorem failedToLoadObjs_forces_unknown_witness:
  "out_failedToLoadObjs (demo_pass demo_deps_broken_diff demo_m demo_project False)
   \<and> rr_Target (res_reconciliationResult (projr (out_result
        (demo_pass demo_deps_broken_diff demo_m demo_project False))))
     = [Some demo_deployment, Some demo_service]
   \<and> ss_Status (res_syncStatus (projr (out_result
        (demo_pass demo_deps_broken_diff demo_m demo_project False)))) = SyncStatusCodeUnknown
   \<and> rs_Status (res_resources (projr (out_result
        (demo_pass demo_deps_broken_diff demo_m demo_project False))) ! 0) = SyncStatusCodeUnknown
   \<and> rs_Status (res_resources (projr (out_result
        (demo_pass demo_deps_broken_diff demo_m demo_project False))) ! 1) = SyncStatusCodeUnknown
   \<and> out_failedToLoadObjs (demo_pass demo_deps demo_m_no_live demo_project False)
   \<and> ss_Status (res_syncStatus (projr (out_result
        (demo_pass demo_deps demo_m_no_live demo_project False)))) = SyncStatusCodeUnknown
   \<and> rs_Status (res_resources (projr (out_result
        (demo_pass demo_deps demo_m_no_live demo_project False))) ! 0) = SyncStatusCodeUnknown
   \<and> rs_Status (res_resources (projr (out_result
        (demo_pass demo_deps demo_m_no_live demo_project False))) ! 1) = SyncStatusCodeUnknown
   \<and> out_failedToLoadObjs (demo_pass demo_deps demo_m_failing demo_project True)
   \<and> ss_Status (res_syncStatus (projr (out_result
        (demo_pass demo_deps demo_m_failing demo_project True)))) = SyncStatusCodeUnknown"
proof -
  have failed:
    "out_failedToLoadObjs (demo_pass demo_deps_broken_diff demo_m demo_project False)"
    "out_failedToLoadObjs (demo_pass demo_deps demo_m_no_live demo_project False)"
    "out_failedToLoadObjs (demo_pass demo_deps demo_m_failing demo_project True)"
    by code_simp+
  have "\<not> isl (out_result (demo_pass demo_deps_broken_diff demo_m demo_project False))"
    "\<not> isl (out_result (demo_pass demo_deps demo_m_no_live demo_project False))"
    "\<not> isl (out_result (demo_pass demo_deps demo_m_failing demo_project True))"
    by code_simp+
  then have returned:
    "out_result (demo_pass demo_deps_broken_diff demo_m demo_project False)
     = Inr (projr (out_result (demo_pass demo_deps_broken_diff demo_m demo_project False)))"
    "out_result (demo_pass demo_deps demo_m_no_live demo_project False)
     = Inr (projr (out_result (demo_pass demo_deps demo_m_no_live demo_project False)))"
    "out_result (demo_pass demo_deps demo_m_failing demo_project True)
     = Inr (projr (out_result (demo_pass demo_deps demo_m_failing demo_project True)))"
    by simp_all
  have targets:
    "rr_Target (res_reconciliationResult (projr (out_result
        (demo_pass demo_deps_broken_diff demo_m demo_project False))))
     = [Some demo_deployment, Some demo_service]"
    "rr_Target (res_reconciliationResult (projr (out_result
        (demo_pass demo_deps demo_m_no_live demo_project False))))
     = [Some demo_deployment, Some demo_service]"
    "rr_Target (res_reconciliationResult (projr (out_result
        (demo_pass demo_deps demo_m_failing demo_project True)))) = []"
    by code_simp+
  have paired:
    "\<forall>i < length (rr_Target (res_reconciliationResult (projr (out_result
          (demo_pass demo_deps_broken_diff demo_m demo_project False))))).
       rr_Target (res_reconciliationResult (projr (out_result
          (demo_pass demo_deps_broken_diff demo_m demo_project False)))) ! i \<noteq> None
       \<or> rr_Live (res_reconciliationResult (projr (out_result
          (demo_pass demo_deps_broken_diff demo_m demo_project False)))) ! i \<noteq> None"
    "\<forall>i < length (rr_Target (res_reconciliationResult (projr (out_result
          (demo_pass demo_deps demo_m_no_live demo_project False))))).
       rr_Target (res_reconciliationResult (projr (out_result
          (demo_pass demo_deps demo_m_no_live demo_project False)))) ! i \<noteq> None
       \<or> rr_Live (res_reconciliationResult (projr (out_result
          (demo_pass demo_deps demo_m_no_live demo_project False)))) ! i \<noteq> None"
    "\<forall>i < length (rr_Target (res_reconciliationResult (projr (out_result
          (demo_pass demo_deps demo_m_failing demo_project True))))).
       rr_Target (res_reconciliationResult (projr (out_result
          (demo_pass demo_deps demo_m_failing demo_project True)))) ! i \<noteq> None
       \<or> rr_Live (res_reconciliationResult (projr (out_result
          (demo_pass demo_deps demo_m_failing demo_project True)))) ! i \<noteq> None"
    unfolding targets by (simp_all add: less_Suc_eq)
  have entries:
    "0 < length (res_resources (projr (out_result
          (demo_pass demo_deps_broken_diff demo_m demo_project False))))"
    "1 < length (res_resources (projr (out_result
          (demo_pass demo_deps_broken_diff demo_m demo_project False))))"
    "0 < length (res_resources (projr (out_result
          (demo_pass demo_deps demo_m_no_live demo_project False))))"
    "1 < length (res_resources (projr (out_result
          (demo_pass demo_deps demo_m_no_live demo_project False))))"
    by code_simp+
  from failedToLoadObjs_forces_unknown[OF failed(1)[unfolded demo_pass_def]
         returned(1)[unfolded demo_pass_def] paired(1)[unfolded demo_pass_def]]
  have diff: "ss_Status (res_syncStatus (projr (out_result
          (demo_pass demo_deps_broken_diff demo_m demo_project False)))) = SyncStatusCodeUnknown"
    and diff_each: "\<And>rs. rs \<in> set (res_resources (projr (out_result
          (demo_pass demo_deps_broken_diff demo_m demo_project False)))) \<Longrightarrow>
        rs_Status rs = SyncStatusCodeUnknown"
    unfolding demo_pass_def by blast+
  from failedToLoadObjs_forces_unknown[OF failed(2)[unfolded demo_pass_def]
         returned(2)[unfolded demo_pass_def] paired(2)[unfolded demo_pass_def]]
  have live: "ss_Status (res_syncStatus (projr (out_result
          (demo_pass demo_deps demo_m_no_live demo_project False)))) = SyncStatusCodeUnknown"
    and live_each: "\<And>rs. rs \<in> set (res_resources (projr (out_result
          (demo_pass demo_deps demo_m_no_live demo_project False)))) \<Longrightarrow>
        rs_Status rs = SyncStatusCodeUnknown"
    unfolding demo_pass_def by blast+
  from failedToLoadObjs_forces_unknown[OF failed(3)[unfolded demo_pass_def]
         returned(3)[unfolded demo_pass_def] paired(3)[unfolded demo_pass_def]]
  have repo: "ss_Status (res_syncStatus (projr (out_result
          (demo_pass demo_deps demo_m_failing demo_project True)))) = SyncStatusCodeUnknown"
    unfolding demo_pass_def by blast
  from failed targets(1) diff diff_each[OF nth_mem[OF entries(1)]] diff_each[OF nth_mem[OF entries(2)]]
    live live_each[OF nth_mem[OF entries(3)]] live_each[OF nth_mem[OF entries(4)]] repo
  show ?thesis by blast
qed

subsection \<open>C7: the classification of a pair\<close>




end
